(* ===== verification/Prelude.thy ===== *)
theory Prelude
  imports Complex_Main "HOL-Library.List_Lexorder" "HOL-Library.Char_ord"
begin

text \<open>
  Shared vocabulary of the development. Python exceptions become values of
  \<open>py_error\<close>, a fallible call returns \<open>'a result\<close> (\<open>Inl\<close> the exception), and a
  pandas cell that may hold NaN or NaT is an \<open>'a cell\<close> (\<open>None\<close> the missing value).
  The generic helpers the components share live here: the mean and sample standard
  deviation pandas computes over a column (both NaN on too few values), Python's
  \<open>min(..., key=...)\<close> over an ordered collection (first minimal element, ValueError on
  an empty one), and index lookup in a list. The lemma collection \<open>model_simps\<close>
  gathers the characteristic equations the component proofs unfold.
\<close>

named_theorems model_simps "characteristic equations of the model's operations"

datatype py_error = ValueError | KeyError | AttributeError | TypeError | ParseError | OSError | EOFError

type_synonym 'a result = "py_error + 'a"
type_synonym 'a cell = "'a option"

text \<open>Sequencing of fallible steps: the first exception propagates.\<close>

definition res_bind :: "'a result \<Rightarrow> ('a \<Rightarrow> 'b result) \<Rightarrow> 'b result" where
  "res_bind m f = (case m of Inl e \<Rightarrow> Inl e | Inr x \<Rightarrow> f x)"

definition of_option :: "py_error \<Rightarrow> 'a option \<Rightarrow> 'a result" where
  "of_option e x = (case x of None \<Rightarrow> Inl e | Some v \<Rightarrow> Inr v)"

text \<open>pandas' \<open>Series.mean\<close> and \<open>Series.std\<close> (ddof 1): NaN for an empty column, and
  for the std also for a single value.\<close>

definition mean_list :: "real list \<Rightarrow> real cell" where
  "mean_list xs = (if xs = [] then None else Some (sum_list xs / real (length xs)))"

definition std_list :: "real list \<Rightarrow> real cell" where
  "std_list xs =
     (if length xs < 2 then None
      else let m = sum_list xs / real (length xs)
           in Some (sqrt (sum_list (map (\<lambda>x. (x - m)\<^sup>2) xs) / real (length xs - 1))))"

text \<open>The first element whose key is minimal; an empty sequence raises ValueError.\<close>

fun argmin_first :: "('a \<Rightarrow> 'b::linorder) \<Rightarrow> 'a list \<Rightarrow> 'a result" where
  "argmin_first f [] = Inl ValueError"
| "argmin_first f [x] = Inr x"
| "argmin_first f (x # y # ys) =
     (case argmin_first f (y # ys) of
        Inr z \<Rightarrow> Inr (if f z < f x then z else x)
      | Inl e \<Rightarrow> Inl e)"

fun index_of :: "'a list \<Rightarrow> 'a \<Rightarrow> nat" where
  "index_of [] x = 0"
| "index_of (y # ys) x = (if x = y then 0 else Suc (index_of ys x))"

lemma res_bind_simps [simp]:
  "res_bind (Inl e) f = Inl e" "res_bind (Inr x) f = f x"
  by (simp_all add: res_bind_def)

lemma res_bind_map_Inr:
  "map_sum id f (res_bind m (\<lambda>x. Inr (g x))) = map_sum id (f \<circ> g) m"
  by (cases m) auto

lemma res_bind_Inr_iff:
  "res_bind m f = Inr y \<longleftrightarrow> (\<exists>x. m = Inr x \<and> f x = Inr y)"
  by (cases m) auto

lemma of_option_simps [simp]:
  "of_option e None = Inl e" "of_option e (Some v) = Inr v"
  by (simp_all add: of_option_def)

subsection \<open>Column statistics as pandas computes them\<close>

lemma mean_list_Some_iff [model_simps]:
  "mean_list xs = Some m \<longleftrightarrow> xs \<noteq> [] \<and> m = sum_list xs / real (length xs)"
  by (auto simp: mean_list_def)

lemma mean_list_replicate:
  "0 < n \<Longrightarrow> mean_list (replicate n c) = Some c"
  by (simp add: mean_list_def sum_list_replicate)

lemma mean_list_bounds:
  assumes "mean_list xs = Some m" and "\<forall>x\<in>set xs. lo \<le> x \<and> x \<le> hi"
  shows "lo \<le> m \<and> m \<le> hi"
proof -
  from assms(1) have ne: "xs \<noteq> []" and m: "m = sum_list xs / real (length xs)"
    by (auto simp: mean_list_def split: if_splits)
  have "sum_list (map (\<lambda>_. lo) xs) \<le> sum_list xs"
    using assms(2) sum_list_mono[of xs "\<lambda>_. lo" "\<lambda>x. x"] by simp
  then have lo: "real (length xs) * lo \<le> sum_list xs" by (simp add: sum_list_triv)
  have "sum_list xs \<le> sum_list (map (\<lambda>_. hi) xs)"
    using assms(2) sum_list_mono[of xs "\<lambda>x. x" "\<lambda>_. hi"] by simp
  then have hi: "sum_list xs \<le> real (length xs) * hi" by (simp add: sum_list_triv)
  from ne have pos: "0 < real (length xs)" by simp
  from lo pos m have "lo \<le> m" by (simp add: pos_le_divide_eq mult.commute)
  moreover from hi pos m have "m \<le> hi" by (simp add: pos_divide_le_eq mult.commute)
  ultimately show ?thesis ..
qed

subsection \<open>Python's \<open>min(xs, key=f)\<close>\<close>

lemma argmin_first_Inr:
  "xs \<noteq> [] \<Longrightarrow> \<exists>z. argmin_first f xs = Inr z"
  by (induction f xs rule: argmin_first.induct) auto

lemma argmin_first_mem:
  "argmin_first f xs = Inr z \<Longrightarrow> z \<in> set xs"
  by (induction f xs arbitrary: z rule: argmin_first.induct)
     (auto split: sum.splits if_splits)

lemma argmin_first_le:
  "argmin_first f xs = Inr z \<Longrightarrow> u \<in> set xs \<Longrightarrow> f z \<le> f u"
proof (induction f xs arbitrary: z u rule: argmin_first.induct)
  case (3 f x y ys)
  then obtain w where w: "argmin_first f (y # ys) = Inr w"
    and z: "z = (if f w < f x then w else x)"
    by (auto split: sum.splits)
  have "\<forall>v\<in>set (y # ys). f w \<le> f v" using "3.IH" w by blast
  with z "3.prems"(2) show ?case by (auto split: if_splits)
qed auto

lemma argmin_first_first:
  assumes "argmin_first f xs = Inr z" and "i < length xs" and "f (xs ! i) = f z"
  shows "\<exists>j\<le>i. xs ! j = z"
  using assms
proof (induction f xs arbitrary: z i rule: argmin_first.induct)
  case (3 f x y ys)
  then obtain w where w: "argmin_first f (y # ys) = Inr w"
    and z: "z = (if f w < f x then w else x)"
    by (auto split: sum.splits)
  show ?case
  proof (cases "f w < f x")
    case True
    with z have zw: "z = w" by simp
    have "i \<noteq> 0"
    proof
      assume "i = 0"
      with "3.prems"(3) zw True show False by simp
    qed
    then obtain k where i: "i = Suc k" by (cases i) auto
    with "3.prems" zw have "k < length (y # ys)" and "f ((y # ys) ! k) = f w" by auto
    with "3.IH" w obtain j where "j \<le> k" and "(y # ys) ! j = w" by blast
    with i zw show ?thesis by (intro exI[of _ "Suc j"]) auto
  next
    case False
    with z show ?thesis by (intro exI[of _ 0]) auto
  qed
qed auto

subsection \<open>Lists\<close>

lemma concat_map_singletons:
  "(\<And>x. x \<in> set xs \<Longrightarrow> f x = [g x]) \<Longrightarrow> concat (map f xs) = map g xs"
  by (induction xs) auto

lemma map_of_concat_map_None:
  "(\<And>x. x \<in> set xs \<Longrightarrow> map_of (f x) k = None) \<Longrightarrow> map_of (concat (map f xs)) k = None"
  by (induction xs) (auto simp: map_of_append)

lemma zip_map_same: "zip (map f xs) (map g xs) = map (\<lambda>x. (f x, g x)) xs"
  by (induction xs) auto

lemma argmin_first_map:
  "argmin_first f (map g xs) = map_sum id g (argmin_first (f \<circ> g) xs)"
  by (induction "f \<circ> g" xs rule: argmin_first.induct) (auto split: sum.split)

subsection \<open>Position of an element in a list\<close>

lemma index_of_less [simp]: "x \<in> set xs \<Longrightarrow> index_of xs x < length xs"
  by (induction xs) auto

lemma nth_index_of [simp]: "x \<in> set xs \<Longrightarrow> xs ! index_of xs x = x"
  by (induction xs) auto

lemma index_of_nth [simp]: "distinct xs \<Longrightarrow> i < length xs \<Longrightarrow> index_of xs (xs ! i) = i"
proof (induction xs arbitrary: i)
  case (Cons y ys)
  then show ?case by (cases i) (auto simp: nth_mem)
qed simp

lemma index_of_inj:
  "x \<in> set xs \<Longrightarrow> y \<in> set xs \<Longrightarrow> index_of xs x = index_of xs y \<Longrightarrow> x = y"
  by (metis nth_index_of)

end
