(* ===== verification/PyBuiltins.thy ===== *)
theory PyBuiltins
  imports Prelude
begin

text \<open>
  The Python string built-ins the pipeline calls on raw fields, at the strength the
  code relies on them: \<open>str.strip()\<close>, \<open>str.split(sep)\<close>, slicing \<open>s[:k]\<close> and the
  conversion \<open>int(s)\<close> of a decimal string. Strings are byte strings
  (\<^typ>\<open>string\<close>); the whitespace \<open>int\<close> and \<open>strip\<close> remove is the ASCII one.
  \<open>int(s)\<close> accepts surrounding whitespace, one optional sign and decimal digits with
  single underscores between digits; anything else raises ValueError, here \<open>None\<close>.
  The formatting side (\<open>show_nat\<close>, \<open>pad2\<close>) exists so that round trips can be stated.
\<close>

definition is_py_space :: "char \<Rightarrow> bool" where
  "is_py_space c \<longleftrightarrow> (let n = of_char c :: nat in (9 \<le> n \<and> n \<le> 13) \<or> (28 \<le> n \<and> n \<le> 32))"

definition py_strip :: "string \<Rightarrow> string" where
  "py_strip s = rev (dropWhile is_py_space (rev (dropWhile is_py_space s)))"

definition is_digit :: "char \<Rightarrow> bool" where
  "is_digit c \<longleftrightarrow> CHR ''0'' \<le> c \<and> c \<le> CHR ''9''"

definition digit_value :: "char \<Rightarrow> nat" where
  "digit_value c = of_char c - 48"

text \<open>\<open>str.split(sep)\<close>: every occurrence of the separator cuts; no piece is dropped.\<close>

fun split_on :: "char \<Rightarrow> string \<Rightarrow> string list" where
  "split_on sep [] = [[]]"
| "split_on sep (c # cs) =
     (if c = sep then [] # split_on sep cs
      else (case split_on sep cs of w # ws \<Rightarrow> (c # w) # ws | [] \<Rightarrow> [[c]]))"

text \<open>\<open>sep.join(parts)\<close>, the inverse of \<open>split_on\<close>.\<close>

fun join_on :: "char \<Rightarrow> string list \<Rightarrow> string" where
  "join_on sep [] = []"
| "join_on sep [w] = w"
| "join_on sep (w # v # ws) = w @ sep # join_on sep (v # ws)"

text \<open>Digits with optional single underscores between them, read left to right.\<close>

fun py_digits_acc :: "nat \<Rightarrow> string \<Rightarrow> nat option" where
  "py_digits_acc acc [] = Some acc"
| "py_digits_acc acc [c] = (if is_digit c then Some (10 * acc + digit_value c) else None)"
| "py_digits_acc acc (c # d # ds) =
     (if is_digit c then py_digits_acc (10 * acc + digit_value c) (d # ds)
      else if c = CHR ''_'' \<and> is_digit d then py_digits_acc (10 * acc + digit_value d) ds
      else None)"

definition py_digits :: "string \<Rightarrow> nat option" where
  "py_digits s = (case s of [] \<Rightarrow> None
     | c # cs \<Rightarrow> if is_digit c then py_digits_acc (digit_value c) cs else None)"

definition py_int :: "string \<Rightarrow> int option" where
  "py_int s = (let t = py_strip s in
     case t of [] \<Rightarrow> None
     | c # cs \<Rightarrow>
         if c = CHR ''-'' then map_option (\<lambda>n. - int n) (py_digits cs)
         else if c = CHR ''+'' then map_option int (py_digits cs)
         else map_option int (py_digits t))"

text \<open>Slicing \<open>s[:k]\<close> never fails: it is \<^const>\<open>take\<close>.\<close>

definition str_prefix :: "nat \<Rightarrow> string \<Rightarrow> string" where
  "str_prefix k s = take k s"

subsection \<open>Decimal formatting\<close>

fun show_nat :: "nat \<Rightarrow> string" where
  "show_nat n = (if n < 10 then [char_of (48 + n)] else show_nat (n div 10) @ [char_of (48 + n mod 10)])"

definition pad2 :: "nat \<Rightarrow> string" where
  "pad2 n = (if n < 10 then CHR ''0'' # show_nat n else show_nat n)"

declare show_nat.simps [simp del]

subsection \<open>Lemmas\<close>

lemma split_on_not_Nil [simp]: "split_on sep s \<noteq> []"
  by (induction s) (auto split: list.split)

lemma split_on_no_sep: "sep \<notin> set s \<Longrightarrow> split_on sep s = [s]"
  by (induction s) auto

lemma split_on_append_sep:
  "sep \<notin> set a \<Longrightarrow> split_on sep (a @ sep # b) = a # split_on sep b"
proof (induction a)
  case (Cons c cs)
  then show ?case by (auto split: list.split)
qed simp

lemma join_on_Cons_Cons: "join_on sep ((c # w) # ws) = c # join_on sep (w # ws)"
  by (cases ws) simp_all

lemma join_on_Nil_Cons: "ws \<noteq> [] \<Longrightarrow> join_on sep ([] # ws) = sep # join_on sep ws"
  by (cases ws) simp_all

lemma join_on_split_on: "join_on sep (split_on sep s) = s"
proof (induction s)
  case (Cons c cs)
  then show ?case
    by (cases "split_on sep cs") (auto simp: join_on_Cons_Cons join_on_Nil_Cons)
qed simp

lemma is_digit_char_of [simp]: "(d::nat) < 10 \<Longrightarrow> is_digit (char_of (48 + d))"
  by (simp add: is_digit_def less_eq_char_def)

lemma digit_value_char_of [simp]: "(d::nat) < 10 \<Longrightarrow> digit_value (char_of (48 + d)) = d"
  by (simp add: digit_value_def)

lemma not_is_digit_sep [simp]:
  "\<not> is_digit CHR '':''" "\<not> is_digit CHR ''_''" "\<not> is_digit CHR ''-''" "\<not> is_digit CHR ''+''"
  by (simp_all add: is_digit_def)

lemma show_nat_digits: "\<forall>c\<in>set (show_nat n). is_digit c"
proof (induction n rule: show_nat.induct)
  case (1 n)
  then show ?case by (subst show_nat.simps) auto
qed

lemma show_nat_not_Nil [simp]: "show_nat n \<noteq> []"
  by (subst show_nat.simps) simp

lemma py_digits_acc_digits:
  assumes "\<forall>c\<in>set ds. is_digit c"
  shows "py_digits_acc acc ds = Some (foldl (\<lambda>v c. 10 * v + digit_value c) acc ds)"
  using assms
proof (induction acc ds rule: py_digits_acc.induct)
  case (3 acc c d ds)
  then show ?case by simp
qed simp_all

lemma foldl_show_nat:
  "foldl (\<lambda>v c. 10 * v + digit_value c) acc (show_nat n) = acc * 10 ^ length (show_nat n) + n"
proof (induction n arbitrary: acc rule: show_nat.induct)
  case (1 n)
  show ?case
  proof (cases "n < 10")
    case True
    then show ?thesis by (simp add: show_nat.simps[of n])
  next
    case False
    then have "foldl (\<lambda>v c. 10 * v + digit_value c) acc (show_nat n)
        = 10 * (acc * 10 ^ length (show_nat (n div 10)) + n div 10) + n mod 10"
      using "1.IH" by (subst show_nat.simps) simp
    also have "\<dots> = acc * 10 ^ length (show_nat n) + n"
      using False by (subst (2) show_nat.simps) (simp add: algebra_simps)
    finally show ?thesis .
  qed
qed

lemma py_digits_show_nat: "py_digits (show_nat n) = Some n"
proof -
  obtain c cs where sc: "show_nat n = c # cs"
    by (cases "show_nat n") auto
  from show_nat_digits[of n] sc have c: "is_digit c" and cs: "\<forall>x\<in>set cs. is_digit x"
    by auto
  have "py_digits (show_nat n) = Some (foldl (\<lambda>v c. 10 * v + digit_value c) 0 (show_nat n))"
    using sc c cs by (simp add: py_digits_def py_digits_acc_digits)
  then show ?thesis by (simp add: foldl_show_nat)
qed

lemma py_digits_pad2: "py_digits (pad2 n) = Some n"
proof (cases "n < 10")
  case True
  have "py_digits (CHR ''0'' # show_nat n) = Some (foldl (\<lambda>v c. 10 * v + digit_value c) 0 (show_nat n))"
    using show_nat_digits[of n] by (simp add: py_digits_def py_digits_acc_digits is_digit_def digit_value_def)
  with True show ?thesis by (simp add: pad2_def foldl_show_nat)
qed (simp add: pad2_def py_digits_show_nat)

lemma pad2_digits: "\<forall>c\<in>set (pad2 n). is_digit c"
  using show_nat_digits[of n] by (simp add: pad2_def is_digit_def)

lemma pad2_not_Nil [simp]: "pad2 n \<noteq> []"
  by (simp add: pad2_def)

lemma digits_not_space: "is_digit c \<Longrightarrow> \<not> is_py_space c"
  by (auto simp: is_digit_def is_py_space_def less_eq_char_def)

lemma py_strip_digits:
  assumes "\<forall>c\<in>set s. is_digit c" and "s \<noteq> []"
  shows "py_strip s = s"
proof -
  from assms obtain c cs where s: "s = c # cs" by (cases s) auto
  with assms have "\<not> is_py_space c" by (simp add: digits_not_space)
  with s have d: "dropWhile is_py_space s = s" by simp
  from assms obtain ys y where r: "s = ys @ [y]" by (cases s rule: rev_cases) auto
  with assms have "\<not> is_py_space y" by (simp add: digits_not_space)
  with r have "dropWhile is_py_space (rev s) = rev s" by simp
  with d show ?thesis by (simp add: py_strip_def)
qed

lemma py_int_pad2: "py_int (pad2 n) = Some (int n)"
proof -
  have strip: "py_strip (pad2 n) = pad2 n"
    by (rule py_strip_digits[OF pad2_digits pad2_not_Nil])
  obtain c cs where pc: "pad2 n = c # cs" by (cases "pad2 n") auto
  with pad2_digits[of n] have "is_digit c" by simp
  then have "c \<noteq> CHR ''-''" and "c \<noteq> CHR ''+''" by (auto simp: is_digit_def)
  with strip pc py_digits_pad2[of n] show ?thesis by (simp add: py_int_def)
qed

end
