(* ===== verification/Calendar.thy ===== *)
theory Calendar
  imports PyBuiltins "HOL-Library.Monad_Syntax"
begin

text \<open>
  Timestamps as the pipeline reads them. \<open>pd.to_datetime\<close> is modelled on the ISO-8601
  forms the scraped data and the prediction requests use: a date \<open>YYYY-MM-DD\<close>,
  optionally followed by \<open>T\<close> or a space and \<open>HH:MM\<close>, \<open>HH:MM:SS\<close> or
  \<open>HH:MM:SS.f\<close> with one to nine fraction digits. A string of another shape, or one
  naming an impossible date or time, gives \<open>None\<close> (NaT under \<open>errors='coerce'\<close>,
  an exception otherwise). Calendar arithmetic follows CPython's \<open>datetime\<close>
  (\<open>_days_before_year\<close>, \<open>_days_before_month\<close>, \<open>toordinal\<close>,
  \<open>weekday\<close>), which pandas' \<open>.dt\<close> accessors agree with on the proleptic Gregorian
  calendar; a difference of two timestamps is exact in nanoseconds, and its
  \<open>.days\<close> component is the floor of the difference in days.
\<close>

record timestamp =
  ts_year :: nat
  ts_month :: nat
  ts_day :: nat
  ts_hour :: nat
  ts_minute :: nat
  ts_second :: nat
  ts_nanos :: nat

subsection \<open>Gregorian calendar\<close>

definition is_leap :: "nat \<Rightarrow> bool" where
  "is_leap y \<longleftrightarrow> y mod 4 = 0 \<and> (y mod 100 \<noteq> 0 \<or> y mod 400 = 0)"

definition month_lengths :: "nat \<Rightarrow> nat list" where
  "month_lengths y = [31, if is_leap y then 29 else 28, 31, 30, 31, 30, 31, 31, 30, 31, 30, 31]"

definition days_in_month :: "nat \<Rightarrow> nat \<Rightarrow> nat" where
  "days_in_month y m = month_lengths y ! (m - 1)"

definition valid_date :: "nat \<Rightarrow> nat \<Rightarrow> nat \<Rightarrow> bool" where
  "valid_date y m d \<longleftrightarrow> 1 \<le> y \<and> 1 \<le> m \<and> m \<le> 12 \<and> 1 \<le> d \<and> d \<le> days_in_month y m"

definition days_before_year :: "nat \<Rightarrow> int" where
  "days_before_year y = (let y1 = int y - 1 in y1 * 365 + y1 div 4 - y1 div 100 + y1 div 400)"

definition days_before_month :: "nat \<Rightarrow> nat \<Rightarrow> int" where
  "days_before_month y m = int (sum_list (take (m - 1) (month_lengths y)))"

text \<open>Day 1 is 0001-01-01, as \<open>date.toordinal()\<close>.\<close>

definition ymd2ord :: "nat \<Rightarrow> nat \<Rightarrow> nat \<Rightarrow> int" where
  "ymd2ord y m d = days_before_year y + days_before_month y m + int d"

text \<open>Monday is 0, as \<open>date.weekday()\<close> and \<open>Series.dt.dayofweek\<close>.\<close>

definition weekday :: "timestamp \<Rightarrow> nat" where
  "weekday t = nat ((ymd2ord (ts_year t) (ts_month t) (ts_day t) + 6) mod 7)"

definition ts_nanoseconds :: "timestamp \<Rightarrow> int" where
  "ts_nanoseconds t =
     ((ymd2ord (ts_year t) (ts_month t) (ts_day t) * 86400
       + int (ts_hour t) * 3600 + int (ts_minute t) * 60 + int (ts_second t)) * 1000000000
      + int (ts_nanos t))"

text \<open>\<open>(a - b).days\<close> of two timestamps: the timedelta floored to whole days.\<close>

definition delta_days :: "timestamp \<Rightarrow> timestamp \<Rightarrow> int" where
  "delta_days a b = (ts_nanoseconds a - ts_nanoseconds b) div (86400 * 1000000000)"

subsection \<open>Parsing\<close>

definition digits_val :: "string \<Rightarrow> nat option" where
  "digits_val s =
     (if s \<noteq> [] \<and> list_all is_digit s then Some (foldl (\<lambda>v c. 10 * v + digit_value c) 0 s)
      else None)"

definition parse_date :: "string \<Rightarrow> (nat \<times> nat \<times> nat) option" where
  "parse_date s =
     (if length s = 10 \<and> s ! 4 = CHR ''-'' \<and> s ! 7 = CHR ''-'' then do {
        y \<leftarrow> digits_val (take 4 s);
        m \<leftarrow> digits_val (take 2 (drop 5 s));
        d \<leftarrow> digits_val (drop 8 s);
        if valid_date y m d then Some (y, m, d) else None
      } else None)"

text \<open>A fraction of one to nine digits, read as nanoseconds.\<close>

definition parse_fraction :: "string \<Rightarrow> nat option" where
  "parse_fraction f =
     (if 1 \<le> length f \<and> length f \<le> 9 then digits_val (f @ replicate (9 - length f) CHR ''0'')
      else None)"

definition parse_time :: "string \<Rightarrow> (nat \<times> nat \<times> nat \<times> nat) option" where
  "parse_time s =
     (if 5 \<le> length s \<and> s ! 2 = CHR '':'' then do {
        h \<leftarrow> digits_val (take 2 s);
        mi \<leftarrow> digits_val (take 2 (drop 3 s));
        (sec, ns) \<leftarrow>
          (if length s = 5 then Some (0, 0)
           else if 8 \<le> length s \<and> s ! 5 = CHR '':'' then do {
             sec \<leftarrow> digits_val (take 2 (drop 6 s));
             ns \<leftarrow> (if length s = 8 then Some 0
                    else if s ! 8 = CHR ''.'' then parse_fraction (drop 9 s) else None);
             Some (sec, ns)
           } else None);
        if h < 24 \<and> mi < 60 \<and> sec < 60 then Some (h, mi, sec, ns) else None
      } else None)"

definition to_datetime :: "string \<Rightarrow> timestamp option" where
  "to_datetime s = do {
     (y, m, d) \<leftarrow> parse_date (take 10 s);
     (h, mi, sec, ns) \<leftarrow>
       (let r = drop 10 s in
        if r = [] then Some (0, 0, 0, 0)
        else if hd r = CHR ''T'' \<or> hd r = CHR '' '' then parse_time (tl r)
        else None);
     Some \<lparr>ts_year = y, ts_month = m, ts_day = d, ts_hour = h, ts_minute = mi,
           ts_second = sec, ts_nanos = ns\<rparr>
   }"

subsection \<open>Formatting, for round trips\<close>

definition pad4 :: "nat \<Rightarrow> string" where
  "pad4 n = replicate (4 - length (show_nat n)) CHR ''0'' @ show_nat n"

definition show_timestamp :: "timestamp \<Rightarrow> string" where
  "show_timestamp t =
     pad4 (ts_year t) @ CHR ''-'' # pad2 (ts_month t) @ CHR ''-'' # pad2 (ts_day t) @
     CHR ''T'' # pad2 (ts_hour t) @ CHR '':'' # pad2 (ts_minute t) @ CHR '':'' # pad2 (ts_second t)"

definition valid_timestamp :: "timestamp \<Rightarrow> bool" where
  "valid_timestamp t \<longleftrightarrow> valid_date (ts_year t) (ts_month t) (ts_day t) \<and> ts_year t < 10000 \<and>
     ts_hour t < 24 \<and> ts_minute t < 60 \<and> ts_second t < 60 \<and> ts_nanos t < 1000000000"

text \<open>The definitions that evaluate \<open>to_datetime\<close> on a literal string by \<open>simp\<close>.\<close>

lemmas parse_eval_defs =
  to_datetime_def parse_date_def parse_time_def parse_fraction_def digits_val_def is_digit_def
  digit_value_def valid_date_def days_in_month_def month_lengths_def is_leap_def

lemmas calendar_defs [model_simps] =
  ymd2ord_def days_before_year_def days_before_month_def month_lengths_def is_leap_def
  weekday_def ts_nanoseconds_def delta_days_def

end
