(* ===== verification/LabelEncoder.thy ===== *)
theory LabelEncoder
  imports Prelude
begin

text \<open>
  \<open>sklearn.preprocessing.LabelEncoder\<close> on the string columns of the pipeline.
  \<open>fit\<close> stores \<open>classes_\<close>, the sorted distinct training values
  (\<open>sorted(set(values))\<close> for object columns); \<open>transform\<close> first rejects any value
  outside \<open>classes_\<close> with ValueError and otherwise maps each value through the table
  \<open>{val: i for i, val in enumerate(classes_)}\<close>; \<open>inverse_transform\<close> indexes
  \<open>classes_\<close> and rejects codes out of range. \<open>encode_infer\<close> is the
  try/except block of \<open>predict_single_flight\<close> that turns the ValueError into code 0.
  The invariant \<open>le_wf\<close> (classes sorted and distinct) holds for every fitted encoder,
  and the encoder is a bijection between its classes and \<open>[0, len(classes_))\<close>.
\<close>

record label_encoder =
  classes :: "string list"

definition le_fit :: "string list \<Rightarrow> label_encoder" where
  "le_fit ys = \<lparr>classes = sort (remdups ys)\<rparr>"

definition le_table :: "label_encoder \<Rightarrow> string \<Rightarrow> nat option" where
  "le_table le = map_of (zip (classes le) [0..<length (classes le)])"

definition le_transform :: "label_encoder \<Rightarrow> string list \<Rightarrow> nat list result" where
  "le_transform le ys =
     (if list_all (\<lambda>y. y \<in> set (classes le)) ys
      then Inr (map (\<lambda>y. the (le_table le y)) ys)
      else Inl ValueError)"

definition le_fit_transform :: "string list \<Rightarrow> label_encoder \<times> nat list" where
  "le_fit_transform ys = (let le = le_fit ys in (le, map (\<lambda>y. the (le_table le y)) ys))"

definition le_inverse_transform :: "label_encoder \<Rightarrow> nat list \<Rightarrow> string list result" where
  "le_inverse_transform le cs =
     (if list_all (\<lambda>c. c < length (classes le)) cs then Inr (map (\<lambda>c. classes le ! c) cs)
      else Inl ValueError)"

text \<open>Lines 419--426: an unseen value is encoded as 0; the warning is printed only when
  the encoder has classes. The result carries the code and whether a warning was printed.\<close>

definition encode_infer :: "label_encoder \<Rightarrow> string \<Rightarrow> nat \<times> bool" where
  "encode_infer le v =
     (case le_transform le [v] of
        Inr cs \<Rightarrow> (hd cs, False)
      | Inl _ \<Rightarrow> (0, classes le \<noteq> []))"

definition le_wf :: "label_encoder \<Rightarrow> bool" where
  "le_wf le \<longleftrightarrow> sorted (classes le) \<and> distinct (classes le)"

subsection \<open>Lemmas\<close>

lemma map_of_zip_upt:
  "map_of (zip xs [k..<k + length xs]) v = (if v \<in> set xs then Some (k + index_of xs v) else None)"
proof (induction xs arbitrary: k)
  case (Cons x xs)
  have "[k..<k + length (x # xs)] = k # [Suc k..<Suc k + length xs]"
    by (simp add: upt_conv_Cons del: upt_Suc)
  with Cons.IH[of "Suc k"] show ?case by auto
qed simp

lemma le_table_eq [model_simps]:
  "le_table le v = (if v \<in> set (classes le) then Some (index_of (classes le) v) else None)"
  using map_of_zip_upt[of "classes le" 0 v] by (simp add: le_table_def)

lemma le_fit_classes [simp]: "set (classes (le_fit ys)) = set ys"
  by (simp add: le_fit_def)

lemma le_fit_Nil_iff [simp]: "classes (le_fit ys) = [] \<longleftrightarrow> ys = []"
  by (metis le_fit_classes set_empty)

lemma le_fit_wf: "le_wf (le_fit ys)"
  by (simp add: le_wf_def le_fit_def)

lemma le_transform_Inr_iff:
  "le_transform le ys = Inr cs \<longleftrightarrow>
     set ys \<subseteq> set (classes le) \<and> cs = map (index_of (classes le)) ys"
  by (auto simp: le_transform_def le_table_eq list_all_iff)

lemma le_transform_single:
  "v \<in> set (classes le) \<Longrightarrow> le_transform le [v] = Inr [index_of (classes le) v]"
  by (simp add: le_transform_Inr_iff)

lemma le_transform_unseen:
  "v \<notin> set (classes le) \<Longrightarrow> le_transform le [v] = Inl ValueError"
  by (simp add: le_transform_def)

lemma le_fit_transform_codes:
  "le_fit_transform ys = (le_fit ys, map (index_of (classes (le_fit ys))) ys)"
  by (auto simp: le_fit_transform_def le_table_eq Let_def intro!: map_cong)

lemma index_of_sorted_mono:
  assumes "sorted xs" "distinct xs" "v \<in> set xs" "w \<in> set xs" "v < w"
  shows "index_of xs v < index_of xs w"
proof (rule ccontr)
  assume "\<not> index_of xs v < index_of xs w"
  then have le: "index_of xs w \<le> index_of xs v" by simp
  have "xs ! index_of xs w \<le> xs ! index_of xs v"
    using sorted_nth_mono[OF assms(1) le index_of_less[OF assms(3)]] .
  with assms(3,4,5) show False by simp
qed

lemma le_fit_length: "length (classes (le_fit ys)) = card (set ys)"
  by (simp add: le_fit_def length_remdups_card_conv)

lemma le_inverse_transform_index:
  "set vs \<subseteq> set (classes le) \<Longrightarrow>
   le_inverse_transform le (map (index_of (classes le)) vs) = Inr vs"
  by (auto simp: le_inverse_transform_def list_all_iff intro!: map_idI)

lemma encode_infer_seen:
  "v \<in> set (classes le) \<Longrightarrow> encode_infer le v = (index_of (classes le) v, False)"
  by (simp add: encode_infer_def le_transform_single)

lemma encode_infer_unseen:
  "v \<notin> set (classes le) \<Longrightarrow> encode_infer le v = (0, classes le \<noteq> [])"
  by (simp add: encode_infer_def le_transform_unseen)

subsection \<open>Properties\<close>

text \<open>C2. A fitted encoder is a bijection from the set of training values onto the
  sequential codes \<open>0, ..., n - 1\<close>, n the number of distinct training values.\<close>

theorem le_fit_bijection:
  "bij_betw (\<lambda>v. the (le_table (le_fit ys) v)) (set ys) {0..<card (set ys)}"
proof -
  let ?xs = "classes (le_fit ys)"
  have wf: "distinct ?xs" using le_fit_wf[of ys] by (simp add: le_wf_def)
  have inj: "inj_on (index_of ?xs) (set ys)"
  proof (rule inj_onI)
    fix v w assume "v \<in> set ys" "w \<in> set ys" "index_of ?xs v = index_of ?xs w"
    then show "v = w" using index_of_inj[of v ?xs w] by simp
  qed
  have img: "index_of ?xs ` set ys = {0..<card (set ys)}"
  proof
    show "index_of ?xs ` set ys \<subseteq> {0..<card (set ys)}"
      using index_of_less[of _ ?xs] by (auto simp: le_fit_length)
    show "{0..<card (set ys)} \<subseteq> index_of ?xs ` set ys"
    proof
      fix i assume "i \<in> {0..<card (set ys)}"
      then have i: "i < length ?xs" by (simp add: le_fit_length)
      then have "?xs ! i \<in> set ?xs" by (rule nth_mem)
      then have mem: "?xs ! i \<in> set ys" by simp
      from wf i have idx: "index_of ?xs (?xs ! i) = i" by (rule index_of_nth)
      show "i \<in> index_of ?xs ` set ys"
        using image_eqI[of i "index_of ?xs" "?xs ! i" "set ys"] idx mem by simp
    qed
  qed
  have bij: "bij_betw (index_of ?xs) (set ys) {0..<card (set ys)}"
    using inj img by (simp add: bij_betw_def)
  have "\<And>v. v \<in> set ys \<Longrightarrow> the (le_table (le_fit ys) v) = index_of ?xs v"
    by (simp add: le_table_eq)
  then show ?thesis
    using bij bij_betw_cong[of "set ys" "\<lambda>v. the (le_table (le_fit ys) v)" "index_of ?xs"]
    by blast
qed

text \<open>C3. Encoding round trip: every list of values drawn from the training column
  transforms without error, and inverse-transforming the codes gives the values back.\<close>

theorem le_roundtrip:
  assumes "set vs \<subseteq> set ys"
  shows "\<exists>cs. le_transform (le_fit ys) vs = Inr cs \<and> le_inverse_transform (le_fit ys) cs = Inr vs"
proof -
  let ?le = "le_fit ys"
  have sub: "set vs \<subseteq> set (classes ?le)" using assms by simp
  then have "le_transform ?le vs = Inr (map (index_of (classes ?le)) vs)"
    by (simp add: le_transform_Inr_iff)
  with le_inverse_transform_index[OF sub] show ?thesis by blast
qed

theorem le_roundtrip_witness:
  "set [''VN'', ''VJ''] \<subseteq> set [''VJ'', ''VN'', ''QH''] \<and>
   (\<exists>cs. le_transform (le_fit [''VJ'', ''VN'', ''QH'']) [''VN'', ''VJ''] = Inr cs \<and>
         le_inverse_transform (le_fit [''VJ'', ''VN'', ''QH'']) cs = Inr [''VN'', ''VJ''])"
  using le_roundtrip[of "[''VN'', ''VJ'']" "[''VJ'', ''VN'', ''QH'']"] by simp

text \<open>C26. A value absent from the training vocabulary makes \<open>transform\<close> raise
  ValueError, and the inference path recovers with code 0, printing its warning exactly
  when the encoder has classes; it never fails.\<close>

theorem le_unseen_fallback:
  assumes "v \<notin> set ys"
  shows "le_transform (le_fit ys) [v] = Inl ValueError \<and> encode_infer (le_fit ys) v = (0, ys \<noteq> [])"
  using assms by (simp add: le_transform_unseen encode_infer_unseen)

theorem le_unseen_fallback_witness:
  "''BL'' \<notin> set [''VJ'', ''VN''] \<and>
   le_transform (le_fit [''VJ'', ''VN'']) [''BL''] = Inl ValueError \<and>
   encode_infer (le_fit [''VJ'', ''VN'']) ''BL'' = (0, [''VJ'', ''VN''] \<noteq> [])"
  using le_unseen_fallback[of "''BL''" "[''VJ'', ''VN'']"] by simp

text \<open>C27. The fallback code collides with a trained code: an unseen value is encoded
  exactly as the smallest training value, so the model cannot tell them apart.\<close>

theorem le_fallback_collides:
  assumes "ys \<noteq> []" and "v \<notin> set ys"
  shows "fst (encode_infer (le_fit ys) v) = fst (encode_infer (le_fit ys) (Min (set ys)))"
proof -
  let ?xs = "classes (le_fit ys)"
  have "?xs = sort (remdups ys)" by (simp add: le_fit_def)
  moreover have "sort (remdups ys) ! 0 = Min (set ys)"
    using assms(1) by (metis (no_types) List.finite_set set_empty set_remdups
      sorted_list_of_set_nonempty sorted_list_of_set_sort_remdups nth_Cons_0)
  ultimately have hd: "?xs ! 0 = Min (set ys)" by simp
  have ne: "?xs \<noteq> []" using assms(1) by simp
  have mem: "Min (set ys) \<in> set ?xs" using assms(1) by simp
  have "index_of ?xs (Min (set ys)) = 0"
    using hd ne by (cases ?xs) auto
  with encode_infer_seen[OF mem] have seen: "fst (encode_infer (le_fit ys) (Min (set ys))) = 0"
    by simp
  have "v \<notin> set ?xs" using assms(2) by simp
  then have "fst (encode_infer (le_fit ys) v) = 0"
    using encode_infer_unseen by simp
  with seen show ?thesis by (simp only:)
qed

theorem le_fallback_collides_witness:
  "[''VJ'', ''VN''] \<noteq> [] \<and> ''BL'' \<notin> set [''VJ'', ''VN''] \<and>
   fst (encode_infer (le_fit [''VJ'', ''VN'']) ''BL'') =
   fst (encode_infer (le_fit [''VJ'', ''VN'']) (Min (set [''VJ'', ''VN''])))"
proof -
  have p1: "[''VJ'', ''VN''] \<noteq> []" by simp
  have p2: "''BL'' \<notin> set [''VJ'', ''VN'']" by simp
  show ?thesis using p1 p2 le_fallback_collides[OF p1 p2] by blast
qed

end
