(* ===== verification/DataModel.thy ===== *)
theory DataModel
  imports Calendar LabelEncoder
begin

text \<open>
  The data the components pass to each other (spec section 3). A row of the input CSV
  (\<open>raw_row\<close>) has the ten columns of \<open>column_names\<close> in
  \<open>load_and_preprocess_data\<close>, each possibly NaN; the price column is numeric. A row
  that survives cleaning (\<open>clean_row\<close>) has parsed timestamps and a present, stripped,
  non-empty aircraft type and a present price. The statistics dictionaries of the
  predictor object are records; a missing dictionary is \<open>None\<close>. A row of a pandas
  frame is an association list from column names to cells, in the frame's column
  order, so that selecting columns by name (and the KeyError of an absent one) is
  explicit. A prediction request is a Python dict of strings.
\<close>

record raw_row =
  r_create_at :: "string cell"
  r_flight_number :: "string cell"
  r_type_of_plane :: "string cell"
  r_departure_airport :: "string cell"
  r_arrival_airport :: "string cell"
  r_flight_date :: "string cell"
  r_departure_time :: "string cell"
  r_arrival_time :: "string cell"
  r_classes :: "string cell"
  r_price :: "real cell"

record clean_row =
  c_create_at :: timestamp
  c_flight_number :: "string cell"
  c_type_of_plane :: string
  c_departure_airport :: "string cell"
  c_arrival_airport :: "string cell"
  c_flight_date :: timestamp
  c_departure_time :: "string cell"
  c_arrival_time :: "string cell"
  c_classes :: "string cell"
  c_price :: real

text \<open>\<open>price_stats\<close>: min, max, mean and std of the prices that survive the outlier
  filter, Q1 and Q3 of the prices before it; each is NaN when its column is empty (and the
  std also for a single price).\<close>

record price_stats =
  ps_min :: "real cell"
  ps_max :: "real cell"
  ps_mean :: "real cell"
  ps_std :: "real cell"
  ps_q1 :: "real cell"
  ps_q3 :: "real cell"

record pop_stats =
  pop_mean :: "real cell"
  pop_std :: "real cell"

type_synonym frame_row = "(string \<times> real cell) list"
type_synonym request = "(string \<times> string) list"

text \<open>\<open>df[cols]\<close> on one row: every named column must exist (KeyError otherwise);
  the cells come in the order of \<open>cols\<close>.\<close>

fun select_columns :: "string list \<Rightarrow> frame_row \<Rightarrow> real cell list result" where
  "select_columns [] row = Inr []"
| "select_columns (c # cs) row =
     (case map_of row c of
        None \<Rightarrow> Inl KeyError
      | Some v \<Rightarrow> (case select_columns cs row of Inl e \<Rightarrow> Inl e | Inr vs \<Rightarrow> Inr (v # vs)))"

text \<open>\<open>astype(str)\<close> of a cell: NaN becomes the string \<open>'nan'\<close>.\<close>

definition cell_str :: "string cell \<Rightarrow> string" where
  "cell_str c = (case c of None \<Rightarrow> ''nan'' | Some s \<Rightarrow> s)"

text \<open>\<open>fillna(0)\<close>.\<close>

definition fillna0 :: "real cell \<Rightarrow> real" where
  "fillna0 c = (case c of None \<Rightarrow> 0 | Some v \<Rightarrow> v)"

lemma select_columns_present:
  "\<forall>c\<in>set cs. map_of row c \<noteq> None \<Longrightarrow>
   select_columns cs row = Inr (map (\<lambda>c. the (map_of row c)) cs)"
  by (induction cs) auto

lemma select_columns_KeyError:
  "c \<in> set cs \<Longrightarrow> map_of row c = None \<Longrightarrow> select_columns cs row = Inl KeyError"
  by (induction cs) (auto split: option.splits sum.splits)

lemma select_columns_Inr_iff:
  "select_columns cs row = Inr vs \<longleftrightarrow>
     (\<forall>c\<in>set cs. map_of row c \<noteq> None) \<and> vs = map (\<lambda>c. the (map_of row c)) cs"
proof (cases "\<forall>c\<in>set cs. map_of row c \<noteq> None")
  case True
  then show ?thesis by (auto simp: select_columns_present)
next
  case False
  then obtain c where "c \<in> set cs" "map_of row c = None" by blast
  then show ?thesis using False by (simp add: select_columns_KeyError)
qed

lemma select_columns_cong:
  "(\<And>c. c \<in> set cs \<Longrightarrow> map_of row c = map_of row' c) \<Longrightarrow>
   select_columns cs row = select_columns cs row'"
  by (induction cs) (auto split: option.splits sum.splits)

end
