(* ===== verification/TimeFeatures.thy ===== *)
theory TimeFeatures
  imports PyBuiltins
begin

text \<open>
  The clock- and day-count-derived features of \<open>src/main_model.py\<close>. The source
  writes each helper twice: once inside \<open>feature_engineering\<close> (training, applied
  column-wise) and once inside \<open>predict_single_flight\<close> (inference, one record). Both
  copies are modelled from their own lines so that their agreement is a theorem rather
  than an assumption. The training copies work on cells: a clock string that does not
  parse is NaN there and every later column computed from it stays NaN (the row is
  dropped by the final mask), while the inference copy maps it to 0 minutes.
\<close>

subsection \<open>Clock strings to minutes\<close>

text \<open>The common body of both \<open>time_to_minutes\<close>:
  \<open>hour, minute = map(int, time_str.split(':')); return hour * 60 + minute\<close>.
  Unpacking needs exactly two pieces and both must pass \<open>int()\<close>; the values are not
  range-checked.\<close>

definition parse_clock :: "string \<Rightarrow> int option" where
  "parse_clock s =
     (case split_on CHR '':'' s of
        [h, m] \<Rightarrow> (case (py_int h, py_int m) of
                     (Some hour, Some minute) \<Rightarrow> Some (hour * 60 + minute)
                   | _ \<Rightarrow> None)
      | _ \<Rightarrow> None)"

text \<open>Training: a missing field (\<open>NaN\<close>, whose \<open>.split\<close> raises AttributeError) or a
  failed parse yields NaN.\<close>

definition time_to_minutes :: "string cell \<Rightarrow> int cell" where
  "time_to_minutes t = (case t of None \<Rightarrow> None | Some s \<Rightarrow> parse_clock s)"

text \<open>Inference: the same failures yield 0.\<close>

definition time_to_minutes_infer :: "string \<Rightarrow> int" where
  "time_to_minutes_infer s = (case parse_clock s of None \<Rightarrow> 0 | Some m \<Rightarrow> m)"

subsection \<open>Flight duration with the midnight roll-over\<close>

text \<open>Training, lines 128--129: the difference of two columns, then
  \<open>df.loc[df['flight_duration'] < 0, 'flight_duration'] += 24 * 60\<close>; NaN stays NaN
  (a NaN comparison is false).\<close>

definition flight_duration_col :: "int cell \<Rightarrow> int cell \<Rightarrow> int cell" where
  "flight_duration_col dep arr =
     (case (dep, arr) of
        (Some d, Some a) \<Rightarrow> (let fd = a - d in Some (if fd < 0 then fd + 24 * 60 else fd))
      | _ \<Rightarrow> None)"

text \<open>Inference, lines 393--396: one record, the test on \<open>iloc[0]\<close>.\<close>

definition flight_duration_infer :: "int \<Rightarrow> int \<Rightarrow> int" where
  "flight_duration_infer dep arr = (let fd = arr - dep in if fd < 0 then fd + 24 * 60 else fd)"

subsection \<open>Departure time of day\<close>

text \<open>Training copy (lines 131--140), applied to a column that may hold NaN: every
  comparison with NaN is false, so NaN falls through to bucket 3.\<close>

definition categorize_time_of_day :: "int cell \<Rightarrow> nat" where
  "categorize_time_of_day cell =
     (case cell of None \<Rightarrow> 3
      | Some minutes \<Rightarrow>
          (let hour = minutes div 60 in
           if 6 \<le> hour \<and> hour < 12 then 0
           else if 12 \<le> hour \<and> hour < 18 then 1
           else if 18 \<le> hour \<and> hour < 22 then 2
           else 3))"

definition categorize_time_of_day_infer :: "int \<Rightarrow> nat" where
  "categorize_time_of_day_infer minutes =
     (let hour = minutes div 60 in
      if 6 \<le> hour \<and> hour < 12 then 0
      else if 12 \<le> hour \<and> hour < 18 then 1
      else if 18 \<le> hour \<and> hour < 22 then 2
      else 3)"

subsection \<open>Advance-booking bucket\<close>

definition categorize_advance_booking :: "int \<Rightarrow> nat" where
  "categorize_advance_booking days =
     (if days < 7 then 0 else if days < 30 then 1 else if days < 90 then 2 else 3)"

definition categorize_advance_booking_infer :: "int \<Rightarrow> nat" where
  "categorize_advance_booking_infer days =
     (if days < 7 then 0 else if days < 30 then 1 else if days < 90 then 2 else 3)"

text \<open>The clock string the scraper writes: two-digit hour, colon, two-digit minute.\<close>

definition clock_str :: "nat \<Rightarrow> nat \<Rightarrow> string" where
  "clock_str h m = pad2 h @ CHR '':'' # pad2 m"

lemmas time_feature_defs [model_simps] =
  time_to_minutes_def time_to_minutes_infer_def flight_duration_col_def
  flight_duration_infer_def categorize_time_of_day_def categorize_time_of_day_infer_def
  categorize_advance_booking_def categorize_advance_booking_infer_def

subsection \<open>Lemmas\<close>

lemma colon_not_in_pad2: "CHR '':'' \<notin> set (pad2 n)"
  using pad2_digits[of n] by auto

lemma parse_clock_clock_str: "parse_clock (clock_str h m) = Some (int h * 60 + int m)"
proof -
  have "split_on CHR '':'' (clock_str h m) = [pad2 h, pad2 m]"
    by (simp add: clock_str_def split_on_append_sep colon_not_in_pad2 split_on_no_sep)
  then show ?thesis by (simp add: parse_clock_def py_int_pad2)
qed

lemma flight_duration_col_Some:
  "flight_duration_col (Some d) (Some a) = Some (flight_duration_infer d a)"
  by (simp add: flight_duration_col_def flight_duration_infer_def Let_def)

lemma flight_duration_infer_range:
  assumes "0 \<le> d" "d < 1440" "0 \<le> a" "a < 1440"
  shows "0 \<le> flight_duration_infer d a \<and> flight_duration_infer d a < 1440"
  using assms by (simp add: flight_duration_infer_def Let_def)

lemma categorize_time_of_day_Some:
  "categorize_time_of_day (Some m) = categorize_time_of_day_infer m"
  by (simp add: categorize_time_of_day_def categorize_time_of_day_infer_def)

lemma time_to_minutes_infer_Some:
  "time_to_minutes (Some s) = Some m \<Longrightarrow> time_to_minutes_infer s = m"
  by (simp add: time_to_minutes_def time_to_minutes_infer_def)

lemma categorize_advance_booking_agree:
  "categorize_advance_booking_infer d = categorize_advance_booking d"
  by (simp add: categorize_advance_booking_def categorize_advance_booking_infer_def)

subsection \<open>Properties\<close>

text \<open>C30. For every training row whose two clock fields are well-formed "HH:MM" strings
  (hour below 24, minute below 60), the training path parses both and the derived
  \<open>flight_duration\<close>, after the midnight roll-over, lies in [0, 1440).\<close>

theorem flight_duration_in_day:
  assumes "h1 < 24" "m1 < 60" "h2 < 24" "m2 < 60"
  shows "\<exists>fd. flight_duration_col (time_to_minutes (Some (clock_str h1 m1)))
                (time_to_minutes (Some (clock_str h2 m2))) = Some fd \<and> 0 \<le> fd \<and> fd < 1440"
proof -
  let ?d = "int h1 * 60 + int m1" and ?a = "int h2 * 60 + int m2"
  have "0 \<le> ?d" "?d < 1440" "0 \<le> ?a" "?a < 1440" using assms by simp_all
  then have "0 \<le> flight_duration_infer ?d ?a \<and> flight_duration_infer ?d ?a < 1440"
    by (rule flight_duration_infer_range)
  then show ?thesis
    by (simp add: time_to_minutes_def parse_clock_clock_str flight_duration_col_Some)
qed

theorem flight_duration_in_day_witness:
  "(8::nat) < 24 \<and> (0::nat) < 60 \<and> (10::nat) < 24 \<and> (15::nat) < 60 \<and>
   (\<exists>fd. flight_duration_col (time_to_minutes (Some (clock_str 8 0)))
           (time_to_minutes (Some (clock_str 10 15))) = Some fd \<and> 0 \<le> fd \<and> fd < 1440)"
  using flight_duration_in_day[of 8 0 10 15] by simp

text \<open>The spec's duration scenarios, on both paths: 08:00 to 10:15 is 135 minutes, and
  23:30 to 01:00 is 90 minutes after the +1440 correction.\<close>

theorem flight_duration_scenarios:
  "flight_duration_col (time_to_minutes (Some ''08:00'')) (time_to_minutes (Some ''10:15'')) = Some 135 \<and>
   flight_duration_col (time_to_minutes (Some ''23:30'')) (time_to_minutes (Some ''01:00'')) = Some 90 \<and>
   flight_duration_infer (time_to_minutes_infer ''08:00'') (time_to_minutes_infer ''10:15'') = 135 \<and>
   flight_duration_infer (time_to_minutes_infer ''23:30'') (time_to_minutes_infer ''01:00'') = 90"
  by (simp add: time_feature_defs parse_clock_def py_int_def py_strip_def is_py_space_def
                py_digits_def is_digit_def digit_value_def)

text \<open>C32. \<open>time_to_minutes\<close> does not range-check its fields: every "HH:MM" string
  of two or more digits per field, whatever its hour and minute, is read as
  \<open>60 * hour + minute\<close> (so "08:75" is 555 minutes), and the training
  \<open>flight_duration\<close> from "00:00" takes every natural number as its value, those of
  1440 and above included, although the specification places it in [0, 1440).\<close>

theorem clock_not_range_checked:
  "time_to_minutes (Some (clock_str h m)) = Some (int h * 60 + int m) \<and>
   flight_duration_col (time_to_minutes (Some (clock_str 0 0)))
     (time_to_minutes (Some (clock_str (d div 60) (d mod 60)))) = Some (int d)"
proof -
  have "int (d div 60 * 60 + d mod 60) = int d" by simp
  then have "int (d div 60) * 60 + int (d mod 60) = int d" by (simp only: of_nat_add of_nat_mult of_nat_numeral)
  then show ?thesis
    by (simp add: time_to_minutes_def parse_clock_clock_str flight_duration_col_Some
                  flight_duration_infer_def)
qed

text \<open>C31. The advance-booking bucket counts the thresholds 7, 30 and 90 that
  \<open>days_in_advance\<close> has reached: the four buckets partition the integers with no gap
  or overlap, the boundaries falling between 6/7, 29/30 and 89/90.\<close>

theorem booking_category_thresholds:
  "categorize_advance_booking d = length (filter (\<lambda>b. b \<le> d) [7, 30, 90])"
  by (simp add: categorize_advance_booking_def)

end
