(* ===== verification/Features.thy ===== *)
theory Features
  imports DataModel TimeFeatures
begin

text \<open>
  FeatureEngineer: \<open>feature_engineering\<close> (lines 97--194) on the cleaned table, and
  the feature derivation inside \<open>predict_single_flight\<close> (lines 359--435) for one
  request. The training side adds its columns to every row (\<open>train_frame_row\<close>, in
  the order the code creates them), counts route and airline popularity over the whole
  cleaned table, fits one label encoder per categorical column, selects the fixed
  column list and drops the rows that hold a NaN. The inference side derives the same
  columns for one request (\<open>infer_frame_row\<close>), substituting the stored popularity
  means and the fallback code 0, then selects the stored column list by name and fills
  NaN with 0 (\<open>infer_vector\<close>). Only numeric columns are kept in a frame row: the
  string columns are never selected as features.
\<close>

definition categorical_cols :: "string list" where
  "categorical_cols =
     [''flight_number'', ''departure_airport'', ''arrival_airport'', ''classes'',
      ''type_of_plane'', ''airline'']"

definition feature_columns_list :: "string list" where
  "feature_columns_list =
     [''flight_number_encoded'', ''departure_airport_encoded'',
      ''arrival_airport_encoded'', ''classes_encoded'', ''type_of_plane_encoded'',
      ''airline_encoded'',
      ''create_hour'', ''create_day_of_week'', ''create_month'',
      ''flight_month'', ''flight_day_of_week'',
      ''days_in_advance'', ''departure_minutes'', ''flight_duration'',
      ''is_weekend_booking'', ''is_weekend_flight'',
      ''booking_category'', ''departure_time_category'',
      ''route_popularity'', ''airline_popularity'']"

definition encoded_name :: "string \<Rightarrow> string" where
  "encoded_name col = col @ ''_encoded''"

text \<open>\<open>df['flight_number'].str[:2]\<close>: NaN stays NaN.\<close>

definition airline_of :: "string cell \<Rightarrow> string cell" where
  "airline_of fn = map_option (str_prefix 2) fn"

definition cat_value :: "string \<Rightarrow> clean_row \<Rightarrow> string cell" where
  "cat_value col r =
     (if col = ''flight_number'' then c_flight_number r
      else if col = ''departure_airport'' then c_departure_airport r
      else if col = ''arrival_airport'' then c_arrival_airport r
      else if col = ''classes'' then c_classes r
      else if col = ''type_of_plane'' then Some (c_type_of_plane r)
      else if col = ''airline'' then airline_of (c_flight_number r)
      else None)"

subsection \<open>Training: table-wide statistics\<close>

text \<open>Lines 144--148: \<open>groupby([dep, arr]).size()\<close> leaves out NaN keys, and
  \<open>route_counts.get(..., 0)\<close> gives 0 to a row with a NaN airport.\<close>

definition route_popularity :: "clean_row list \<Rightarrow> clean_row \<Rightarrow> nat" where
  "route_popularity rows r =
     (case (c_departure_airport r, c_arrival_airport r) of
        (Some d, Some a) \<Rightarrow>
          length (filter (\<lambda>q. c_departure_airport q = Some d \<and> c_arrival_airport q = Some a) rows)
      | _ \<Rightarrow> 0)"

text \<open>Lines 154--156: \<open>value_counts()\<close> leaves out NaN, \<open>fillna(0)\<close> gives it 0.\<close>

definition airline_popularity :: "clean_row list \<Rightarrow> clean_row \<Rightarrow> nat" where
  "airline_popularity rows r =
     (case airline_of (c_flight_number r) of
        Some al \<Rightarrow> length (filter (\<lambda>q. airline_of (c_flight_number q) = Some al) rows)
      | None \<Rightarrow> 0)"

definition pop_stats_of :: "real list \<Rightarrow> pop_stats" where
  "pop_stats_of xs = \<lparr>pop_mean = mean_list xs, pop_std = std_list xs\<rparr>"

text \<open>Lines 163--169: one encoder per categorical column, fitted on
  \<open>df[col].astype(str)\<close>, kept in \<open>label_encoders\<close> in column order.\<close>

definition fit_encoders :: "clean_row list \<Rightarrow> (string \<times> label_encoder) list" where
  "fit_encoders rows =
     map (\<lambda>col. (col, le_fit (map (\<lambda>r. cell_str (cat_value col r)) rows))) categorical_cols"

subsection \<open>Training: the derived columns of one row\<close>

definition weekend_flag :: "nat \<Rightarrow> real" where
  "weekend_flag dow = (if 5 \<le> dow then 1 else 0)"

definition train_frame_row ::
  "(string \<times> label_encoder) list \<Rightarrow> clean_row list \<Rightarrow> clean_row \<Rightarrow> frame_row" where
  "train_frame_row encs rows r =
     (let ca = c_create_at r; fd = c_flight_date r; days = delta_days fd ca;
          dm = time_to_minutes (c_departure_time r); am = time_to_minutes (c_arrival_time r)
      in [(''create_hour'', Some (real (ts_hour ca))),
          (''create_day_of_week'', Some (real (weekday ca))),
          (''create_month'', Some (real (ts_month ca))),
          (''flight_month'', Some (real (ts_month fd))),
          (''flight_day_of_week'', Some (real (weekday fd))),
          (''days_in_advance'', Some (real_of_int days)),
          (''is_weekend_booking'', Some (weekend_flag (weekday ca))),
          (''is_weekend_flight'', Some (weekend_flag (weekday fd))),
          (''booking_category'', Some (real (categorize_advance_booking days))),
          (''departure_minutes'', map_option real_of_int dm),
          (''arrival_minutes'', map_option real_of_int am),
          (''flight_duration'', map_option real_of_int (flight_duration_col dm am)),
          (''departure_time_category'', Some (real (categorize_time_of_day dm))),
          (''route_popularity'', Some (real (route_popularity rows r))),
          (''airline_popularity'', Some (real (airline_popularity rows r)))]
         @ map (\<lambda>(col, le). (encoded_name col,
                  Some (real (the (le_table le (cell_str (cat_value col r))))))) encs)"

record fe_out =
  fe_X :: "real list list"
  fe_y :: "real list"
  fe_columns :: "string list"
  fe_encoders :: "(string \<times> label_encoder) list"
  fe_route_stats :: pop_stats
  fe_airline_stats :: pop_stats

text \<open>Lines 183--190: \<open>available_features\<close> keeps the listed columns the frame has;
  \<open>X = df[available_features]\<close>, \<open>y = df['price']\<close>, then the rows holding a NaN are
  dropped (the price is never NaN after cleaning).\<close>

definition feature_engineering :: "clean_row list \<Rightarrow> fe_out" where
  "feature_engineering rows =
     (let encs = fit_encoders rows;
          frames = map (train_frame_row encs rows) rows;
          present = (case frames of [] \<Rightarrow> [] | fr # _ \<Rightarrow> map fst fr);
          cols = filter (\<lambda>c. c \<in> set present) feature_columns_list;
          cells = map (\<lambda>fr. map (\<lambda>c. the (map_of fr c)) cols) frames;
          kept = filter (\<lambda>(xs, p). list_all (\<lambda>x. x \<noteq> None) xs) (zip cells (map c_price rows))
      in \<lparr>fe_X = map (\<lambda>(xs, p). map the xs) kept, fe_y = map snd kept, fe_columns = cols,
          fe_encoders = encs,
          fe_route_stats = pop_stats_of (map (\<lambda>r. real (route_popularity rows r)) rows),
          fe_airline_stats = pop_stats_of (map (\<lambda>r. real (airline_popularity rows r)) rows)\<rparr>)"

subsection \<open>Inference: the derived columns of one request\<close>

text \<open>\<open>flight_data[key]\<close>: a missing key raises KeyError.\<close>

definition req_get :: "request \<Rightarrow> string \<Rightarrow> string result" where
  "req_get q k = of_option KeyError (map_of q k)"

definition parse_ts :: "string \<Rightarrow> timestamp result" where
  "parse_ts s = of_option ParseError (to_datetime s)"

text \<open>Lines 414--426 for one column: skipped (no \<open>_encoded\<close> column) when the request
  lacks the column or no encoder was stored for it.\<close>

definition infer_encoded ::
  "(string \<times> label_encoder) list \<Rightarrow> (string \<Rightarrow> string option) \<Rightarrow> string \<Rightarrow> (string \<times> real cell) list" where
  "infer_encoded encs val col =
     (case (val col, map_of encs col) of
        (Some v, Some le) \<Rightarrow> [(encoded_name col, Some (real (fst (encode_infer le v))))]
      | _ \<Rightarrow> [])"

text \<open>Lines 359--426. The stored popularity statistics are dictionaries; an empty one
  (never filled) makes \<open>stats['mean']\<close> raise KeyError.\<close>

definition infer_frame_row ::
  "pop_stats option \<Rightarrow> pop_stats option \<Rightarrow> (string \<times> label_encoder) list \<Rightarrow> request \<Rightarrow> frame_row result" where
  "infer_frame_row rstats astats encs q =
     res_bind (res_bind (req_get q ''create_at'') parse_ts) (\<lambda>ca.
     res_bind (res_bind (req_get q ''flight_date'') parse_ts) (\<lambda>fd.
     res_bind (req_get q ''departure_time'') (\<lambda>dpt.
     res_bind (req_get q ''arrival_time'') (\<lambda>art.
     res_bind (of_option KeyError rstats) (\<lambda>rs.
     res_bind (req_get q ''flight_number'') (\<lambda>fn.
     res_bind (of_option KeyError astats) (\<lambda>als.
       let days = delta_days fd ca;
           dm = time_to_minutes_infer dpt; am = time_to_minutes_infer art;
           val = (\<lambda>col. if col = ''airline'' then Some (str_prefix 2 fn) else map_of q col)
       in Inr ([(''create_hour'', Some (real (ts_hour ca))),
                (''create_day_of_week'', Some (real (weekday ca))),
                (''create_month'', Some (real (ts_month ca))),
                (''flight_month'', Some (real (ts_month fd))),
                (''flight_day_of_week'', Some (real (weekday fd))),
                (''days_in_advance'', Some (real_of_int days)),
                (''is_weekend_booking'', Some (weekend_flag (weekday ca))),
                (''is_weekend_flight'', Some (weekend_flag (weekday fd))),
                (''booking_category'', Some (real (categorize_advance_booking_infer days))),
                (''departure_minutes'', Some (real_of_int dm)),
                (''arrival_minutes'', Some (real_of_int am)),
                (''flight_duration'', Some (real_of_int (flight_duration_infer dm am))),
                (''departure_time_category'', Some (real (categorize_time_of_day_infer dm))),
                (''route_popularity'', pop_mean rs),
                (''airline_popularity'', pop_mean als)]
               @ concat (map (infer_encoded encs val) categorical_cols)))))))))"

text \<open>Line 435: \<open>df_input[self.feature_columns].fillna(0)\<close>.\<close>

definition infer_vector :: "string list \<Rightarrow> frame_row \<Rightarrow> real list result" where
  "infer_vector cols fr = res_bind (select_columns cols fr) (\<lambda>cells. Inr (map fillna0 cells))"

text \<open>The encoded column of one row, as both paths compute it for a seen value.\<close>

definition enc_entry :: "clean_row list \<Rightarrow> clean_row \<Rightarrow> string \<Rightarrow> string \<times> real cell" where
  "enc_entry rows r col =
     (encoded_name col, Some (real (the (le_table (le_fit (map (\<lambda>r. cell_str (cat_value col r)) rows))
                                                  (cell_str (cat_value col r))))))"

definition example_row :: clean_row where
  "example_row =
     \<lparr>c_create_at = \<lparr>ts_year = 2024, ts_month = 1, ts_day = 1, ts_hour = 9, ts_minute = 0,
                     ts_second = 0, ts_nanos = 0\<rparr>,
      c_flight_number = Some ''VJ124'', c_type_of_plane = ''Airbus A320'',
      c_departure_airport = Some ''SGN'', c_arrival_airport = Some ''HAN'',
      c_flight_date = \<lparr>ts_year = 2024, ts_month = 2, ts_day = 15, ts_hour = 14, ts_minute = 30,
                       ts_second = 0, ts_nanos = 0\<rparr>,
      c_departure_time = Some ''14:30'', c_arrival_time = Some ''16:45'',
      c_classes = Some ''Eco'', c_price = 1500000\<rparr>"

definition example_request :: request where
  "example_request =
     [(''flight_number'', ''VJ124''), (''departure_airport'', ''SGN''),
      (''arrival_airport'', ''HAN''), (''departure_time'', ''14:30''),
      (''arrival_time'', ''16:45''), (''classes'', ''Eco''), (''type_of_plane'', ''Airbus A320''),
      (''create_at'', ''2024-01-01 09:00:00''), (''flight_date'', ''2024-02-15T14:30:00'')]"

subsection \<open>Lemmas\<close>


lemma fit_encoders_keys: "map fst (fit_encoders rows) = categorical_cols"
  by (simp add: fit_encoders_def comp_def)

lemma train_frame_row_columns:
  "map fst (train_frame_row encs rows r) =
     [''create_hour'', ''create_day_of_week'', ''create_month'', ''flight_month'',
      ''flight_day_of_week'', ''days_in_advance'', ''is_weekend_booking'', ''is_weekend_flight'',
      ''booking_category'', ''departure_minutes'', ''arrival_minutes'', ''flight_duration'',
      ''departure_time_category'', ''route_popularity'', ''airline_popularity'']
     @ map (\<lambda>p. encoded_name (fst p)) encs"
  by (simp add: train_frame_row_def Let_def comp_def case_prod_unfold)

lemma fe_columns_eq:
  "fe_columns (feature_engineering rows) =
     filter (\<lambda>c. c \<in> set (case map (train_frame_row (fit_encoders rows) rows) rows of
                              [] \<Rightarrow> [] | fr # _ \<Rightarrow> map fst fr)) feature_columns_list"
  unfolding feature_engineering_def Let_def by (simp only: fe_out.select_convs)

lemma enc_names: "map (\<lambda>p. encoded_name (fst p)) (fit_encoders rows) = map encoded_name categorical_cols"
  by (simp add: fit_encoders_def)

lemma all_features_present:
  "\<forall>c\<in>set feature_columns_list. c \<in> set ([''create_hour'', ''create_day_of_week'', ''create_month'', ''flight_month'',
      ''flight_day_of_week'', ''days_in_advance'', ''is_weekend_booking'', ''is_weekend_flight'',
      ''booking_category'', ''departure_minutes'', ''arrival_minutes'', ''flight_duration'',
      ''departure_time_category'', ''route_popularity'', ''airline_popularity'']
     @ map encoded_name categorical_cols)"
  by (simp add: feature_columns_list_def categorical_cols_def encoded_name_def)

lemma feature_engineering_columns:
  "rows \<noteq> [] \<Longrightarrow> fe_columns (feature_engineering rows) = feature_columns_list"
proof -
  assume "rows \<noteq> []"
  then obtain r rs where rows: "rows = r # rs" by (cases rows) auto
  have "\<forall>c\<in>set feature_columns_list. c \<in> set (map fst (train_frame_row (fit_encoders rows) rows r))"
    using all_features_present by (simp only: train_frame_row_columns enc_names)
  then show ?thesis
    by (simp only: fe_columns_eq rows list.map list.case filter_id_conv)
qed

lemma map_of_fit_encoders:
  "col \<in> set categorical_cols \<Longrightarrow>
   map_of (fit_encoders rows) col = Some (le_fit (map (\<lambda>r. cell_str (cat_value col r)) rows))"
  by (auto simp: fit_encoders_def categorical_cols_def)

lemma infer_encoded_fit:
  assumes "r \<in> set rows" and "col \<in> set categorical_cols" and "val col = Some (cell_str (cat_value col r))"
  shows "infer_encoded (fit_encoders rows) val col =
     [(encoded_name col, Some (real (the (le_table (le_fit (map (\<lambda>r. cell_str (cat_value col r)) rows))
                                               (cell_str (cat_value col r))))))]"
proof -
  let ?le = "le_fit (map (\<lambda>r. cell_str (cat_value col r)) rows)"
  have mem: "cell_str (cat_value col r) \<in> set (classes ?le)" using assms(1) by simp
  then show ?thesis
    using assms(2,3) by (simp add: infer_encoded_def map_of_fit_encoders encode_infer_seen le_table_eq)
qed

lemma train_frame_row_split:
  "train_frame_row (fit_encoders rows) rows r =
     take 15 (train_frame_row (fit_encoders rows) rows r) @ map (enc_entry rows r) categorical_cols"
  by (simp add: train_frame_row_def Let_def fit_encoders_def enc_entry_def comp_def)

lemma infer_frame_row_Inr:
  assumes "map_of q ''create_at'' = Some s1" "to_datetime s1 = Some ca"
    and "map_of q ''flight_date'' = Some s2" "to_datetime s2 = Some fd"
    and "map_of q ''departure_time'' = Some dpt" "map_of q ''arrival_time'' = Some art"
    and "map_of q ''flight_number'' = Some fn"
  shows "infer_frame_row (Some rs) (Some als) encs q =
    Inr ([(''create_hour'', Some (real (ts_hour ca))),
          (''create_day_of_week'', Some (real (weekday ca))),
          (''create_month'', Some (real (ts_month ca))),
          (''flight_month'', Some (real (ts_month fd))),
          (''flight_day_of_week'', Some (real (weekday fd))),
          (''days_in_advance'', Some (real_of_int (delta_days fd ca))),
          (''is_weekend_booking'', Some (weekend_flag (weekday ca))),
          (''is_weekend_flight'', Some (weekend_flag (weekday fd))),
          (''booking_category'', Some (real (categorize_advance_booking_infer (delta_days fd ca)))),
          (''departure_minutes'', Some (real_of_int (time_to_minutes_infer dpt))),
          (''arrival_minutes'', Some (real_of_int (time_to_minutes_infer art))),
          (''flight_duration'', Some (real_of_int (flight_duration_infer (time_to_minutes_infer dpt) (time_to_minutes_infer art)))),
          (''departure_time_category'', Some (real (categorize_time_of_day_infer (time_to_minutes_infer dpt)))),
          (''route_popularity'', pop_mean rs),
          (''airline_popularity'', pop_mean als)]
         @ concat (map (infer_encoded encs (\<lambda>col. if col = ''airline'' then Some (str_prefix 2 fn) else map_of q col)) categorical_cols))"
  using assms by (simp add: infer_frame_row_def req_get_def parse_ts_def Let_def)

lemma fe_encoders_eq: "fe_encoders (feature_engineering rows) = fit_encoders rows"
  unfolding feature_engineering_def Let_def by (simp only: fe_out.select_convs)

lemma fe_route_stats_eq:
  "fe_route_stats (feature_engineering rows) = pop_stats_of (map (\<lambda>r. real (route_popularity rows r)) rows)"
  unfolding feature_engineering_def Let_def by (simp only: fe_out.select_convs)

lemma fe_airline_stats_eq:
  "fe_airline_stats (feature_engineering rows) = pop_stats_of (map (\<lambda>r. real (airline_popularity rows r)) rows)"
  unfolding feature_engineering_def Let_def by (simp only: fe_out.select_convs)

lemma infer_encoded_all:
  assumes "r \<in> set rows"
    and "\<And>col. col \<in> set categorical_cols \<Longrightarrow> val col = Some (cell_str (cat_value col r))"
  shows "concat (map (infer_encoded (fit_encoders rows) val) categorical_cols) =
         map (enc_entry rows r) categorical_cols"
proof -
  show ?thesis
    using infer_encoded_fit[OF assms(1)] assms(2) by (intro concat_map_singletons) (simp add: enc_entry_def)
qed

lemma request_values:
  assumes "c_flight_number r = Some fn" "map_of q ''flight_number'' = Some fn"
    "c_departure_airport r = Some da" "map_of q ''departure_airport'' = Some da"
    "c_arrival_airport r = Some aa" "map_of q ''arrival_airport'' = Some aa"
    "c_classes r = Some cl" "map_of q ''classes'' = Some cl"
    "map_of q ''type_of_plane'' = Some (c_type_of_plane r)"
  shows "col \<in> set categorical_cols \<Longrightarrow>
    (if col = ''airline'' then Some (str_prefix 2 fn) else map_of q col) = Some (cell_str (cat_value col r))"
  using assms by (auto simp: categorical_cols_def cat_value_def cell_str_def airline_of_def)


lemma fe_y_eq:
  "fe_y (feature_engineering rows) =
     map snd (filter (\<lambda>(xs, p). list_all (\<lambda>x. x \<noteq> None) xs)
       (map (\<lambda>r. (map (\<lambda>c. the (map_of (train_frame_row (fit_encoders rows) rows r) c)) (fe_columns (feature_engineering rows)), c_price r)) rows))"
proof -
  have "fe_columns (feature_engineering rows) =
          filter (\<lambda>c. c \<in> set (case map (train_frame_row (fit_encoders rows) rows) rows of
                              [] \<Rightarrow> [] | fr # _ \<Rightarrow> map fst fr)) feature_columns_list"
    by (rule fe_columns_eq)
  then show ?thesis
    unfolding feature_engineering_def Let_def by (simp only: fe_out.select_convs zip_map_same map_map comp_def)
qed

lemma train_cells_present:
  "list_all (\<lambda>x. x \<noteq> None) (map (\<lambda>c. the (map_of (train_frame_row (fit_encoders rows) rows r) c)) feature_columns_list)
   \<longleftrightarrow> time_to_minutes (c_departure_time r) \<noteq> None \<and> time_to_minutes (c_arrival_time r) \<noteq> None"
  apply (subst train_frame_row_split)
  apply (simp add: feature_columns_list_def categorical_cols_def enc_entry_def encoded_name_def)
  apply (simp add: train_frame_row_def Let_def flight_duration_col_def split: option.split)
  done

lemma map_of_infer_encoded_other:
  "c \<noteq> encoded_name col \<Longrightarrow> map_of (infer_encoded encs val col) c = None"
  by (simp add: infer_encoded_def split: option.split)

lemma map_of_infer_encoded_absent:
  "val col = None \<Longrightarrow> infer_encoded encs val col = []"
  by (simp add: infer_encoded_def)

subsection \<open>Properties\<close>

text \<open>C1. Training and inference derive the same feature vector. For a row of the cleaned
  training table and a request carrying the same field values (timestamp strings that
  parse to the row's timestamps, clock strings that parse), inference succeeds and its
  vector, in the stored column order, equals the row's training features column by
  column, except the two popularity columns, which hold the stored means.\<close>

theorem train_infer_consistent:
  assumes r: "r \<in> set rows"
    and ts: "map_of q ''create_at'' = Some s1" "to_datetime s1 = Some (c_create_at r)"
      "map_of q ''flight_date'' = Some s2" "to_datetime s2 = Some (c_flight_date r)"
    and tm: "c_departure_time r = Some dpt" "map_of q ''departure_time'' = Some dpt"
      "c_arrival_time r = Some art" "map_of q ''arrival_time'' = Some art"
    and cat: "c_flight_number r = Some fn" "map_of q ''flight_number'' = Some fn"
      "c_departure_airport r = Some da" "map_of q ''departure_airport'' = Some da"
      "c_arrival_airport r = Some aa" "map_of q ''arrival_airport'' = Some aa"
      "c_classes r = Some cl" "map_of q ''classes'' = Some cl"
      "map_of q ''type_of_plane'' = Some (c_type_of_plane r)"
    and clk: "parse_clock dpt = Some dm" "parse_clock art = Some am"
  shows "\<exists>fr. infer_frame_row (Some (fe_route_stats (feature_engineering rows)))
                 (Some (fe_airline_stats (feature_engineering rows))) (fe_encoders (feature_engineering rows)) q = Inr fr \<and>
             infer_vector (fe_columns (feature_engineering rows)) fr =
               Inr (map (\<lambda>c. if c = ''route_popularity'' then fillna0 (pop_mean (fe_route_stats (feature_engineering rows)))
                             else if c = ''airline_popularity'' then fillna0 (pop_mean (fe_airline_stats (feature_engineering rows)))
                             else fillna0 (the (map_of (train_frame_row (fe_encoders (feature_engineering rows)) rows r) c)))
                        (fe_columns (feature_engineering rows)))"
proof -
  let ?fe = "feature_engineering rows"
  let ?rs = "fe_route_stats ?fe" and ?als = "fe_airline_stats ?fe"
  let ?val = "\<lambda>col. if col = ''airline'' then Some (str_prefix 2 fn) else map_of q col"
  have cols: "fe_columns ?fe = feature_columns_list"
    using r by (intro feature_engineering_columns) auto
  have tail: "concat (map (infer_encoded (fit_encoders rows) ?val) categorical_cols) =
              map (enc_entry rows r) categorical_cols"
    using r request_values[OF cat] by (rule infer_encoded_all)
  obtain fr where fr: "infer_frame_row (Some ?rs) (Some ?als) (fit_encoders rows) q = Inr fr"
    and frdef: "fr = [(''create_hour'', Some (real (ts_hour (c_create_at r)))),
          (''create_day_of_week'', Some (real (weekday (c_create_at r)))),
          (''create_month'', Some (real (ts_month (c_create_at r)))),
          (''flight_month'', Some (real (ts_month (c_flight_date r)))),
          (''flight_day_of_week'', Some (real (weekday (c_flight_date r)))),
          (''days_in_advance'', Some (real_of_int (delta_days (c_flight_date r) (c_create_at r)))),
          (''is_weekend_booking'', Some (weekend_flag (weekday (c_create_at r)))),
          (''is_weekend_flight'', Some (weekend_flag (weekday (c_flight_date r)))),
          (''booking_category'', Some (real (categorize_advance_booking_infer (delta_days (c_flight_date r) (c_create_at r))))),
          (''departure_minutes'', Some (real_of_int dm)),
          (''arrival_minutes'', Some (real_of_int am)),
          (''flight_duration'', Some (real_of_int (flight_duration_infer dm am))),
          (''departure_time_category'', Some (real (categorize_time_of_day_infer dm))),
          (''route_popularity'', pop_mean ?rs),
          (''airline_popularity'', pop_mean ?als)]
         @ map (enc_entry rows r) categorical_cols"
    using infer_frame_row_Inr[OF ts(1,2,3,4) tm(2) tm(4) cat(2), of ?rs ?als "fit_encoders rows"] tail clk
    by (simp add: time_to_minutes_infer_def)
  have train: "train_frame_row (fit_encoders rows) rows r =
     take 15 (train_frame_row (fit_encoders rows) rows r) @ map (enc_entry rows r) categorical_cols"
    by (rule train_frame_row_split)
  have "infer_vector feature_columns_list fr =
        Inr (map (\<lambda>c. if c = ''route_popularity'' then fillna0 (pop_mean ?rs)
                      else if c = ''airline_popularity'' then fillna0 (pop_mean ?als)
                      else fillna0 (the (map_of (train_frame_row (fit_encoders rows) rows r) c)))
                 feature_columns_list)"
    apply (subst train)
    apply (simp add: frdef infer_vector_def feature_columns_list_def categorical_cols_def enc_entry_def
                     encoded_name_def)
    apply (simp add: train_frame_row_def Let_def tm clk time_to_minutes_def flight_duration_col_Some
                     categorize_time_of_day_Some categorize_advance_booking_agree fillna0_def)
    done
  with fr cols show ?thesis by (simp add: fe_encoders_eq)
qed

lemmas example_defs = example_row_def example_request_def

theorem train_infer_consistent_witness:
  "\<exists>fr. infer_frame_row (Some (fe_route_stats (feature_engineering [example_row])))
          (Some (fe_airline_stats (feature_engineering [example_row])))
          (fe_encoders (feature_engineering [example_row])) example_request = Inr fr \<and>
        infer_vector (fe_columns (feature_engineering [example_row])) fr =
          Inr (map (\<lambda>c. if c = ''route_popularity'' then fillna0 (pop_mean (fe_route_stats (feature_engineering [example_row])))
                        else if c = ''airline_popularity'' then fillna0 (pop_mean (fe_airline_stats (feature_engineering [example_row])))
                        else fillna0 (the (map_of (train_frame_row (fe_encoders (feature_engineering [example_row])) [example_row] example_row) c)))
                   (fe_columns (feature_engineering [example_row])))"
proof -
  have ca: "to_datetime ''2024-01-01 09:00:00'' = Some (c_create_at example_row)"
    and fd: "to_datetime ''2024-02-15T14:30:00'' = Some (c_flight_date example_row)"
    by (simp_all add: example_defs to_datetime_def parse_date_def parse_time_def digits_val_def
                      is_digit_def digit_value_def valid_date_def days_in_month_def month_lengths_def is_leap_def)
  have dep: "parse_clock ''14:30'' = Some 870" and arr: "parse_clock ''16:45'' = Some 1005"
    by (simp_all add: parse_clock_def py_int_def py_strip_def is_py_space_def py_digits_def is_digit_def digit_value_def)
  show ?thesis
    by (rule train_infer_consistent[OF _ _ ca _ fd _ _ _ _ _ _ _ _ _ _ _ _ _ dep arr])
       (simp_all add: example_defs)
qed

text \<open>The NaN mask of \<open>feature_engineering\<close>: the target vector holds exactly the
  prices of the cleaned rows whose departure and arrival clock strings both parse, in
  table order; every other row is dropped from X and y together.\<close>

theorem feature_mask_rows:
  "fe_y (feature_engineering rows) =
     map c_price (filter (\<lambda>r. time_to_minutes (c_departure_time r) \<noteq> None \<and>
                               time_to_minutes (c_arrival_time r) \<noteq> None) rows)"
proof (cases "rows = []")
  case True
  then show ?thesis by (simp add: fe_y_eq)
next
  case False
  then have cols: "fe_columns (feature_engineering rows) = feature_columns_list"
    by (rule feature_engineering_columns)
  show ?thesis
    by (simp add: fe_y_eq cols filter_map comp_def case_prod_unfold train_cells_present del: not_None_eq)
qed

text \<open>The spec's booking scenario: created 2024-01-01T09:00 for a flight on
  2024-02-15T14:30, the timestamps parse, \<open>days_in_advance\<close> is 45 and both copies of
  the bucket function give category 2.\<close>

theorem booking_scenario:
  "\<exists>ca fd. to_datetime ''2024-01-01T09:00'' = Some ca \<and> to_datetime ''2024-02-15T14:30'' = Some fd \<and>
     delta_days fd ca = 45 \<and> categorize_advance_booking (delta_days fd ca) = 2 \<and>
     categorize_advance_booking_infer (delta_days fd ca) = 2"
  by (simp add: to_datetime_def parse_date_def parse_time_def digits_val_def is_digit_def digit_value_def
                valid_date_def days_in_month_def calendar_defs categorize_advance_booking_def
                categorize_advance_booking_infer_def)

text \<open>C15. The encoders \<open>feature_engineering\<close> fits are well formed: there is exactly one
  per categorical column, in the code's order, and each holds the sorted, duplicate-free
  string values (NaN as \<open>'nan'\<close>) that its column takes on the training rows.\<close>

theorem fitted_encoders_wf:
  "map fst (fe_encoders (feature_engineering rows)) = categorical_cols \<and>
   (\<forall>(col, le)\<in>set (fe_encoders (feature_engineering rows)).
      le_wf le \<and> set (classes le) = (\<lambda>r. cell_str (cat_value col r)) ` set rows)"
proof
  show "map fst (fe_encoders (feature_engineering rows)) = categorical_cols"
    by (simp add: fe_encoders_eq fit_encoders_keys)
  show "\<forall>(col, le)\<in>set (fe_encoders (feature_engineering rows)).
      le_wf le \<and> set (classes le) = (\<lambda>r. cell_str (cat_value col r)) ` set rows"
    by (auto simp: fe_encoders_eq fit_encoders_def le_fit_wf)
qed

theorem fitted_encoders_wf_witness:
  "(''classes'', le_fit [''Eco'']) \<in> set (fe_encoders (feature_engineering [example_row])) \<and>
   le_wf (le_fit [''Eco'']) \<and> set (classes (le_fit [''Eco''])) = {''Eco''}"
proof -
  have m: "(''classes'', le_fit [''Eco'']) \<in> set (fe_encoders (feature_engineering [example_row]))"
    by (simp add: fe_encoders_eq fit_encoders_def categorical_cols_def cat_value_def example_row_def cell_str_def)
  have "le_wf (le_fit [''Eco'']) \<and> set (classes (le_fit [''Eco''])) = (\<lambda>r. cell_str (cat_value ''classes'' r)) ` set [example_row]"
    using fitted_encoders_wf[of "[example_row]"] m by blast
  then show ?thesis using m by (simp add: cat_value_def example_row_def cell_str_def)
qed

end
