(* ===== verification/Predictor.thy ===== *)
theory Predictor
  imports Features
begin

text \<open>
  Predictor: \<open>predict_single_flight\<close> (lines 353--449). The attributes it reads are
  the ones \<open>save_model\<close> persists, gathered in the record \<open>serving\<close> (the spec's
  ModelBundle); the predictor object of \<open>Pipeline\<close> extends it. The regressor is an
  interface: a fitted model of type \<open>'m\<close> and its \<open>predict\<close> on one feature vector,
  which may raise (a stale bundle's shape mismatch). The raw prediction is clipped into
  \<open>[max(min, 100000), min(max, 50000000)]\<close> when \<open>price_stats\<close> is a non-empty
  dictionary; Python's \<open>max\<close>/\<open>min\<close> keep a NaN first argument and \<open>np.clip\<close>
  propagates NaN, so a NaN statistic makes the prediction NaN (\<open>None\<close>).
\<close>

text \<open>\<open>RobustScaler()\<close>: created in \<open>__init__\<close>, saved and loaded with the bundle, never
  fitted or applied.\<close>

datatype scaler = RobustScaler

record 'm serving =
  best_model :: "'m option"
  model_type :: "string option"
  feature_columns :: "string list option"
  label_encoders :: "(string \<times> label_encoder) list"
  scaler :: scaler
  price_stats :: "price_stats option"
  route_popularity_stats :: "pop_stats option"
  airline_popularity_stats :: "pop_stats option"

type_synonym 'm predict_fn = "'m \<Rightarrow> real list \<Rightarrow> real result"

text \<open>\<open>np.clip(x, lo, hi)\<close> is \<open>minimum(maximum(x, lo), hi)\<close>.\<close>

definition np_clip :: "real \<Rightarrow> real \<Rightarrow> real \<Rightarrow> real" where
  "np_clip x lo hi = min (max x lo) hi"

text \<open>Lines 443--447.\<close>

definition clip_prediction :: "price_stats option \<Rightarrow> real \<Rightarrow> real cell" where
  "clip_prediction pso x =
     (case pso of
        None \<Rightarrow> Some x
      | Some ps \<Rightarrow>
          (case (ps_min ps, ps_max ps) of
             (Some mn, Some mx) \<Rightarrow> Some (np_clip x (max mn 100000) (min mx 50000000))
           | _ \<Rightarrow> None))"

definition predict_single_flight ::
  "'m predict_fn \<Rightarrow> ('m, 'z) serving_scheme \<Rightarrow> request \<Rightarrow> real cell result" where
  "predict_single_flight predict st q =
     (case best_model st of
        None \<Rightarrow> Inl ValueError
      | Some m \<Rightarrow>
          res_bind (infer_frame_row (route_popularity_stats st) (airline_popularity_stats st)
                                    (label_encoders st) q) (\<lambda>fr.
          res_bind (of_option TypeError (feature_columns st)) (\<lambda>cols.
          res_bind (infer_vector cols fr) (\<lambda>xs.
          res_bind (predict m xs) (\<lambda>raw.
          Inr (clip_prediction (price_stats st) raw))))))"

text \<open>The keys a request must carry.\<close>

definition request_keys :: "string list" where
  "request_keys =
     [''create_at'', ''flight_date'', ''departure_time'', ''arrival_time'', ''flight_number'',
      ''departure_airport'', ''arrival_airport'', ''classes'', ''type_of_plane'']"

definition example_price_stats :: price_stats where
  "example_price_stats =
     \<lparr>ps_min = Some 800000, ps_max = Some 3000000, ps_mean = Some 1500000, ps_std = None,
      ps_q1 = Some 1000000, ps_q3 = Some 2000000\<rparr>"

definition example_serving :: "unit serving" where
  "example_serving =
     \<lparr>best_model = Some (), model_type = Some ''Random Forest'',
      feature_columns = Some feature_columns_list,
      label_encoders = fit_encoders [example_row], scaler = RobustScaler, price_stats = Some example_price_stats,
      route_popularity_stats = Some \<lparr>pop_mean = Some 1, pop_std = None\<rparr>,
      airline_popularity_stats = Some \<lparr>pop_mean = Some 1, pop_std = None\<rparr>\<rparr>"

text \<open>A request with a flight number and an aircraft type never seen in training and a
  malformed arrival time.\<close>

definition unseen_request :: request where
  "unseen_request =
     [(''flight_number'', ''QH999''), (''departure_airport'', ''SGN''),
      (''arrival_airport'', ''HAN''), (''departure_time'', ''08:10''),
      (''arrival_time'', ''10h20''), (''classes'', ''Eco''), (''type_of_plane'', ''Boeing 787''),
      (''create_at'', ''2025-06-23 22:13:00''), (''flight_date'', ''2025-08-15T17:00:00.000'')]"

subsection \<open>Lemmas\<close>

lemma clip_prediction_Some:
  "ps_min ps = Some mn \<Longrightarrow> ps_max ps = Some mx \<Longrightarrow>
   clip_prediction (Some ps) x = Some (np_clip x (max mn 100000) (min mx 50000000))"
  by (simp add: clip_prediction_def)

lemma np_clip_cases:
  "lo \<le> hi \<Longrightarrow> np_clip x lo hi = (if x < lo then lo else if hi < x then hi else x)"
  by (simp add: np_clip_def)

lemma predict_single_flight_Inr:
  assumes "best_model st = Some m"
    and "infer_frame_row (route_popularity_stats st) (airline_popularity_stats st) (label_encoders st) q = Inr fr"
    and "feature_columns st = Some cols" and "infer_vector cols fr = Inr xs" and "predict m xs = Inr raw"
  shows "predict_single_flight predict st q = Inr (clip_prediction (price_stats st) raw)"
  using assms by (simp add: predict_single_flight_def)

lemma infer_frame_row_complete:
  assumes "map_of q ''create_at'' = Some s1" "to_datetime s1 = Some ca"
    and "map_of q ''flight_date'' = Some s2" "to_datetime s2 = Some fd"
    and "map_of q ''departure_time'' = Some dpt" "map_of q ''arrival_time'' = Some art"
    and "map_of q ''flight_number'' = Some fn"
    and "map_of q ''departure_airport'' = Some da" "map_of q ''arrival_airport'' = Some aa"
    and "map_of q ''classes'' = Some cl" "map_of q ''type_of_plane'' = Some tp"
    and "map_of encs ''flight_number'' = Some le1" "map_of encs ''departure_airport'' = Some le2"
    and "map_of encs ''arrival_airport'' = Some le3" "map_of encs ''classes'' = Some le4"
    and "map_of encs ''type_of_plane'' = Some le5" "map_of encs ''airline'' = Some le6"
  shows "\<exists>fr cells. infer_frame_row (Some rs) (Some als) encs q = Inr fr \<and>
                    select_columns feature_columns_list fr = Inr cells"
  using infer_frame_row_Inr[OF assms(1-7), of rs als encs]
  by (simp add: assms select_columns_present feature_columns_list_def categorical_cols_def
                infer_encoded_def encoded_name_def)
lemma request_values_present:
  assumes "\<forall>k\<in>set request_keys. map_of q k \<noteq> None"
  shows "\<exists>s1 s2 dpt art fn da aa cl tp.
    map_of q ''create_at'' = Some s1 \<and> map_of q ''flight_date'' = Some s2 \<and>
    map_of q ''departure_time'' = Some dpt \<and> map_of q ''arrival_time'' = Some art \<and>
    map_of q ''flight_number'' = Some fn \<and> map_of q ''departure_airport'' = Some da \<and>
    map_of q ''arrival_airport'' = Some aa \<and> map_of q ''classes'' = Some cl \<and>
    map_of q ''type_of_plane'' = Some tp"
  using assms by (simp add: request_keys_def)

lemma encoders_present:
  assumes "\<forall>col\<in>set categorical_cols. map_of encs col \<noteq> None"
  shows "\<exists>le1 le2 le3 le4 le5 le6.
    map_of encs ''flight_number'' = Some le1 \<and> map_of encs ''departure_airport'' = Some le2 \<and>
    map_of encs ''arrival_airport'' = Some le3 \<and> map_of encs ''classes'' = Some le4 \<and>
    map_of encs ''type_of_plane'' = Some le5 \<and> map_of encs ''airline'' = Some le6"
  using assms by (simp add: categorical_cols_def)

subsection \<open>Properties\<close>

text \<open>Predicting before a model is trained or loaded is a fatal precondition
  violation: \<open>predict_single_flight\<close> raises ValueError whatever the request.\<close>

theorem predict_requires_model:
  assumes "best_model st = None"
  shows "predict_single_flight predict st q = Inl ValueError"
  using assms by (simp add: predict_single_flight_def)

theorem predict_requires_model_witness:
  "predict_single_flight (\<lambda>_ xs. Inr (sum_list xs))
     \<lparr>best_model = None, model_type = None, feature_columns = None, label_encoders = [],
      scaler = RobustScaler, price_stats = None, route_popularity_stats = None, airline_popularity_stats = None\<rparr>
     [] = Inl ValueError"
  by (rule predict_requires_model) simp

text \<open>C23. Clipping: with non-NaN training bounds and floor
  \<open>lo = max(min, 100000)\<close> not above ceiling \<open>hi = min(max, 50000000)\<close>, a raw output
  below \<open>lo\<close> becomes \<open>lo\<close>, one above \<open>hi\<close> becomes \<open>hi\<close>, and any other passes
  unchanged.\<close>

theorem clip_prediction_bounds:
  assumes "ps_min ps = Some mn" and "ps_max ps = Some mx"
    and "max mn 100000 \<le> min mx 50000000"
  shows "clip_prediction (Some ps) x =
           Some (if x < max mn 100000 then max mn 100000
                 else if min mx 50000000 < x then min mx 50000000 else x)"
  using assms by (simp add: clip_prediction_Some np_clip_cases)

theorem clip_prediction_bounds_witness:
  "clip_prediction (Some example_price_stats) 50000 = Some 800000 \<and>
   clip_prediction (Some example_price_stats) 90000000 = Some 3000000 \<and>
   clip_prediction (Some example_price_stats) 1234567 = Some 1234567"
proof -
  have mn: "ps_min example_price_stats = Some 800000" and mx: "ps_max example_price_stats = Some 3000000"
    by (simp_all add: example_price_stats_def)
  have le: "max (800000::real) 100000 \<le> min 3000000 50000000" by simp
  show ?thesis
    using clip_prediction_bounds[OF mn mx le, of 50000] clip_prediction_bounds[OF mn mx le, of 90000000]
          clip_prediction_bounds[OF mn mx le, of 1234567]
    by simp
qed

text \<open>C28. When the largest training price is below the floor 100000, the floor exceeds
  the ceiling and \<open>np.clip\<close> returns the ceiling for every raw output: every prediction
  equals the training maximum, below the documented floor.\<close>

theorem clip_below_floor:
  assumes "ps_min ps = Some mn" and "ps_max ps = Some mx" and "mx < 100000"
  shows "clip_prediction (Some ps) x = Some mx"
  using assms by (simp add: clip_prediction_Some np_clip_def)

theorem clip_below_floor_witness:
  "clip_prediction (Some (example_price_stats\<lparr>ps_min := Some 50000, ps_max := Some 80000\<rparr>)) 20000 = Some 80000"
  by (rule clip_below_floor) simp_all

lemma predict_single_flight_succeeds:
  assumes "best_model st = Some m" and "feature_columns st = Some feature_columns_list"
    and "route_popularity_stats st = Some rs" and "airline_popularity_stats st = Some als"
    and "\<forall>col\<in>set categorical_cols. map_of (label_encoders st) col \<noteq> None"
    and "\<forall>k\<in>set request_keys. map_of q k \<noteq> None"
    and "to_datetime (the (map_of q ''create_at'')) \<noteq> None"
    and "to_datetime (the (map_of q ''flight_date'')) \<noteq> None"
    and "\<forall>xs. \<exists>x. predict m xs = Inr x"
  shows "\<exists>v. predict_single_flight predict st q = Inr v"
proof -
  obtain s1 s2 dpt art fn da aa cl tp where q:
    "map_of q ''create_at'' = Some s1" "map_of q ''flight_date'' = Some s2"
    "map_of q ''departure_time'' = Some dpt" "map_of q ''arrival_time'' = Some art"
    "map_of q ''flight_number'' = Some fn" "map_of q ''departure_airport'' = Some da"
    "map_of q ''arrival_airport'' = Some aa" "map_of q ''classes'' = Some cl"
    "map_of q ''type_of_plane'' = Some tp"
    using request_values_present[OF assms(6)] by blast
  obtain le1 le2 le3 le4 le5 le6 where e:
    "map_of (label_encoders st) ''flight_number'' = Some le1"
    "map_of (label_encoders st) ''departure_airport'' = Some le2"
    "map_of (label_encoders st) ''arrival_airport'' = Some le3"
    "map_of (label_encoders st) ''classes'' = Some le4"
    "map_of (label_encoders st) ''type_of_plane'' = Some le5"
    "map_of (label_encoders st) ''airline'' = Some le6"
    using encoders_present[OF assms(5)] by blast
  obtain ca fd where ca: "to_datetime s1 = Some ca" and fd: "to_datetime s2 = Some fd"
    using assms(7,8) q(1,2) by auto
  obtain fr cells where fr: "infer_frame_row (Some rs) (Some als) (label_encoders st) q = Inr fr"
    and sel: "select_columns feature_columns_list fr = Inr cells"
    using infer_frame_row_complete[OF q(1) ca q(2) fd q(3-9) e] by blast
  obtain raw where raw: "predict m (map fillna0 cells) = Inr raw" using assms(9) by blast
  have "infer_vector feature_columns_list fr = Inr (map fillna0 cells)"
    using sel by (simp add: infer_vector_def)
  with assms(1-4) fr raw show ?thesis
    by (auto dest: predict_single_flight_Inr)
qed

text \<open>C24. Inference recovers locally from unseen categories and malformed clock strings:
  with a model whose \<open>predict\<close> does not raise, the stored column list, both
  popularity dictionaries and an encoder for every categorical column, any request
  carrying the nine keys with parseable timestamps yields a prediction, whatever its
  categorical values and clock strings.\<close>

theorem predict_recovers:
  assumes "best_model st = Some m" and "feature_columns st = Some feature_columns_list"
    and "route_popularity_stats st = Some rs" and "airline_popularity_stats st = Some als"
    and "\<forall>col\<in>set categorical_cols. map_of (label_encoders st) col \<noteq> None"
    and "\<forall>k\<in>set request_keys. map_of q k \<noteq> None"
    and "to_datetime (the (map_of q ''create_at'')) \<noteq> None"
    and "to_datetime (the (map_of q ''flight_date'')) \<noteq> None"
    and "\<forall>xs. \<exists>x. predict m xs = Inr x"
  shows "\<exists>v. predict_single_flight predict st q = Inr v"
  using assms by (rule predict_single_flight_succeeds)

theorem predict_recovers_witness:
  "\<exists>v. predict_single_flight (\<lambda>_ xs. Inr (sum_list xs)) example_serving unseen_request = Inr v"
proof -
  have ca: "to_datetime (the (map_of unseen_request ''create_at'')) \<noteq> None"
    and fd: "to_datetime (the (map_of unseen_request ''flight_date'')) \<noteq> None"
    by code_simp+
  have enc: "\<forall>col\<in>set categorical_cols. map_of (label_encoders example_serving) col \<noteq> None"
    by (simp add: example_serving_def fit_encoders_def categorical_cols_def)
  have keys: "\<forall>k\<in>set request_keys. map_of unseen_request k \<noteq> None"
    by (simp add: unseen_request_def request_keys_def)
  show ?thesis
    by (rule predict_recovers[OF _ _ _ _ enc keys ca fd]) (simp_all add: example_serving_def)
qed

text \<open>C29. A request that lacks a categorical key is not completed with 0, as the spec
  describes: its \<open>_encoded\<close> column is never created, and
  \<open>df_input[self.feature_columns]\<close> raises KeyError.\<close>

theorem predict_missing_category_KeyError:
  assumes "best_model st = Some m" and "feature_columns st = Some feature_columns_list"
    and "route_popularity_stats st = Some rs" and "airline_popularity_stats st = Some als"
    and "map_of q ''create_at'' = Some s1" and "to_datetime s1 = Some ca"
    and "map_of q ''flight_date'' = Some s2" and "to_datetime s2 = Some fd"
    and "map_of q ''departure_time'' = Some dpt" and "map_of q ''arrival_time'' = Some art"
    and "map_of q ''flight_number'' = Some fn" and "map_of q ''classes'' = None"
  shows "predict_single_flight predict st q = Inl KeyError"
proof -
  let ?val = "\<lambda>col. if col = ''airline'' then Some (str_prefix 2 fn) else map_of q col"
  let ?tail = "concat (map (infer_encoded (label_encoders st) ?val) categorical_cols)"
  have tail: "map_of ?tail ''classes_encoded'' = None"
  proof (rule map_of_concat_map_None)
    fix col assume "col \<in> set categorical_cols"
    then show "map_of (infer_encoded (label_encoders st) ?val col) ''classes_encoded'' = None"
    proof (cases "col = ''classes''")
      case True
      then show ?thesis using assms(12) by (simp add: map_of_infer_encoded_absent)
    next
      case False
      then have "''classes_encoded'' \<noteq> encoded_name col" by (auto simp: encoded_name_def)
      then show ?thesis by (rule map_of_infer_encoded_other)
    qed
  qed
  obtain fr where fr: "infer_frame_row (Some rs) (Some als) (label_encoders st) q = Inr fr"
    and none: "map_of fr ''classes_encoded'' = None"
    using infer_frame_row_Inr[OF assms(5-11), of rs als "label_encoders st"] tail
    by (simp add: map_of_append)
  have "select_columns feature_columns_list fr = Inl KeyError"
    using none by (rule select_columns_KeyError[rotated]) (simp add: feature_columns_list_def)
  with assms(1-4) fr show ?thesis
    by (simp add: predict_single_flight_def infer_vector_def)
qed

theorem predict_missing_category_KeyError_witness:
  "predict_single_flight (\<lambda>_ xs. Inr (sum_list xs)) example_serving
     (filter (\<lambda>kv. fst kv \<noteq> ''classes'') example_request) = Inl KeyError"
proof -
  let ?q = "filter (\<lambda>kv. fst kv \<noteq> ''classes'') example_request"
  have ca: "to_datetime ''2024-01-01 09:00:00'' = Some (c_create_at example_row)"
    and fd: "to_datetime ''2024-02-15T14:30:00'' = Some (c_flight_date example_row)"
    by (simp_all add: example_defs to_datetime_def parse_date_def parse_time_def digits_val_def
                      is_digit_def digit_value_def valid_date_def days_in_month_def month_lengths_def is_leap_def)
  have k1: "map_of ?q ''create_at'' = Some ''2024-01-01 09:00:00''"
    and k2: "map_of ?q ''flight_date'' = Some ''2024-02-15T14:30:00''"
    by (simp_all add: example_request_def)
  show ?thesis
    by (rule predict_missing_category_KeyError[OF _ _ _ _ k1 ca k2 fd])
       (simp_all add: example_serving_def example_request_def)
qed

end
