(* ===== verification/Artifact.thy ===== *)
theory Artifact
  imports Predictor
begin

text \<open>
  ArtifactStore: \<open>save_model\<close> and \<open>load_model\<close> (lines 321--351). The pickled
  dictionary is the record \<open>model_bundle\<close>: one field per key, \<open>None\<close> when the key is
  absent from the file, the value otherwise (itself \<open>None\<close> where Python stores None,
  and \<open>None\<close> for an empty statistics dictionary, as in \<open>serving\<close>). The files are an
  explicit store from file names to bundles; pickling round-trips every value exactly
  and is not modelled further. \<open>load_model\<close> assigns the attributes one after
  another, so a missing required key raises KeyError after the earlier attributes have
  been overwritten; the three statistics keys are optional, with the defaults
  \<open>{}\<close>, \<open>{'mean': 100, 'std': 50}\<close> and \<open>{'mean': 50, 'std': 25}\<close>.
  The store is updated in one step: a reader that runs while \<open>pickle.dump\<close> is
  still writing is not modelled.
\<close>

record 'm model_bundle =
  b_model :: "'m option option"
  b_model_type :: "string option option"
  b_feature_columns :: "string list option option"
  b_label_encoders :: "(string \<times> label_encoder) list option"
  b_scaler :: "scaler option"
  b_price_stats :: "price_stats option option"
  b_route_popularity_stats :: "pop_stats option option"
  b_airline_popularity_stats :: "pop_stats option option"

type_synonym 'm files = "string \<Rightarrow> 'm model_bundle option"

subsection \<open>Operations\<close>

text \<open>Lines 322--331: the \<open>model_data\<close> dictionary.\<close>

definition bundle_of :: "('m, 'z) serving_scheme \<Rightarrow> 'm model_bundle" where
  "bundle_of st =
     \<lparr>b_model = Some (best_model st), b_model_type = Some (model_type st),
      b_feature_columns = Some (feature_columns st), b_label_encoders = Some (label_encoders st),
      b_scaler = Some (scaler st), b_price_stats = Some (price_stats st),
      b_route_popularity_stats = Some (route_popularity_stats st),
      b_airline_popularity_stats = Some (airline_popularity_stats st)\<rparr>"

text \<open>Lines 333--334: \<open>pickle.dump\<close> writes (or overwrites) the file.\<close>

definition save_model :: "string \<Rightarrow> ('m, 'z) serving_scheme \<Rightarrow> 'm files \<Rightarrow> 'm files" where
  "save_model fn st fs = fs(fn \<mapsto> bundle_of st)"

definition default_route_stats :: pop_stats where
  "default_route_stats = \<lparr>pop_mean = Some 100, pop_std = Some 50\<rparr>"

definition default_airline_stats :: pop_stats where
  "default_airline_stats = \<lparr>pop_mean = Some 50, pop_std = Some 25\<rparr>"

text \<open>\<open>model_data.get(key, default)\<close>.\<close>

definition get_default :: "'a option \<Rightarrow> 'a \<Rightarrow> 'a" where
  "get_default v d = (case v of None \<Rightarrow> d | Some x \<Rightarrow> x)"

text \<open>Lines 342--349, in order: each \<open>model_data[key]\<close> raises KeyError when the key is
  absent, leaving the attributes assigned so far.\<close>

definition load_bundle ::
  "'m model_bundle \<Rightarrow> ('m, 'z) serving_scheme \<Rightarrow> unit result \<times> ('m, 'z) serving_scheme" where
  "load_bundle b st =
     (case b_model b of None \<Rightarrow> (Inl KeyError, st) | Some m \<Rightarrow>
      let st1 = st\<lparr>best_model := m\<rparr> in
      case b_model_type b of None \<Rightarrow> (Inl KeyError, st1) | Some t \<Rightarrow>
      let st2 = st1\<lparr>model_type := t\<rparr> in
      case b_feature_columns b of None \<Rightarrow> (Inl KeyError, st2) | Some fc \<Rightarrow>
      let st3 = st2\<lparr>feature_columns := fc\<rparr> in
      case b_label_encoders b of None \<Rightarrow> (Inl KeyError, st3) | Some le \<Rightarrow>
      let st4 = st3\<lparr>label_encoders := le\<rparr> in
      case b_scaler b of None \<Rightarrow> (Inl KeyError, st4) | Some sc \<Rightarrow>
      (Inr (), st4\<lparr>scaler := sc,
                  price_stats := get_default (b_price_stats b) None,
                  route_popularity_stats := get_default (b_route_popularity_stats b) (Some default_route_stats),
                  airline_popularity_stats := get_default (b_airline_popularity_stats b) (Some default_airline_stats)\<rparr>))"

text \<open>Line 339: opening a file that does not exist raises an OSError
  (\<open>FileNotFoundError\<close>) before any attribute changes.\<close>

definition load_model ::
  "string \<Rightarrow> 'm files \<Rightarrow> ('m, 'z) serving_scheme \<Rightarrow> unit result \<times> ('m, 'z) serving_scheme" where
  "load_model fn fs st = (case fs fn of None \<Rightarrow> (Inl OSError, st) | Some b \<Rightarrow> load_bundle b st)"

text \<open>The serving attributes of \<open>st\<close> copied onto \<open>st'\<close>, its other attributes kept.\<close>

definition restore_serving :: "('m, 'y) serving_scheme \<Rightarrow> ('m, 'z) serving_scheme \<Rightarrow> ('m, 'z) serving_scheme" where
  "restore_serving st st' =
     st'\<lparr>best_model := best_model st, model_type := model_type st, feature_columns := feature_columns st,
         label_encoders := label_encoders st, scaler := scaler st, price_stats := price_stats st,
         route_popularity_stats := route_popularity_stats st,
         airline_popularity_stats := airline_popularity_stats st\<rparr>"

text \<open>The persisted attributes of a predictor just constructed (\<open>__init__\<close>, lines
  24--32): no model, empty encoder and popularity dictionaries, no price statistics.\<close>

definition fresh_serving :: "'m serving" where
  "fresh_serving =
     \<lparr>best_model = None, model_type = None, feature_columns = None, label_encoders = [],
      scaler = RobustScaler, price_stats = None, route_popularity_stats = None,
      airline_popularity_stats = None\<rparr>"

subsection \<open>Lemmas and properties\<close>

lemma restore_serving_sel [simp]:
  "best_model (restore_serving st st') = best_model st"
  "model_type (restore_serving st st') = model_type st"
  "feature_columns (restore_serving st st') = feature_columns st"
  "label_encoders (restore_serving st st') = label_encoders st"
  "scaler (restore_serving st st') = scaler st"
  "price_stats (restore_serving st st') = price_stats st"
  "route_popularity_stats (restore_serving st st') = route_popularity_stats st"
  "airline_popularity_stats (restore_serving st st') = airline_popularity_stats st"
  by (simp_all add: restore_serving_def)

lemma load_bundle_of: "load_bundle (bundle_of st) st' = (Inr (), restore_serving st st')"
  by (simp add: load_bundle_def bundle_of_def get_default_def restore_serving_def)

lemma predict_single_flight_serving:
  "predict_single_flight predict (restore_serving st st') q = predict_single_flight predict st q"
  by (simp only: predict_single_flight_def restore_serving_sel)

text \<open>C8. Save/load round trip: loading the file just saved from a predictor copies every
  persisted attribute (model, model type, feature columns, encoders, scaler, price and
  popularity statistics) onto the loading predictor, and succeeds.\<close>

theorem save_load_roundtrip:
  "load_model fn (save_model fn st fs) st' = (Inr (), restore_serving st st')"
  by (simp add: load_model_def save_model_def load_bundle_of)

text \<open>The artifact store refines the trained predictor: a predictor that loads the
  saved bundle answers every request exactly as the predictor that saved it, error or
  price alike.\<close>

theorem load_preserves_predictions:
  "predict_single_flight predict (snd (load_model fn (save_model fn st fs) st')) q =
   predict_single_flight predict st q"
  by (simp add: load_model_def save_model_def load_bundle_of predict_single_flight_serving)

text \<open>C36. \<open>load_model\<close> is not atomic: a bundle that has a model and a model type but
  no \<open>feature_columns\<close> key raises KeyError after \<open>best_model\<close> and \<open>model_type\<close>
  have already been overwritten, and the other attributes keep their old values.\<close>

theorem load_not_atomic:
  assumes "fs fn = Some b" "b_model b = Some m" "b_model_type b = Some t" "b_feature_columns b = None"
  shows "load_model fn fs st = (Inl KeyError, st\<lparr>best_model := m, model_type := t\<rparr>)"
  using assms by (simp add: load_model_def load_bundle_def)

theorem load_not_atomic_witness:
  "load_model ''flight_price_model.pkl''
     [''flight_price_model.pkl'' \<mapsto> (bundle_of fresh_serving)\<lparr>b_model := Some (Some ()),
                                        b_model_type := Some (Some ''Random Forest''), b_feature_columns := None\<rparr>]
     fresh_serving =
   (Inl KeyError, fresh_serving\<lparr>best_model := Some (), model_type := Some ''Random Forest''\<rparr>)"
  by (rule load_not_atomic[OF fun_upd_same]) simp_all

text \<open>C37. A bundle written before the statistics were persisted (no \<open>price_stats\<close>,
  \<open>route_popularity_stats\<close> or \<open>airline_popularity_stats\<close> key) loads without error,
  with the popularity defaults mean 100 / std 50 and mean 50 / std 25 and an empty price
  dictionary, so every later prediction goes unclipped.\<close>

theorem load_legacy_bundle:
  assumes "fs fn = Some \<lparr>b_model = Some m, b_model_type = Some t, b_feature_columns = Some fc,
                         b_label_encoders = Some le, b_scaler = Some sc, b_price_stats = None,
                         b_route_popularity_stats = None, b_airline_popularity_stats = None\<rparr>"
  shows "\<exists>st'. load_model fn fs st = (Inr (), st') \<and> price_stats st' = None \<and>
           route_popularity_stats st' = Some default_route_stats \<and>
           airline_popularity_stats st' = Some default_airline_stats \<and>
           (\<forall>x. clip_prediction (price_stats st') x = Some x)"
  using assms by (simp add: load_model_def load_bundle_def get_default_def clip_prediction_def)

theorem load_legacy_bundle_witness:
  "\<exists>st'. load_model ''old.pkl''
       [''old.pkl'' \<mapsto> \<lparr>b_model = Some (Some ()), b_model_type = Some (Some ''Random Forest''),
                         b_feature_columns = Some (Some feature_columns_list), b_label_encoders = Some [],
                         b_scaler = Some RobustScaler, b_price_stats = None,
                         b_route_popularity_stats = None, b_airline_popularity_stats = None\<rparr>]
       fresh_serving = (Inr (), st') \<and> price_stats st' = None \<and>
     route_popularity_stats st' = Some default_route_stats \<and>
     airline_popularity_stats st' = Some default_airline_stats \<and>
     (\<forall>x. clip_prediction (price_stats st') x = Some x)"
  by (rule load_legacy_bundle[OF fun_upd_same])

end
