(* ===== verification/Cleaning.thy ===== *)
theory Cleaning
  imports DataModel "HOL-Library.Sublist"
begin

text \<open>
  DataCleaner: \<open>load_and_preprocess_data\<close> (lines 34--95). The CSV file, as
  \<open>read_csv\<close> parses it into the ten named columns, is the input (\<open>None\<close> when
  \<open>csv_file\<close> is None, which raises ValueError). The steps run in the code's order:
  \<open>drop_duplicates\<close> (first occurrence kept), the quartiles Q1 and Q3 of the
  non-NaN prices (pandas' linear interpolation), the IQR filter (a NaN price or a NaN
  bound compares False and drops the row), the \<open>price_stats\<close> dictionary of the
  survivors, then the row-wise drops: \<open>create_at\<close> that does not parse,
  \<open>flight_date\<close> that is not a string containing \<open>T\<close> or does not parse, and an
  aircraft type that is NaN or empty after \<open>str.strip()\<close>.
\<close>

subsection \<open>Operations\<close>

text \<open>\<open>DataFrame.drop_duplicates()\<close>: a row equal to an earlier one is dropped
  (NaN cells compare equal here, as in pandas).\<close>

fun drop_duplicates_acc :: "'a list \<Rightarrow> 'a list \<Rightarrow> 'a list" where
  "drop_duplicates_acc seen [] = []"
| "drop_duplicates_acc seen (x # xs) =
     (if x \<in> set seen then drop_duplicates_acc seen xs else x # drop_duplicates_acc (x # seen) xs)"

definition drop_duplicates :: "'a list \<Rightarrow> 'a list" where
  "drop_duplicates xs = drop_duplicates_acc [] xs"

text \<open>\<open>Series.quantile(k / d)\<close> with the default linear interpolation, NaN skipped:
  the virtual index \<open>k (m - 1) / d\<close> into the sorted values is split into its floor and
  fraction exactly (0.25 and 0.75 are binary fractions, so numpy's \<open>q * (m - 1)\<close> is
  exact too). \<open>lerp_at xs d num\<close> is the value at the virtual index \<open>num / d\<close>,
  numpy's \<open>_lerp\<close> between its two neighbours. An empty column gives NaN.\<close>

definition lerp_at :: "real list \<Rightarrow> nat \<Rightarrow> nat \<Rightarrow> real" where
  "lerp_at xs d num =
     (let lo = num div d; frac = real (num mod d) / real d in
      if lo + 1 < length xs then xs ! lo + frac * (xs ! (lo + 1) - xs ! lo) else xs ! lo)"

definition quantile :: "nat \<Rightarrow> nat \<Rightarrow> real list \<Rightarrow> real cell" where
  "quantile k d vs =
     (let xs = sort vs; m = length xs in
      if m = 0 then None else Some (lerp_at xs d (k * (m - 1))))"

text \<open>\<open>self.df['price']\<close> with its NaN cells skipped, as the reductions do.\<close>

definition valid_prices :: "raw_row list \<Rightarrow> real list" where
  "valid_prices rows = List.map_filter r_price rows"

text \<open>Lines 57--59: \<open>IQR = Q3 - Q1\<close> and the bounds \<open>Q1 - 1.5 IQR\<close>, \<open>Q3 + 1.5 IQR\<close>.\<close>

definition iqr_bounds :: "real cell \<Rightarrow> real cell \<Rightarrow> (real \<times> real) option" where
  "iqr_bounds q1 q3 =
     (case (q1, q3) of
        (Some a, Some b) \<Rightarrow> Some (a - 3 / 2 * (b - a), b + 3 / 2 * (b - a))
      | _ \<Rightarrow> None)"

text \<open>Line 63: \<open>(price >= lower_bound) & (price <= upper_bound)\<close>.\<close>

definition in_bounds :: "(real \<times> real) option \<Rightarrow> raw_row \<Rightarrow> bool" where
  "in_bounds bnds r =
     (case (bnds, r_price r) of
        (Some (lo, hi), Some p) \<Rightarrow> lo \<le> p \<and> p \<le> hi
      | _ \<Rightarrow> False)"

definition min_cell :: "real list \<Rightarrow> real cell" where
  "min_cell xs = (if xs = [] then None else Some (Min (set xs)))"

definition max_cell :: "real list \<Rightarrow> real cell" where
  "max_cell xs = (if xs = [] then None else Some (Max (set xs)))"

text \<open>Lines 66--73.\<close>

definition price_stats_of :: "real list \<Rightarrow> real cell \<Rightarrow> real cell \<Rightarrow> price_stats" where
  "price_stats_of ps q1 q3 =
     \<lparr>ps_min = min_cell ps, ps_max = max_cell ps, ps_mean = mean_list ps, ps_std = std_list ps,
      ps_q1 = q1, ps_q3 = q3\<rparr>"

text \<open>\<open>parse_flight_date\<close> (lines 78--85): only a string containing \<open>T\<close> is parsed;
  anything else, and a string that fails to parse, is NaT.\<close>

definition parse_flight_date :: "string cell \<Rightarrow> timestamp option" where
  "parse_flight_date c =
     (case c of Some s \<Rightarrow> if CHR ''T'' \<in> set s then to_datetime s else None | None \<Rightarrow> None)"

text \<open>The row-wise steps after the outlier filter (lines 75--92): coerce-parse
  \<open>create_at\<close> and drop NaT, parse \<open>flight_date\<close> and drop NaT, strip the aircraft
  type and drop it when empty or NaN. The price is present on every row that passed the
  outlier filter.\<close>

definition clean_row_of :: "raw_row \<Rightarrow> clean_row option" where
  "clean_row_of r = do {
     ca \<leftarrow> (case r_create_at r of Some s \<Rightarrow> to_datetime s | None \<Rightarrow> None);
     fd \<leftarrow> parse_flight_date (r_flight_date r);
     tp \<leftarrow> map_option py_strip (r_type_of_plane r);
     p \<leftarrow> r_price r;
     if tp = [] then None
     else Some \<lparr>c_create_at = ca, c_flight_number = r_flight_number r, c_type_of_plane = tp,
                c_departure_airport = r_departure_airport r, c_arrival_airport = r_arrival_airport r,
                c_flight_date = fd, c_departure_time = r_departure_time r,
                c_arrival_time = r_arrival_time r, c_classes = r_classes r, c_price = p\<rparr>
   }"

definition load_and_preprocess_data :: "raw_row list option \<Rightarrow> (clean_row list \<times> price_stats) result" where
  "load_and_preprocess_data csv =
     (case csv of
        None \<Rightarrow> Inl ValueError
      | Some raw \<Rightarrow>
          let rows1 = drop_duplicates raw;
              prices = valid_prices rows1;
              q1 = quantile 1 4 prices; q3 = quantile 3 4 prices;
              rows2 = filter (in_bounds (iqr_bounds q1 q3)) rows1;
              stats = price_stats_of (valid_prices rows2) q1 q3
          in Inr (List.map_filter clean_row_of rows2, stats))"

text \<open>An example table: a row, its exact duplicate, a row whose flight date has no time
  part, and a row without a fare class.\<close>

definition example_raw :: "string \<Rightarrow> string \<Rightarrow> string cell \<Rightarrow> real \<Rightarrow> raw_row" where
  "example_raw ca fd cls p =
     \<lparr>r_create_at = Some ca, r_flight_number = Some ''VJ124'', r_type_of_plane = Some '' Airbus A320 '',
      r_departure_airport = Some ''SGN'', r_arrival_airport = Some ''HAN'', r_flight_date = Some fd,
      r_departure_time = Some ''14:30'', r_arrival_time = Some ''16:45'', r_classes = cls,
      r_price = Some p\<rparr>"

definition example_csv :: "raw_row list" where
  "example_csv =
     [example_raw ''2024-01-01 09:00:00'' ''2024-02-15T14:30:00'' (Some ''Eco'') 1000,
      example_raw ''2024-01-01 09:00:00'' ''2024-02-15T14:30:00'' (Some ''Eco'') 1000,
      example_raw ''2024-01-02 10:00:00'' ''2024-02-15'' (Some ''Eco'') 1200,
      example_raw ''2024-01-03 11:00:00'' ''2024-02-16T08:00:00'' None 1100]"

definition example_clean :: "nat \<Rightarrow> nat \<Rightarrow> nat \<Rightarrow> nat \<Rightarrow> nat \<Rightarrow> string cell \<Rightarrow> real \<Rightarrow> clean_row" where
  "example_clean cd ch fd fh fm cls p =
     \<lparr>c_create_at = \<lparr>ts_year = 2024, ts_month = 1, ts_day = cd, ts_hour = ch, ts_minute = 0,
                     ts_second = 0, ts_nanos = 0\<rparr>,
      c_flight_number = Some ''VJ124'', c_type_of_plane = ''Airbus A320'',
      c_departure_airport = Some ''SGN'', c_arrival_airport = Some ''HAN'',
      c_flight_date = \<lparr>ts_year = 2024, ts_month = 2, ts_day = fd, ts_hour = fh, ts_minute = fm,
                       ts_second = 0, ts_nanos = 0\<rparr>,
      c_departure_time = Some ''14:30'', c_arrival_time = Some ''16:45'', c_classes = cls, c_price = p\<rparr>"

subsection \<open>Lemmas\<close>

lemma drop_duplicates_acc_set: "set (drop_duplicates_acc seen xs) = set xs - set seen"
  by (induction seen xs rule: drop_duplicates_acc.induct) auto

lemma drop_duplicates_acc_distinct: "distinct (drop_duplicates_acc seen xs)"
  by (induction seen xs rule: drop_duplicates_acc.induct) (auto simp: drop_duplicates_acc_set)

lemma drop_duplicates_acc_subseq: "subseq (drop_duplicates_acc seen xs) xs"
  by (induction seen xs rule: drop_duplicates_acc.induct) auto

lemma drop_duplicates_acc_snoc:
  "drop_duplicates_acc seen (xs @ [x]) =
     drop_duplicates_acc seen xs @ (if x \<in> set seen \<or> x \<in> set xs then [] else [x])"
  by (induction seen xs rule: drop_duplicates_acc.induct) auto

text \<open>The accumulator loop of \<open>drop_duplicates\<close> is the reference keep-first
  deduplication \<open>rev (remdups (rev xs))\<close>.\<close>

lemma drop_duplicates_rev_remdups:
  "drop_duplicates xs = rev (remdups (rev xs))"
proof (induction xs rule: rev_induct)
  case (snoc x xs)
  then show ?case by (simp add: drop_duplicates_def drop_duplicates_acc_snoc)
qed (simp add: drop_duplicates_def)

lemma remdups_append_filter: "remdups (xs @ ys) = remdups [x\<leftarrow>xs. x \<notin> set ys] @ remdups ys"
  by (induction xs) simp_all

lemma drop_duplicates_repeat:
  "x \<in> set xs \<Longrightarrow> drop_duplicates (xs @ x # ys) = drop_duplicates (xs @ ys)"
  by (simp add: drop_duplicates_rev_remdups remdups_append_filter insert_absorb)

lemma drop_duplicates_acc_distinct_id:
  "distinct xs \<Longrightarrow> set xs \<inter> set seen = {} \<Longrightarrow> drop_duplicates_acc seen xs = xs"
  by (induction seen xs rule: drop_duplicates_acc.induct) auto

lemma sorted_Min_nth: "sorted xs \<Longrightarrow> xs \<noteq> [] \<Longrightarrow> Min (set xs) = xs ! 0"
  by (rule Min_eqI) (auto simp: in_set_conv_nth sorted_nth_mono)

lemma sorted_Max_nth:
  assumes "sorted xs" "xs \<noteq> []"
  shows "Max (set xs) = xs ! (length xs - 1)"
proof (rule Max_eqI)
  show "xs ! (length xs - 1) \<in> set xs" using assms(2) by simp
qed (use assms(1) in \<open>auto simp: in_set_conv_nth sorted_nth_mono\<close>)

lemma lerp_at_Suc_mono:
  assumes s: "sorted xs" and d: "0 < d" and n: "Suc num \<le> d * (length xs - 1)"
  shows "lerp_at xs d num \<le> lerp_at xs d (Suc num)"
proof -
  let ?lo = "num div d" and ?r = "num mod d"
  have "num < d * (length xs - 1)" using n by simp
  then have "?lo < length xs - 1" using d by (simp add: div_less_iff_less_mult mult.commute)
  then have lo1: "?lo + 1 < length xs" by simp
  have step: "xs ! ?lo \<le> xs ! (?lo + 1)" using s lo1 by (simp add: sorted_nth_mono)
  have r: "?r < d" using d by simp
  let ?diff = "xs ! (?lo + 1) - xs ! ?lo"
  have num: "lerp_at xs d num = xs ! ?lo + real ?r / real d * ?diff"
    using lo1 by (simp add: lerp_at_def Let_def)
  show ?thesis
  proof (cases "Suc ?r = d")
    case True
    then have "Suc num div d = Suc ?lo" "Suc num mod d = 0" by (simp_all add: div_Suc mod_Suc)
    then have suc: "lerp_at xs d (Suc num) = xs ! (?lo + 1)" by (simp add: lerp_at_def Let_def)
    have "real ?r / real d \<le> 1" using r by simp
    then have "real ?r / real d * ?diff \<le> 1 * ?diff"
      using step by (intro mult_right_mono) simp_all
    then show ?thesis using num suc by simp
  next
    case False
    then have "Suc num div d = ?lo" "Suc num mod d = Suc ?r" by (simp_all add: div_Suc mod_Suc)
    then have suc: "lerp_at xs d (Suc num) = xs ! ?lo + real (Suc ?r) / real d * ?diff"
      using lo1 by (simp add: lerp_at_def Let_def)
    have "real ?r / real d \<le> real (Suc ?r) / real d" using d by (simp add: divide_right_mono)
    then have "real ?r / real d * ?diff \<le> real (Suc ?r) / real d * ?diff"
      using step by (intro mult_right_mono) simp_all
    then show ?thesis using num suc by simp
  qed
qed

lemma lerp_at_mono:
  assumes "sorted xs" "0 < d" "num1 \<le> num2" "num2 \<le> d * (length xs - 1)"
  shows "lerp_at xs d num1 \<le> lerp_at xs d num2"
  using assms(3,4)
proof (induction num2 rule: dec_induct)
  case (step n)
  then show ?case using lerp_at_Suc_mono[OF assms(1,2), of n] by simp
qed simp

lemma lerp_at_first: "0 < d \<Longrightarrow> lerp_at xs d 0 = xs ! 0"
  by (simp add: lerp_at_def)

lemma lerp_at_last: "0 < d \<Longrightarrow> lerp_at xs d (d * (length xs - 1)) = xs ! (length xs - 1)"
  by (simp add: lerp_at_def Let_def)

lemma sort_Nil_iff [simp]: "sort xs = [] \<longleftrightarrow> xs = []"
  by (metis set_empty set_sort)

lemma quantile_Some_iff:
  "quantile k d vs = Some q \<longleftrightarrow> vs \<noteq> [] \<and> q = lerp_at (sort vs) d (k * (length vs - 1))"
  by (auto simp: quantile_def Let_def)

lemma quantile_mono:
  assumes "0 < d" "k1 \<le> k2" "k2 \<le> d"
    and "quantile k1 d vs = Some a" "quantile k2 d vs = Some b"
  shows "a \<le> b"
proof -
  have "k2 * (length vs - 1) \<le> d * (length (sort vs) - 1)" using assms(3) by simp
  moreover have "k1 * (length vs - 1) \<le> k2 * (length vs - 1)" using assms(2) by simp
  ultimately show ?thesis using assms(4,5) lerp_at_mono[OF sorted_sort assms(1)]
    by (auto simp: quantile_Some_iff)
qed

lemma quantile_range:
  assumes "0 < d" "k \<le> d" and q: "quantile k d vs = Some a"
  shows "Min (set vs) \<le> a \<and> a \<le> Max (set vs)"
proof -
  let ?xs = "sort vs" and ?m = "length vs - 1"
  have ne: "vs \<noteq> []" and a: "a = lerp_at ?xs d (k * ?m)" using q by (auto simp: quantile_Some_iff)
  have le: "k * ?m \<le> d * (length ?xs - 1)" using assms(2) by simp
  have "lerp_at ?xs d 0 \<le> a" using a lerp_at_mono[OF sorted_sort assms(1) _ le] by simp
  moreover have "a \<le> lerp_at ?xs d (d * (length ?xs - 1))"
    using a lerp_at_mono[OF sorted_sort assms(1) le] by simp
  moreover have "Min (set vs) = ?xs ! 0" and "Max (set vs) = ?xs ! (length ?xs - 1)"
    using sorted_Min_nth[of ?xs] sorted_Max_nth[of ?xs] ne by simp_all
  ultimately show ?thesis using lerp_at_first[OF assms(1), of ?xs] lerp_at_last[OF assms(1), of ?xs] by simp
qed

text \<open>The quartiles of a price column: both lie between the smallest and the largest
  price, and Q1 is not above Q3.\<close>

theorem quartiles_ordered:
  assumes "quantile 1 4 ps = Some a" and "quantile 3 4 ps = Some b"
  shows "Min (set ps) \<le> a \<and> a \<le> b \<and> b \<le> Max (set ps)"
  using quantile_range[of 4 1 ps a] quantile_range[of 4 3 ps b] quantile_mono[of 4 1 3 ps a b] assms
  by simp

theorem quartiles_ordered_witness:
  "quantile 1 4 [1200, 1000, 1100] = Some 1050 \<and> quantile 3 4 [1200, 1000, 1100] = Some 1150 \<and>
   Min (set [1200, 1000, 1100]) \<le> (1050::real) \<and> (1050::real) \<le> 1150 \<and> 1150 \<le> Max (set [1200, 1000, 1100::real])"
proof -
  have a: "quantile 1 4 [1200, 1000, 1100] = Some (1050::real)"
    by (simp add: quantile_def lerp_at_def)
  have b: "quantile 3 4 [1200, 1000, 1100] = Some (1150::real)"
    by (simp add: quantile_def lerp_at_def)
  show ?thesis using quartiles_ordered[OF a b] a b by simp
qed

lemma set_map_filter: "set (List.map_filter f xs) = {y. \<exists>x\<in>set xs. f x = Some y}"
  by (induction xs) (auto simp: map_filter_simps split: option.splits)

lemma drop_duplicates_set [simp]: "set (drop_duplicates xs) = set xs"
  by (simp add: drop_duplicates_def drop_duplicates_acc_set)

lemma in_bounds_iqr:
  "in_bounds (iqr_bounds q1 q3) r \<longleftrightarrow>
     (\<exists>a b p. q1 = Some a \<and> q3 = Some b \<and> r_price r = Some p \<and>
              a - 3 / 2 * (b - a) \<le> p \<and> p \<le> b + 3 / 2 * (b - a))"
  by (auto simp: in_bounds_def iqr_bounds_def split: option.splits)

lemma clean_row_of_price: "clean_row_of r = Some c \<Longrightarrow> r_price r = Some (c_price c)"
  by (auto simp: clean_row_of_def bind_eq_Some_conv split: option.splits if_splits)

lemma load_and_preprocess_data_Inr:
  assumes "load_and_preprocess_data (Some raw) = Inr (rows, ps)"
  defines "kept \<equiv> filter (in_bounds (iqr_bounds (ps_q1 ps) (ps_q3 ps))) (drop_duplicates raw)"
  shows "ps_q1 ps = quantile 1 4 (valid_prices (drop_duplicates raw))"
    and "ps_q3 ps = quantile 3 4 (valid_prices (drop_duplicates raw))"
    and "rows = List.map_filter clean_row_of kept"
    and "ps = price_stats_of (valid_prices kept) (ps_q1 ps) (ps_q3 ps)"
  using assms by (auto simp: load_and_preprocess_data_def Let_def price_stats_of_def)

text \<open>C6. The cleaned table: a cleaned row is in the output exactly when some input row
  cleans to it (its timestamps parse, its flight date contains T, its stripped aircraft
  type is non-empty) and its price lies within the IQR bounds [Q1 - 1.5 IQR, Q3 + 1.5 IQR]
  of the recorded quartiles.\<close>

theorem cleaned_rows_iff:
  assumes "load_and_preprocess_data (Some raw) = Inr (rows, ps)"
  shows "c \<in> set rows \<longleftrightarrow>
           (\<exists>r\<in>set raw. clean_row_of r = Some c) \<and>
           (\<exists>a b. ps_q1 ps = Some a \<and> ps_q3 ps = Some b \<and>
                  a - 3 / 2 * (b - a) \<le> c_price c \<and> c_price c \<le> b + 3 / 2 * (b - a))"
  unfolding load_and_preprocess_data_Inr(3)[OF assms] set_map_filter
  by (auto simp: in_bounds_iqr dest: clean_row_of_price) (force dest: clean_row_of_price)

lemma list_all2_map_filter:
  "list_all2 (\<lambda>x y. f x = Some y) (filter (\<lambda>x. f x \<noteq> None) xs) (List.map_filter f xs)"
  by (induction xs) (auto simp: map_filter_simps split: option.splits)

lemma map_filter_subseq:
  "distinct xs \<Longrightarrow>
   \<exists>sub. subseq sub xs \<and> distinct sub \<and> list_all2 (\<lambda>x y. f x = Some y) sub (List.map_filter f xs)"
  using list_all2_map_filter[of f xs] by (intro exI[of _ "filter (\<lambda>x. f x \<noteq> None) xs"]) auto

text \<open>Cleaning keeps the order of the input and never duplicates a row: the cleaned
  table is the cleaned image of a duplicate-free subsequence of the input rows.\<close>

theorem cleaned_rows_ordered:
  assumes "load_and_preprocess_data (Some raw) = Inr (rows, ps)"
  shows "\<exists>sub. subseq sub raw \<and> distinct sub \<and> list_all2 (\<lambda>r c. clean_row_of r = Some c) sub rows"
proof -
  let ?kept = "filter (in_bounds (iqr_bounds (ps_q1 ps) (ps_q3 ps))) (drop_duplicates raw)"
  have "distinct ?kept" by (simp add: drop_duplicates_def drop_duplicates_acc_distinct)
  then obtain sub where sub: "subseq sub ?kept" "distinct sub"
    "list_all2 (\<lambda>r c. clean_row_of r = Some c) sub rows"
    using map_filter_subseq[of ?kept clean_row_of] load_and_preprocess_data_Inr(3)[OF assms] by auto
  have "subseq ?kept raw"
    using subseq_order.order_trans[OF subseq_filter_left drop_duplicates_acc_subseq]
    by (simp add: drop_duplicates_def)
  then have "subseq sub raw" using sub(1) by (rule subseq_order.order_trans[rotated])
  with sub(2,3) show ?thesis by blast
qed

lemma valid_prices_set: "set (valid_prices rows) = {p. \<exists>r\<in>set rows. r_price r = Some p}"
  by (simp add: valid_prices_def set_map_filter)

text \<open>C7. The recorded price statistics are consistent: when the surviving prices have a
  minimum, maximum and mean, Q1 and Q3 exist with Q1 not above Q3, and
  lower bound, minimum, mean, maximum and upper bound come in that order.\<close>

theorem price_stats_bounds:
  assumes load: "load_and_preprocess_data (Some raw) = Inr (rows, ps)"
    and st: "ps_min ps = Some lo" "ps_max ps = Some hi" "ps_mean ps = Some m"
  shows "\<exists>a b. ps_q1 ps = Some a \<and> ps_q3 ps = Some b \<and> a \<le> b \<and>
           a - 3 / 2 * (b - a) \<le> lo \<and> lo \<le> m \<and> m \<le> hi \<and> hi \<le> b + 3 / 2 * (b - a)"
proof -
  let ?kept = "filter (in_bounds (iqr_bounds (ps_q1 ps) (ps_q3 ps))) (drop_duplicates raw)"
  let ?vp = "valid_prices ?kept"
  have ps: "ps = price_stats_of ?vp (ps_q1 ps) (ps_q3 ps)" by (rule load_and_preprocess_data_Inr(4)[OF load])
  have "ps_min ps = min_cell ?vp" "ps_max ps = max_cell ?vp" "ps_mean ps = mean_list ?vp"
    using arg_cong[OF ps, of ps_min] arg_cong[OF ps, of ps_max] arg_cong[OF ps, of ps_mean]
    by (simp_all add: price_stats_of_def)
  then have ne: "?vp \<noteq> []" and lo: "lo = Min (set ?vp)" and hi: "hi = Max (set ?vp)"
    and mean: "mean_list ?vp = Some m"
    using st by (auto simp: min_cell_def max_cell_def split: if_splits)
  then obtain p0 where "p0 \<in> set ?vp" by (meson list.set_sel(1))
  then obtain a b where q: "ps_q1 ps = Some a" "ps_q3 ps = Some b"
    by (auto simp: valid_prices_set in_bounds_iqr)
  have inb: "\<forall>p\<in>set ?vp. a - 3 / 2 * (b - a) \<le> p \<and> p \<le> b + 3 / 2 * (b - a)"
    using q by (auto simp: valid_prices_set in_bounds_iqr)
  have ab: "a \<le> b"
    using quantile_mono[of 4 1 3 "valid_prices (drop_duplicates raw)" a b] q
          load_and_preprocess_data_Inr(1,2)[OF load] by simp
  have fin: "finite (set ?vp)" "set ?vp \<noteq> {}" using ne by simp_all
  have "a - 3 / 2 * (b - a) \<le> lo" using inb fin by (simp add: lo)
  moreover have "hi \<le> b + 3 / 2 * (b - a)" using inb fin by (simp add: hi)
  moreover have "lo \<le> m \<and> m \<le> hi"
    using mean_list_bounds[OF mean, of lo hi] fin by (simp add: lo hi)
  ultimately show ?thesis using q ab by blast
qed

lemma example_raw_clean:
  "clean_row_of (example_raw ''2024-01-01 09:00:00'' ''2024-02-15T14:30:00'' (Some ''Eco'') p) =
     Some (example_clean 1 9 15 14 30 (Some ''Eco'') p)"
  by (simp add: clean_row_of_def parse_flight_date_def example_raw_def example_clean_def parse_eval_defs
                py_strip_def is_py_space_def)

lemma example_raw_no_time:
  "clean_row_of (example_raw ''2024-01-02 10:00:00'' ''2024-02-15'' (Some ''Eco'') 1200) = None"
  by (simp add: clean_row_of_def parse_flight_date_def example_raw_def parse_eval_defs)

lemma example_csv_load:
  "load_and_preprocess_data (Some example_csv) =
     Inr ([example_clean 1 9 15 14 30 (Some ''Eco'') 1000, example_clean 3 11 16 8 0 None 1100],
          price_stats_of [1000, 1200, 1100] (Some 1050) (Some 1150))"
proof -
  have dd: "drop_duplicates example_csv = [example_raw ''2024-01-01 09:00:00'' ''2024-02-15T14:30:00'' (Some ''Eco'') 1000,
      example_raw ''2024-01-02 10:00:00'' ''2024-02-15'' (Some ''Eco'') 1200,
      example_raw ''2024-01-03 11:00:00'' ''2024-02-16T08:00:00'' None 1100]"
    by (simp add: example_csv_def drop_duplicates_def example_raw_def)
  have q1: "quantile (Suc 0) 4 [1000, 1200, 1100] = Some (1050::real)" by (simp add: quantile_def lerp_at_def)
  have q3: "quantile 3 4 [1000, 1200, 1100] = Some (1150::real)" by (simp add: quantile_def lerp_at_def)
  have c1: "clean_row_of (example_raw ''2024-01-01 09:00:00'' ''2024-02-15T14:30:00'' (Some ''Eco'') 1000) =
            Some (example_clean 1 9 15 14 30 (Some ''Eco'') 1000)"
    by (simp add: clean_row_of_def parse_flight_date_def example_raw_def example_clean_def parse_eval_defs
                  py_strip_def is_py_space_def)
  note c2 = example_raw_no_time
  have c3: "clean_row_of (example_raw ''2024-01-03 11:00:00'' ''2024-02-16T08:00:00'' None 1100) =
            Some (example_clean 3 11 16 8 0 None 1100)"
    by (simp add: clean_row_of_def parse_flight_date_def example_raw_def example_clean_def parse_eval_defs
                  py_strip_def is_py_space_def)
  have pr: "\<And>ca fd cls p. r_price (example_raw ca fd cls p) = Some p" by (simp add: example_raw_def)
  have vp: "valid_prices (drop_duplicates example_csv) = [1000, 1200, 1100]"
    by (simp add: dd valid_prices_def map_filter_simps pr)
  have kept: "filter (in_bounds (iqr_bounds (Some 1050) (Some 1150))) (drop_duplicates example_csv) =
              drop_duplicates example_csv"
    by (simp add: dd in_bounds_def iqr_bounds_def pr)
  show ?thesis
    by (simp add: load_and_preprocess_data_def vp q1 q3 kept Let_def)
       (simp add: dd valid_prices_def map_filter_simps pr c1 c2 c3)
qed

lemma example_stats:
  "ps_min (price_stats_of [1000, 1200, 1100] (Some 1050) (Some 1150)) = Some 1000"
  "ps_max (price_stats_of [1000, 1200, 1100] (Some 1050) (Some 1150)) = Some 1200"
  "ps_mean (price_stats_of [1000, 1200, 1100] (Some 1050) (Some 1150)) = Some 1100"
  by (simp_all add: price_stats_of_def min_cell_def max_cell_def mean_list_def)

theorem cleaned_rows_iff_witness:
  "\<exists>r\<in>set example_csv. clean_row_of r = Some (example_clean 3 11 16 8 0 None 1100)"
proof -
  have "example_clean 3 11 16 8 0 None 1100 \<in>
          set [example_clean 1 9 15 14 30 (Some ''Eco'') 1000, example_clean 3 11 16 8 0 None 1100]"
    by simp
  then show ?thesis using cleaned_rows_iff[OF example_csv_load] by blast
qed

theorem cleaned_rows_ordered_witness:
  "\<exists>sub. subseq sub example_csv \<and> distinct sub \<and>
     list_all2 (\<lambda>r c. clean_row_of r = Some c) sub
       [example_clean 1 9 15 14 30 (Some ''Eco'') 1000, example_clean 3 11 16 8 0 None 1100]"
  by (rule cleaned_rows_ordered[OF example_csv_load])

theorem price_stats_bounds_witness:
  "\<exists>a b. ps_q1 (price_stats_of [1000, 1200, 1100] (Some 1050) (Some 1150)) = Some a \<and>
         ps_q3 (price_stats_of [1000, 1200, 1100] (Some 1050) (Some 1150)) = Some b \<and> a \<le> b \<and>
         a - 3 / 2 * (b - a) \<le> 1000 \<and> (1000::real) \<le> 1100 \<and> (1100::real) \<le> 1200 \<and> 1200 \<le> b + 3 / 2 * (b - a)"
  by (rule price_stats_bounds[OF example_csv_load example_stats])

text \<open>C33. Repeated records change nothing: inserting, anywhere after its first
  occurrence, a copy of a row already in the CSV file leaves the cleaned table and the
  recorded price statistics unchanged (\<open>drop_duplicates\<close> keeps the first occurrence
  and runs before the quartiles are taken).\<close>

theorem duplicate_rows_ignored:
  assumes "x \<in> set xs"
  shows "load_and_preprocess_data (Some (xs @ x # ys)) = load_and_preprocess_data (Some (xs @ ys))"
  using drop_duplicates_repeat[OF assms] by (simp add: load_and_preprocess_data_def)

theorem duplicate_rows_ignored_witness:
  "load_and_preprocess_data (Some example_csv) =
     load_and_preprocess_data (Some (example_csv ! 0 # drop 2 example_csv))"
proof -
  have "example_csv = [example_csv ! 0] @ example_csv ! 0 # drop 2 example_csv"
    by (simp add: example_csv_def)
  then show ?thesis
    using duplicate_rows_ignored[of "example_csv ! 0" "[example_csv ! 0]" "drop 2 example_csv"] by simp
qed

text \<open>C34. Price statistics are taken before the rows with unparsable timestamps or
  aircraft types are dropped: the price of every deduplicated row within the IQR bounds
  lies between the recorded minimum and maximum, whether or not the row survives
  cleaning, so the statistics can describe prices that the cleaned table does not hold.\<close>

theorem stats_include_dropped_rows:
  assumes load: "load_and_preprocess_data (Some raw) = Inr (rows, ps)"
    and r: "r \<in> set raw" "in_bounds (iqr_bounds (ps_q1 ps) (ps_q3 ps)) r" "r_price r = Some p"
  shows "\<exists>lo hi. ps_min ps = Some lo \<and> ps_max ps = Some hi \<and> lo \<le> p \<and> p \<le> hi"
proof -
  let ?vp = "valid_prices (filter (in_bounds (iqr_bounds (ps_q1 ps) (ps_q3 ps))) (drop_duplicates raw))"
  have ps: "ps = price_stats_of ?vp (ps_q1 ps) (ps_q3 ps)" by (rule load_and_preprocess_data_Inr(4)[OF load])
  have p: "p \<in> set ?vp" using r by (auto simp: valid_prices_set)
  then have ne: "?vp \<noteq> []" by auto
  have "ps_min ps = Some (Min (set ?vp))" "ps_max ps = Some (Max (set ?vp))"
    using arg_cong[OF ps, of ps_min] arg_cong[OF ps, of ps_max] ne
    by (simp_all add: price_stats_of_def min_cell_def max_cell_def)
  then show ?thesis using p by simp
qed

theorem stats_include_dropped_rows_witness:
  "clean_row_of (example_csv ! 2) = None \<and>
   (\<exists>lo hi. ps_min (price_stats_of [1000, 1200, 1100] (Some 1050) (Some 1150)) = Some lo \<and>
            ps_max (price_stats_of [1000, 1200, 1100] (Some 1050) (Some 1150)) = Some hi \<and>
            lo \<le> 1200 \<and> 1200 \<le> hi)"
proof -
  have r2: "example_csv ! 2 = example_raw ''2024-01-02 10:00:00'' ''2024-02-15'' (Some ''Eco'') 1200"
    by (simp add: example_csv_def)
  have inb: "in_bounds (iqr_bounds (ps_q1 (price_stats_of [1000, 1200, 1100] (Some 1050) (Some 1150)))
                                   (ps_q3 (price_stats_of [1000, 1200, 1100] (Some 1050) (Some 1150))))
               (example_csv ! 2)"
    by (simp add: r2 price_stats_of_def in_bounds_def iqr_bounds_def example_raw_def)
  have pr: "r_price (example_csv ! 2) = Some 1200" by (simp add: r2 example_raw_def)
  have mem: "example_csv ! 2 \<in> set example_csv" by (simp add: example_csv_def)
  show ?thesis
    using stats_include_dropped_rows[OF example_csv_load mem inb pr] by (simp add: r2 example_raw_no_time)
qed

text \<open>C35. A record with a missing fare class, flight number, airport code or clock
  string is not discarded: the cleaning of a row does not look at these six cells, so
  changing any of them (to NaN, say) only changes the same cells of the cleaned row,
  where the specification has every missing required field invalidate the record.\<close>

theorem missing_class_survives:
  "clean_row_of (r\<lparr>r_flight_number := fno, r_departure_airport := dap, r_arrival_airport := aap,
                    r_departure_time := dtm, r_arrival_time := atm, r_classes := cls\<rparr>) =
   map_option (\<lambda>c. c\<lparr>c_flight_number := fno, c_departure_airport := dap, c_arrival_airport := aap,
                      c_departure_time := dtm, c_arrival_time := atm, c_classes := cls\<rparr>)
     (clean_row_of r)"
  by (simp add: clean_row_of_def map_option_bind comp_def if_distrib[of "map_option _"] cong: if_cong)

end
