(* ===== verification/Trainer.thy ===== *)
theory Trainer
  imports Prelude "HOL-Library.Multiset"
begin

text \<open>
  ModelTrainer: \<open>train_and_evaluate_models\<close> (lines 196--288). The regressors are an
  interface: \<open>fit\<close> builds a fitted model of type \<open>'m\<close> from a candidate's
  configuration and a training set, \<open>predict\<close> evaluates it on one feature vector.
  The random permutations drawn from \<open>RandomState(42)\<close> are an input, the function
  \<open>perm42\<close> (\<open>permutation(n)\<close> of a fresh generator, which both
  \<open>train_test_split\<close> and the shuffled \<open>KFold\<close> use); everything sklearn does with
  them is modelled: the test share \<open>ceil(0.2 n)\<close>, which equals
  \<open>(n + 4) div 5\<close> for every n (the binary value of 0.2 exceeds 1/5 by less than half
  an ulp of any multiple of it), the sorted train/test masks of \<open>KFold\<close> with fold sizes
  \<open>n div 5\<close> plus one for the first \<open>n mod 5\<close> folds, the mean absolute error of
  \<open>cross_val_score\<close>, the train/test metrics, and the choice of the candidate with the
  lowest mean cross-validated MAE, the first in dictionary order on a tie.
\<close>

datatype regressor_config =
    RandomForestRegressor (rf_n_estimators: nat) (rf_max_depth: nat) (rf_min_samples_split: nat)
      (rf_min_samples_leaf: nat) (rf_max_features: string) (rf_random_state: nat)
  | GradientBoostingRegressor (gb_n_estimators: nat) (gb_learning_rate: real) (gb_max_depth: nat)
      (gb_min_samples_split: nat) (gb_min_samples_leaf: nat) (gb_subsample: real) (gb_random_state: nat)
  | DecisionTreeRegressor (dt_max_depth: nat) (dt_min_samples_split: nat) (dt_min_samples_leaf: nat)
      (dt_random_state: nat)

text \<open>The \<open>models\<close> dictionary, in insertion order.\<close>

definition candidate_models :: "(string \<times> regressor_config) list" where
  "candidate_models =
     [(''Random Forest'', RandomForestRegressor 200 20 5 2 ''sqrt'' 42),
      (''Gradient Boosting'', GradientBoostingRegressor 200 (1/10) 8 5 2 (9/10) 42),
      (''Decision Tree'', DecisionTreeRegressor 20 5 2 42)]"

type_synonym 'm fit_fn = "regressor_config \<Rightarrow> real list list \<Rightarrow> real list \<Rightarrow> 'm"
type_synonym 'm model_fn = "'m \<Rightarrow> real list \<Rightarrow> real"

subsection \<open>Positional indexing and splits\<close>

definition pick :: "'a list \<Rightarrow> nat list \<Rightarrow> 'a list" where
  "pick xs idx = map (\<lambda>i. xs ! i) idx"

definition n_test_of :: "nat \<Rightarrow> nat" where
  "n_test_of n = (n + 4) div 5"

text \<open>\<open>train_test_split(test_size=0.2)\<close>: the first \<open>n_test\<close> entries of the permutation
  are the test indices, the next \<open>n - n_test\<close> the training indices; an empty training
  set raises ValueError.\<close>

definition train_test_split :: "nat list \<Rightarrow> (nat list \<times> nat list) result" where
  "train_test_split perm =
     (let n = length perm; n_test = n_test_of n; n_train = n - n_test in
      if n_train = 0 then Inl ValueError
      else Inr (take n_train (drop n_test perm), take n_test perm))"

definition fold_sizes :: "nat \<Rightarrow> nat \<Rightarrow> nat list" where
  "fold_sizes k n = map (\<lambda>i. n div k + (if i < n mod k then 1 else 0)) [0..<k]"

fun chunks :: "nat list \<Rightarrow> 'a list \<Rightarrow> 'a list list" where
  "chunks [] xs = []"
| "chunks (s # ss) xs = take s xs # chunks ss (drop s xs)"

text \<open>\<open>KFold(n_splits=k, shuffle=True).split\<close>: consecutive chunks of the shuffled
  indices are the test folds; both index arrays come out of boolean masks, hence in
  increasing order.\<close>

definition kfold_split :: "nat \<Rightarrow> nat list \<Rightarrow> (nat list \<times> nat list) list result" where
  "kfold_split k kperm =
     (let n = length kperm in
      if k < 2 \<or> n < k then Inl ValueError
      else Inr (map (\<lambda>chunk. (filter (\<lambda>i. i \<notin> set chunk) [0..<n], filter (\<lambda>i. i \<in> set chunk) [0..<n]))
                    (chunks (fold_sizes k n) kperm)))"

subsection \<open>Metrics\<close>

definition mae :: "real list \<Rightarrow> real list \<Rightarrow> real" where
  "mae ys ps = sum_list (map (\<lambda>(y, p). \<bar>y - p\<bar>) (zip ys ps)) / real (length ys)"

definition mse :: "real list \<Rightarrow> real list \<Rightarrow> real" where
  "mse ys ps = sum_list (map (\<lambda>(y, p). (y - p)\<^sup>2) (zip ys ps)) / real (length ys)"

text \<open>\<open>r2_score\<close>: with a constant target, 1 for a perfect fit and 0 otherwise.\<close>

definition r2 :: "real list \<Rightarrow> real list \<Rightarrow> real" where
  "r2 ys ps =
     (let m = sum_list ys / real (length ys);
          ss_res = sum_list (map (\<lambda>(y, p). (y - p)\<^sup>2) (zip ys ps));
          ss_tot = sum_list (map (\<lambda>y. (y - m)\<^sup>2) ys)
      in if ss_tot = 0 then (if ss_res = 0 then 1 else 0) else 1 - ss_res / ss_tot)"

text \<open>\<open>np.std\<close> (population standard deviation).\<close>

definition np_std :: "real list \<Rightarrow> real" where
  "np_std xs = (let m = sum_list xs / real (length xs) in
                sqrt (sum_list (map (\<lambda>x. (x - m)\<^sup>2) xs) / real (length xs)))"

text \<open>\<open>train_mae / test_mae if test_mae > 0 else float('inf')\<close>; \<open>None\<close> is infinity.\<close>

definition overfitting_ratio_of :: "real \<Rightarrow> real \<Rightarrow> real option" where
  "overfitting_ratio_of train test = (if 0 < test then Some (train / test) else None)"

record 'm model_result =
  mr_model :: 'm
  cv_mae_mean :: real
  cv_mae_std :: real
  train_mae :: real
  test_mae :: real
  train_rmse :: real
  test_rmse :: real
  train_r2 :: real
  test_r2 :: real
  overfitting_ratio :: "real option"

subsection \<open>Cross-validation, evaluation and selection\<close>

text \<open>\<open>cross_val_score(..., scoring='neg_mean_absolute_error')\<close> negated: the MAE of a
  clone fitted on each training fold, measured on its test fold.\<close>

definition cv_fold_maes ::
  "'m fit_fn \<Rightarrow> 'm model_fn \<Rightarrow> regressor_config \<Rightarrow> (nat list \<times> nat list) list \<Rightarrow>
   real list list \<Rightarrow> real list \<Rightarrow> real list" where
  "cv_fold_maes fit predict c folds X y =
     map (\<lambda>(tr, te). let m = fit c (pick X tr) (pick y tr) in
                      mae (pick y te) (map (predict m) (pick X te))) folds"

definition evaluate_candidate ::
  "'m fit_fn \<Rightarrow> 'm model_fn \<Rightarrow> (nat list \<times> nat list) list \<Rightarrow>
   real list list \<Rightarrow> real list \<Rightarrow> real list list \<Rightarrow> real list \<Rightarrow> regressor_config \<Rightarrow> 'm model_result" where
  "evaluate_candidate fit predict folds Xtr ytr Xte yte c =
     (let scores = cv_fold_maes fit predict c folds Xtr ytr;
          m = fit c Xtr ytr;
          ptr = map (predict m) Xtr; pte = map (predict m) Xte;
          trm = mae ytr ptr; tem = mae yte pte
      in \<lparr>mr_model = m, cv_mae_mean = sum_list scores / real (length scores), cv_mae_std = np_std scores,
          train_mae = trm, test_mae = tem, train_rmse = sqrt (mse ytr ptr), test_rmse = sqrt (mse yte pte),
          train_r2 = r2 ytr ptr, test_r2 = r2 yte pte, overfitting_ratio = overfitting_ratio_of trm tem\<rparr>)"

text \<open>Line 269: \<open>min(self.results.keys(), key=lambda k: self.results[k]['cv_mae_mean'])\<close>.\<close>

definition select_best :: "(string \<times> 'm model_result) list \<Rightarrow> (string \<times> 'm model_result) result" where
  "select_best results = argmin_first (\<lambda>(name, r). cv_mae_mean r) results"

text \<open>Both \<open>train_test_split\<close> and the shuffled \<open>KFold\<close> draw from a fresh
  \<open>RandomState(42)\<close>, whose \<open>permutation(n)\<close> is the parameter \<open>perm42 n\<close>. The
  lengths of X and y must agree (\<open>check_consistent_length\<close>).\<close>

definition train_and_evaluate_models ::
  "'m fit_fn \<Rightarrow> 'm model_fn \<Rightarrow> (nat \<Rightarrow> nat list) \<Rightarrow> real list list \<Rightarrow> real list \<Rightarrow>
   ('m \<times> string \<times> (string \<times> 'm model_result) list) result" where
  "train_and_evaluate_models fit predict perm42 X y =
     (if length X \<noteq> length y then Inl ValueError else
     res_bind (train_test_split (perm42 (length X))) (\<lambda>(tr, te).
     res_bind (kfold_split 5 (perm42 (length tr))) (\<lambda>folds.
       let Xtr = pick X tr; ytr = pick y tr; Xte = pick X te; yte = pick y te;
           results = map (\<lambda>(name, c). (name, evaluate_candidate fit predict folds Xtr ytr Xte yte c))
                         candidate_models
       in res_bind (select_best results) (\<lambda>(name, r). Inr (mr_model r, name, results)))))"

text \<open>The mean cross-validated MAE of one candidate, the key of the selection.\<close>

definition cv_mean_of :: "'m fit_fn \<Rightarrow> 'm model_fn \<Rightarrow> (nat list \<times> nat list) list \<Rightarrow>
   real list list \<Rightarrow> real list \<Rightarrow> regressor_config \<Rightarrow> real" where
  "cv_mean_of fit predict folds Xtr ytr c =
     (let scores = cv_fold_maes fit predict c folds Xtr ytr in sum_list scores / real (length scores))"

text \<open>A result row carrying only its mean CV score, for the selection scenarios.\<close>

definition example_result :: "real \<Rightarrow> unit model_result" where
  "example_result c = \<lparr>mr_model = (), cv_mae_mean = c, cv_mae_std = 0, train_mae = 0, test_mae = 0,
     train_rmse = 0, test_rmse = 0, train_r2 = 0, test_r2 = 0, overfitting_ratio = None\<rparr>"

subsection \<open>Lemmas\<close>

lemma mset_take_drop_rotate:
  assumes "a + b = length xs"
  shows "mset (take a (drop b xs) @ take b xs) = mset xs"
proof -
  from assms have td: "take a (drop b xs) = drop b xs" by simp
  have "mset (take a (drop b xs) @ take b xs) = mset (drop b xs) + mset (take b xs)"
    by (simp add: td)
  also have "\<dots> = mset (take b xs @ drop b xs)" by (simp only: mset_append add.commute)
  also have "\<dots> = mset xs" by (simp only: append_take_drop_id)
  finally show ?thesis .
qed

lemma sum_list_indicator: "sum_list (map (\<lambda>i. if i < r then 1 else 0) [0..<k]) = min r (k::nat)"
  by (induction k) auto

lemma sum_fold_sizes: "0 < k \<Longrightarrow> sum_list (fold_sizes k n) = n"
proof -
  assume k: "0 < k"
  have "sum_list (fold_sizes k n) = sum_list (map (\<lambda>i. n div k) [0..<k]) + sum_list (map (\<lambda>i. if i < n mod k then 1 else 0) [0..<k])"
    by (simp add: fold_sizes_def sum_list_addf)
  also have "\<dots> = k * (n div k) + n mod k"
    using k by (simp add: sum_list_triv sum_list_indicator min_def)
  finally show ?thesis by simp
qed

lemma length_fold_sizes [simp]: "length (fold_sizes k n) = k"
  by (simp add: fold_sizes_def)

lemma fold_sizes_bounds: "s \<in> set (fold_sizes k n) \<Longrightarrow> n div k \<le> s \<and> s \<le> n div k + 1"
  by (auto simp: fold_sizes_def)

lemma concat_chunks: "concat (chunks ss xs) = take (sum_list ss) xs"
  by (induction ss arbitrary: xs) (auto simp: take_add)

lemma length_chunks [simp]: "length (chunks ss xs) = length ss"
  by (induction ss arbitrary: xs) auto

lemma chunks_lengths:
  "sum_list ss \<le> length xs \<Longrightarrow> map length (chunks ss xs) = ss"
  by (induction ss arbitrary: xs) auto

lemma mset_filter_mem_upt:
  assumes "distinct c" and "set c \<subseteq> {0..<n}"
  shows "mset (filter (\<lambda>i. i \<in> set c) [0..<n]) = mset c"
proof -
  have "set (filter (\<lambda>i. i \<in> set c) [0..<n]) = set c" using assms(2) by auto
  moreover have "distinct (filter (\<lambda>i. i \<in> set c) [0..<n])" by simp
  ultimately show ?thesis using assms(1) by (metis mset_set_set)
qed

lemma chunks_distinct_subset:
  "distinct xs \<Longrightarrow> c \<in> set (chunks ss xs) \<Longrightarrow> distinct c \<and> set c \<subseteq> set xs"
proof (induction ss arbitrary: xs)
  case (Cons s ss)
  show ?case
  proof (cases "c = take s xs")
    case True
    with Cons.prems show ?thesis by (auto dest: in_set_takeD)
  next
    case False
    with Cons.prems have "c \<in> set (chunks ss (drop s xs))" by simp
    with Cons.prems(1) Cons.IH[of "drop s xs"] show ?thesis by (auto dest: in_set_dropD)
  qed
qed simp

lemma mset_concat_map_eq:
  "(\<And>c. c \<in> set cs \<Longrightarrow> mset (g c) = mset c) \<Longrightarrow> mset (concat (map g cs)) = mset (concat cs)"
  by (induction cs) auto

lemma chunk_length_mem:
  "c \<in> set (chunks ss xs) \<Longrightarrow> sum_list ss \<le> length xs \<Longrightarrow> length c \<in> set ss"
  using chunks_lengths[of ss xs] by (metis image_eqI set_map)

lemma select_best_evaluated:
  "map_sum id (\<lambda>(name, r). (mr_model r, name))
     (select_best (map (\<lambda>(name, c). (name, evaluate_candidate fit predict folds Xtr ytr Xte yte c)) cs)) =
   map_sum id (\<lambda>(name, c). (fit c Xtr ytr, name))
     (argmin_first (\<lambda>(name, c). cv_mean_of fit predict folds Xtr ytr c) cs)"
  by (simp add: select_best_def argmin_first_map sum.map_comp comp_def case_prod_unfold
                evaluate_candidate_def cv_mean_of_def Let_def id_def)

lemma n_train_ge_5: "5 \<le> n - n_test_of n \<longleftrightarrow> 7 \<le> (n::nat)"
proof -
  define d where "d = n_test_of n"
  have e: "5 * d \<le> n + 4" "n + 4 < 5 * d + 5" unfolding d_def n_test_of_def by linarith+
  consider "d \<le> 1" | "d = 2" | "3 \<le> d" by linarith
  then show ?thesis
  proof cases
    case 1 then show ?thesis using e unfolding d_def[symmetric] by arith
  next
    case 2 then show ?thesis using e unfolding d_def[symmetric] by arith
  next
    case 3 then show ?thesis using e unfolding d_def[symmetric] by arith
  qed
qed

lemma select_best_candidates:
  "\<exists>r. select_best (map (\<lambda>(name, c). (name, f c)) candidate_models) = Inr r"
  by (simp add: candidate_models_def select_best_def)

lemma kfold_split_perm:
  "length kperm = k \<Longrightarrow> (\<exists>folds. kfold_split 5 kperm = Inr folds) \<longleftrightarrow> 5 \<le> k"
  "length kperm = k \<Longrightarrow> kfold_split 5 kperm = Inl e \<Longrightarrow> e = ValueError"
  by (auto simp: kfold_split_def split: if_splits)

lemma train_test_split_perm:
  "length perm = n \<Longrightarrow> train_test_split perm = Inl e \<longleftrightarrow> e = ValueError \<and> n - n_test_of n = 0"
  "length perm = n \<Longrightarrow> train_test_split perm = Inr (tr, te) \<Longrightarrow> length tr = n - n_test_of n"
  by (auto simp: train_test_split_def Let_def split: if_splits)

lemma train_succeeds_iff:
  assumes perm: "\<forall>n. length (perm42 n) = n"
  shows "((\<exists>r. train_and_evaluate_models fit mdl perm42 X y = Inr r) \<longleftrightarrow> length X = length y \<and> 7 \<le> length X) \<and>
         (\<forall>e. train_and_evaluate_models fit mdl perm42 X y = Inl e \<longrightarrow> e = ValueError)"
proof (cases "length X = length y")
  case False
  then show ?thesis by (simp add: train_and_evaluate_models_def)
next
  case True
  let ?n = "length X"
  let ?G = "\<lambda>tr te folds. let Xtr = pick X tr; ytr = pick y tr; Xte = pick X te; yte = pick y te;
           results = map (\<lambda>(name, c). (name, evaluate_candidate fit mdl folds Xtr ytr Xte yte c)) candidate_models
       in res_bind (select_best results) (\<lambda>(name, r). Inr (mr_model r, name, results))"
  have G: "\<exists>r. ?G tr te folds = Inr r" for tr te folds
  proof -
    obtain nm r where "select_best (map (\<lambda>(name, c). (name, evaluate_candidate fit mdl folds
        (pick X tr) (pick y tr) (pick X te) (pick y te) c)) candidate_models) = Inr (nm, r)"
      using select_best_candidates[of "evaluate_candidate fit mdl folds (pick X tr) (pick y tr) (pick X te) (pick y te)"]
      by auto
    then show ?thesis by (simp add: Let_def)
  qed
  have T: "train_and_evaluate_models fit mdl perm42 X y =
           res_bind (train_test_split (perm42 ?n)) (\<lambda>(tr, te).
             res_bind (kfold_split 5 (perm42 (length tr))) (\<lambda>folds. ?G tr te folds))"
    using True by (simp add: train_and_evaluate_models_def)
  show ?thesis
  proof (cases "train_test_split (perm42 ?n)")
    case (Inl e)
    then have "e = ValueError" "?n - n_test_of ?n = 0" using train_test_split_perm(1)[of "perm42 ?n" ?n] perm by auto
    then show ?thesis using T Inl True n_train_ge_5[of ?n] by auto
  next
    case (Inr p)
    then obtain tr te where p: "train_test_split (perm42 ?n) = Inr (tr, te)" by (cases p) auto
    have ltr: "length tr = ?n - n_test_of ?n" using train_test_split_perm(2)[OF _ p] perm by simp
    have lk: "length (perm42 (length tr)) = length tr" using perm by simp
    show ?thesis
    proof (cases "7 \<le> ?n")
      case True
      obtain folds where "kfold_split 5 (perm42 (length tr)) = Inr folds"
        using kfold_split_perm(1)[OF lk] n_train_ge_5[of ?n] ltr True by auto
      moreover obtain r where "?G tr te folds = Inr r" using G by blast
      ultimately have "train_and_evaluate_models fit mdl perm42 X y = Inr r" using T p by simp
      then show ?thesis using \<open>length X = length y\<close> True by (intro conjI) (blast, simp)
    next
      case False
      then have "\<not> (\<exists>folds. kfold_split 5 (perm42 (length tr)) = Inr folds)"
        using kfold_split_perm(1)[OF lk] n_train_ge_5[of ?n] ltr False by simp
      then obtain e where "kfold_split 5 (perm42 (length tr)) = Inl e"
        by (cases "kfold_split 5 (perm42 (length tr))") blast+
      moreover then have "e = ValueError" using kfold_split_perm(2)[OF lk] by blast
      ultimately have "train_and_evaluate_models fit mdl perm42 X y = Inl ValueError" using T p by simp
      then show ?thesis using False by simp
    qed
  qed
qed

subsection \<open>Properties\<close>

text \<open>C4. Model selection: the chosen candidate is one of the evaluated results, its mean
  cross-validated MAE is no larger than any other candidate's, and on a tie it is the first
  such candidate in the dictionary's order.\<close>

theorem select_best_minimal:
  assumes "select_best results = Inr (name, r)"
  shows "(name, r) \<in> set results \<and> (\<forall>(n', r')\<in>set results. cv_mae_mean r \<le> cv_mae_mean r') \<and>
         (\<forall>i<length results. cv_mae_mean (snd (results ! i)) = cv_mae_mean r \<longrightarrow> (\<exists>j\<le>i. results ! j = (name, r)))"
proof -
  let ?f = "\<lambda>(name::string, r::'a model_result). cv_mae_mean r"
  have a: "argmin_first ?f results = Inr (name, r)" using assms by (simp add: select_best_def)
  have "\<forall>(n', r')\<in>set results. cv_mae_mean r \<le> cv_mae_mean r'"
    using argmin_first_le[OF a] by fastforce
  moreover have "\<forall>i<length results. cv_mae_mean (snd (results ! i)) = cv_mae_mean r \<longrightarrow> (\<exists>j\<le>i. results ! j = (name, r))"
    using argmin_first_first[OF a] by (simp add: case_prod_unfold)
  ultimately show ?thesis using argmin_first_mem[OF a] by blast
qed

theorem select_best_minimal_witness:
  "select_best [(''Random Forest'', example_result 500000), (''Gradient Boosting'', example_result 480000),
                (''Decision Tree'', example_result 510000)] = Inr (''Gradient Boosting'', example_result 480000) \<and>
   (''Gradient Boosting'', example_result 480000) \<in> set [(''Random Forest'', example_result 500000),
     (''Gradient Boosting'', example_result 480000), (''Decision Tree'', example_result 510000)]"
proof -
  have s: "select_best [(''Random Forest'', example_result 500000), (''Gradient Boosting'', example_result 480000),
                (''Decision Tree'', example_result 510000)] = Inr (''Gradient Boosting'', example_result 480000)"
    by (simp add: select_best_def example_result_def)
  show ?thesis using select_best_minimal[OF s] s by blast
qed

text \<open>C5. The held-out test rows play no part in choosing the model: two data sets that
  agree on the training rows of the split yield the same best model and the same name.\<close>

theorem selection_ignores_test_rows:
  assumes len: "length X' = length X" "length y' = length y"
    and split: "train_test_split (perm42 (length X)) = Inr (tr, te)"
    and same: "pick X' tr = pick X tr" "pick y' tr = pick y tr"
  shows "map_sum id (\<lambda>(m, name, results). (m, name)) (train_and_evaluate_models fit predict perm42 X' y') =
         map_sum id (\<lambda>(m, name, results). (m, name)) (train_and_evaluate_models fit predict perm42 X y)"
proof (cases "length X = length y")
  case False
  then show ?thesis using len by (simp add: train_and_evaluate_models_def)
next
  case True
  let ?sel = "\<lambda>Xtr ytr Xte yte folds. res_bind (select_best (map (\<lambda>(name, c). (name, evaluate_candidate fit predict folds Xtr ytr Xte yte c)) candidate_models))
        (\<lambda>(name, r). Inr (mr_model r, name, map (\<lambda>(name, c). (name, evaluate_candidate fit predict folds Xtr ytr Xte yte c)) candidate_models))"
  have key: "\<And>Xte yte Xte' yte' folds. map_sum id (\<lambda>(m, name, results). (m, name)) (?sel (pick X tr) (pick y tr) Xte yte folds) =
                 map_sum id (\<lambda>(m, name, results). (m, name)) (?sel (pick X tr) (pick y tr) Xte' yte' folds)"
  proof -
    fix Xte yte Xte' yte' folds
    have "\<And>Xte yte. map_sum id (\<lambda>(m, name, results). (m, name)) (?sel (pick X tr) (pick y tr) Xte yte folds) =
          map_sum id (\<lambda>(name, r). (mr_model r, name))
            (select_best (map (\<lambda>(name, c). (name, evaluate_candidate fit predict folds (pick X tr) (pick y tr) Xte yte c)) candidate_models))"
      by (simp add: res_bind_map_Inr comp_def case_prod_unfold)
    then show "map_sum id (\<lambda>(m, name, results). (m, name)) (?sel (pick X tr) (pick y tr) Xte yte folds) =
                 map_sum id (\<lambda>(m, name, results). (m, name)) (?sel (pick X tr) (pick y tr) Xte' yte' folds)"
      by (simp only: select_best_evaluated)
  qed
  show ?thesis
  proof (cases "kfold_split 5 (perm42 (length tr))")
    case (Inl e)
    then show ?thesis using True len split by (simp add: train_and_evaluate_models_def)
  next
    case (Inr folds)
    then show ?thesis
      using True len split same key[where folds=folds and Xte="pick X' te" and yte="pick y' te"
                                      and Xte'="pick X te" and yte'="pick y te"]
      by (simp add: train_and_evaluate_models_def Let_def)
  qed
qed

text \<open>C25. The shuffled 5-fold split of a permutation of the n training positions has five
  folds whose test parts together hold each position exactly once; in every fold both
  index lists are increasing, the training part is the complement of the test part, and
  the test part has n div 5 or n div 5 + 1 elements.\<close>

theorem kfold_partition:
  assumes perm: "mset kperm = mset [0..<n]" and ok: "kfold_split 5 kperm = Inr folds"
  shows "length folds = 5 \<and> mset (concat (map snd folds)) = mset [0..<n] \<and>
         (\<forall>(tr, te)\<in>set folds. sorted tr \<and> sorted te \<and> set tr = {0..<n} - set te \<and>
                                n div 5 \<le> length te \<and> length te \<le> n div 5 + 1)"
proof -
  have len: "length kperm = n" using perm by (metis size_mset length_upt minus_nat.diff_0)
  have dist: "distinct kperm" using perm by (metis distinct_upt mset_eq_imp_distinct_iff)
  have set_k: "set kperm = {0..<n}" using perm by (metis set_mset_mset set_upt)
  let ?cs = "chunks (fold_sizes 5 n) kperm"
  have folds: "folds = map (\<lambda>c. (filter (\<lambda>i. i \<notin> set c) [0..<n], filter (\<lambda>i. i \<in> set c) [0..<n])) ?cs"
    using ok len by (auto simp: kfold_split_def Let_def split: if_splits)
  have sum: "sum_list (fold_sizes 5 n) = n" by (simp add: sum_fold_sizes)
  have cs: "\<And>c. c \<in> set ?cs \<Longrightarrow> distinct c \<and> set c \<subseteq> {0..<n}"
    using chunks_distinct_subset[OF dist] set_k by blast
  have "mset (concat (map snd folds)) = mset (concat ?cs)"
    unfolding folds map_map comp_def snd_conv
    by (rule mset_concat_map_eq) (use cs mset_filter_mem_upt in blast)
  also have "\<dots> = mset kperm" using sum len by (simp add: concat_chunks)
  finally have cover: "mset (concat (map snd folds)) = mset [0..<n]" using perm by simp
  have each: "\<forall>(tr, te)\<in>set folds. sorted tr \<and> sorted te \<and> set tr = {0..<n} - set te \<and>
                                n div 5 \<le> length te \<and> length te \<le> n div 5 + 1"
  proof
    fix f assume "f \<in> set folds"
    then obtain c where c: "c \<in> set ?cs" and f: "f = (filter (\<lambda>i. i \<notin> set c) [0..<n], filter (\<lambda>i. i \<in> set c) [0..<n])"
      using folds by auto
    have "mset (filter (\<lambda>i. i \<in> set c) [0..<n]) = mset c" using cs[OF c] by (intro mset_filter_mem_upt) auto
    then have lte: "length (filter (\<lambda>i. i \<in> set c) [0..<n]) = length c" by (metis size_mset)
    have "length c \<in> set (fold_sizes 5 n)" using chunk_length_mem[OF c] sum len by simp
    then have "n div 5 \<le> length c \<and> length c \<le> n div 5 + 1" by (rule fold_sizes_bounds)
    with lte f show "case f of (tr, te) \<Rightarrow> sorted tr \<and> sorted te \<and> set tr = {0..<n} - set te \<and>
                                n div 5 \<le> length te \<and> length te \<le> n div 5 + 1"
      by (auto intro: sorted_wrt_filter)
  qed
  have "length folds = 5" using folds by simp
  with cover each show ?thesis by blast
qed

text \<open>The 80/20 split of a permutation of n positions partitions them: training and
  test indices together are each position once, the test part has ceil(n / 5) elements,
  and a successful split has a nonempty training part.\<close>

theorem train_test_split_partition:
  assumes perm: "mset perm = mset [0..<n]" and ok: "train_test_split perm = Inr (tr, te)"
  shows "mset (tr @ te) = mset [0..<n] \<and> length te = (n + 4) div 5 \<and> tr \<noteq> []"
proof -
  have len: "length perm = n" using perm by (metis size_mset length_upt minus_nat.diff_0)
  let ?t = "n_test_of n"
  from ok len have tr: "tr = take (n - ?t) (drop ?t perm)" and te: "te = take ?t perm"
    and pos: "n - ?t \<noteq> 0"
    by (auto simp: train_test_split_def Let_def split: if_splits)
  have "?t \<le> n" using pos by simp
  then have "mset (tr @ te) = mset perm"
    unfolding tr te by (intro mset_take_drop_rotate) (simp add: len)
  moreover have "length te = (n + 4) div 5" using te len pos by (simp add: n_test_of_def)
  moreover have "tr \<noteq> []" using tr len pos by simp
  ultimately show ?thesis using perm by simp
qed

theorem kfold_partition_witness:
  "kfold_split 5 [5, 2, 6, 0, 3, 1, 4] =
     Inr [([0::nat, 1, 3, 4, 6], [2, 5]), ([1, 2, 3, 4, 5], [0, 6]), ([0, 1, 2, 4, 5, 6], [3]),
          ([0, 2, 3, 4, 5, 6], [1]), ([0, 1, 2, 3, 5, 6], [4])] \<and>
   length [([0::nat, 1, 3, 4, 6], [2, 5]), ([1, 2, 3, 4, 5], [0, 6]), ([0, 1, 2, 4, 5, 6], [3]),
          ([0, 2, 3, 4, 5, 6], [1]), ([0, 1, 2, 3, 5, 6], [4::nat])] = 5 \<and>
   mset (concat (map snd [([0::nat, 1, 3, 4, 6], [2, 5]), ([1, 2, 3, 4, 5], [0, 6]), ([0, 1, 2, 4, 5, 6], [3]),
          ([0, 2, 3, 4, 5, 6], [1]), ([0, 1, 2, 3, 5, 6], [4::nat])])) = mset [0..<7]"
proof -
  have p: "mset [5, 2, 6, 0, 3, 1, 4::nat] = mset [0..<7]"
    by (simp add: numeral_eq_Suc upt_rec add_mset_commute)
  have k: "kfold_split 5 [5, 2, 6, 0, 3, 1, 4] =
     Inr [([0::nat, 1, 3, 4, 6], [2, 5]), ([1, 2, 3, 4, 5], [0, 6]), ([0, 1, 2, 4, 5, 6], [3]),
          ([0, 2, 3, 4, 5, 6], [1]), ([0, 1, 2, 3, 5, 6], [4])]"
    by (simp add: kfold_split_def fold_sizes_def upt_rec)
  note c = kfold_partition[OF p k]
  show ?thesis by (intro conjI k conjunct1[OF c] conjunct1[OF conjunct2[OF c]])
qed

theorem train_test_split_partition_witness:
  "train_test_split [5, 2, 6, 0, 3, 1, 4] = Inr ([6, 0, 3, 1, 4], [5, 2]) \<and>
   mset ([6, 0, 3, 1, 4] @ [5, 2]) = mset [0..<7::nat] \<and> length [5, 2::nat] = (7 + 4) div 5 \<and>
   [6, 0, 3, 1, 4::nat] \<noteq> []"
proof -
  have p: "mset [5, 2, 6, 0, 3, 1, 4::nat] = mset [0..<7]"
    by (simp add: numeral_eq_Suc upt_rec add_mset_commute)
  have s: "train_test_split [5, 2, 6, 0, 3, 1, 4] = Inr ([6, 0, 3, 1, 4], [5, 2])"
    by (simp add: train_test_split_def n_test_of_def)
  show ?thesis using s train_test_split_partition[OF p s] by (rule conjI)
qed

theorem selection_ignores_test_rows_witness:
  "map_sum id (\<lambda>(m, name, results). (m, name))
     (train_and_evaluate_models (\<lambda>c X y. sum_list y / real (length y)) (\<lambda>m x. m) (\<lambda>n. [0..<n])
        [[9], [1], [2], [3], [4], [5], [6]] [1, 100, 3, 4, 5, 6, 7]) =
   map_sum id (\<lambda>(m, name, results). (m, name))
     (train_and_evaluate_models (\<lambda>c X y. sum_list y / real (length y)) (\<lambda>m x. m) (\<lambda>n. [0..<n])
        [[0], [1], [2], [3], [4], [5], [6]] [1, 2, 3, 4, 5, 6, 7])"
proof -
  have s: "train_test_split ((\<lambda>n. [0..<n]) (length [[0], [1], [2], [3], [4], [5], [6::real]])) =
           Inr ([2, 3, 4, 5, 6], [0, 1])"
    by (simp add: train_test_split_def n_test_of_def upt_rec)
  have x: "pick [[9], [1], [2], [3], [4], [5], [6::real]] [2, 3, 4, 5, 6] = pick [[0], [1], [2], [3], [4], [5], [6]] [2, 3, 4, 5, 6]"
    by (simp add: pick_def)
  have y: "pick [1, 100, 3, 4, 5, 6, 7::real] [2, 3, 4, 5, 6] = pick [1, 2, 3, 4, 5, 6, 7] [2, 3, 4, 5, 6]"
    by (simp add: pick_def)
  show ?thesis
    by (rule selection_ignores_test_rows[of _ _ _ _ "\<lambda>n. [0..<n]", OF _ _ s x y]) simp_all
qed

end
