(* ===== verification/Pipeline.thy ===== *)
theory Pipeline
  imports Artifact Cleaning Trainer
begin

text \<open>
  The predictor object and its methods. \<open>FlightPricePredictor\<close> is the record
  \<open>predictor\<close>: the persisted attributes of \<open>serving\<close> plus the CSV input, the
  cleaned table \<open>df\<close>, the training matrix \<open>X\<close> and target \<open>y\<close> (fields
  \<open>X_data\<close>, \<open>y_data\<close>) and the \<open>results\<close> table. The CSV file is represented by
  the rows \<open>read_csv\<close> parses from it, \<open>None\<close> for \<open>csv_file=None\<close>. A method
  is a function from the object to the exception it raises or its value, paired with
  the object after the call (the attributes assigned before an exception stay
  assigned). The world is the object with the file store. The learners, their
  predictions and the \<open>RandomState(42)\<close> permutation are the parameters of
  \<open>Trainer\<close>; \<open>predict_single_flight\<close> takes the fitted model's predict as in
  \<open>Predictor\<close>.
\<close>

record 'm predictor = "'m serving" +
  csv_file :: "raw_row list option"
  df :: "clean_row list option"
  X_data :: "real list list option"
  y_data :: "real list option"
  results :: "(string \<times> 'm model_result) list"

type_synonym 'm world = "'m predictor \<times> 'm files"

subsection \<open>Methods\<close>

text \<open>\<open>__init__\<close> (lines 19--32).\<close>

definition init_predictor :: "raw_row list option \<Rightarrow> 'm predictor" where
  "init_predictor c =
     \<lparr>best_model = None, model_type = None, feature_columns = None, label_encoders = [],
      scaler = RobustScaler, price_stats = None, route_popularity_stats = None,
      airline_popularity_stats = None, csv_file = c, df = None, X_data = None, y_data = None,
      results = []\<rparr>"

text \<open>Sequencing of methods: an exception ends the sequence with the object as it is.\<close>

definition se_bind :: "'a result \<times> 's \<Rightarrow> ('a \<Rightarrow> 's \<Rightarrow> 'b result \<times> 's) \<Rightarrow> 'b result \<times> 's" where
  "se_bind m f = (case m of (Inl e, s) \<Rightarrow> (Inl e, s) | (Inr a, s) \<Rightarrow> f a s)"

text \<open>\<open>load_and_preprocess_data\<close>: \<open>self.df\<close> and \<open>self.price_stats\<close>.\<close>

definition load_data_m :: "'m predictor \<Rightarrow> unit result \<times> 'm predictor" where
  "load_data_m st =
     (case load_and_preprocess_data (csv_file st) of
        Inl e \<Rightarrow> (Inl e, st)
      | Inr (rows, ps) \<Rightarrow> (Inr (), st\<lparr>df := Some rows, price_stats := Some ps\<rparr>))"

text \<open>\<open>feature_engineering\<close>: with no table, \<open>self.df['create_at']\<close> raises TypeError;
  with an empty table, \<open>self.df['flight_date'].dt\<close> raises AttributeError at line 101
  (\<open>apply\<close> on an empty column keeps its object dtype) before any attribute is set;
  otherwise it sets the popularity statistics, updates the encoder dictionary key by key,
  and sets the feature columns, X and y.\<close>

definition feature_engineering_m :: "'m predictor \<Rightarrow> unit result \<times> 'm predictor" where
  "feature_engineering_m st =
     (case df st of
        None \<Rightarrow> (Inl TypeError, st)
      | Some rows \<Rightarrow>
          if rows = [] then (Inl AttributeError, st) else
          let fe = feature_engineering rows in
          (Inr (), st\<lparr>route_popularity_stats := Some (fe_route_stats fe),
                     airline_popularity_stats := Some (fe_airline_stats fe),
                     label_encoders := fe_encoders fe @
                        filter (\<lambda>(k, _). k \<notin> set categorical_cols) (label_encoders st),
                     feature_columns := Some (fe_columns fe),
                     X_data := Some (fe_X fe), y_data := Some (fe_y fe)\<rparr>))"

text \<open>\<open>train_and_evaluate_models\<close>: \<open>train_test_split(None, None)\<close> raises TypeError;
  an error of the split or of cross-validation is raised before \<open>self.results\<close> is
  written; on success the results, the best model and its name are set.\<close>

definition train_m ::
  "'m fit_fn \<Rightarrow> 'm model_fn \<Rightarrow> (nat \<Rightarrow> nat list) \<Rightarrow> 'm predictor \<Rightarrow> unit result \<times> 'm predictor" where
  "train_m fit mdl perm42 st =
     (case (X_data st, y_data st) of
        (Some X, Some y) \<Rightarrow>
          (case train_and_evaluate_models fit mdl perm42 X y of
             Inl e \<Rightarrow> (Inl e, st)
           | Inr (m, name, res) \<Rightarrow> (Inr (), st\<lparr>results := res, best_model := Some m, model_type := Some name\<rparr>))
      | _ \<Rightarrow> (Inl TypeError, st))"

definition save_m :: "string \<Rightarrow> 'm world \<Rightarrow> unit result \<times> 'm world" where
  "save_m fn w = (Inr (), (fst w, save_model fn (fst w) (snd w)))"

definition load_m :: "string \<Rightarrow> 'm world \<Rightarrow> unit result \<times> 'm world" where
  "load_m fn w = (case load_model fn (snd w) (fst w) of (r, st) \<Rightarrow> (r, (st, snd w)))"

definition model_file :: string where
  "model_file = ''flight_price_model.pkl''"

text \<open>\<open>run_complete_pipeline\<close> (lines 531--545): \<open>analyze_data_distribution\<close> neither
  raises nor changes an attribute (its printed report is modelled in \<open>Reporting\<close>), so it
  is left out of the sequence; the result is \<open>(self.best_model, self.results)\<close>.\<close>

definition run_complete_pipeline ::
  "'m fit_fn \<Rightarrow> 'm model_fn \<Rightarrow> (nat \<Rightarrow> nat list) \<Rightarrow> 'm world \<Rightarrow>
   ('m option \<times> (string \<times> 'm model_result) list) result \<times> 'm world" where
  "run_complete_pipeline fit mdl perm42 w =
     se_bind (case load_data_m (fst w) of (r, st) \<Rightarrow> (r, (st, snd w))) (\<lambda>_ w1.
     se_bind (case feature_engineering_m (fst w1) of (r, st) \<Rightarrow> (r, (st, snd w1))) (\<lambda>_ w2.
     se_bind (case train_m fit mdl perm42 (fst w2) of (r, st) \<Rightarrow> (r, (st, snd w2))) (\<lambda>_ w3.
     se_bind (save_m model_file w3) (\<lambda>_ w4.
     (Inr (best_model (fst w4), results (fst w4)), w4)))))"

text \<open>\<open>test_saved_model\<close> (lines 547--575): a fresh predictor loads the model file (an
  exception there propagates) and predicts the fixed test flight inside a try block, so
  its outcome, price or exception, is the value.\<close>

definition test_flight :: request where
  "test_flight =
     [(''flight_number'', ''VJ1126''), (''departure_airport'', ''SGN''), (''arrival_airport'', ''HAN''),
      (''departure_time'', ''08:10''), (''arrival_time'', ''10:20''), (''classes'', ''Eco''),
      (''type_of_plane'', ''Airbus A320''), (''create_at'', ''2025-06-23 22:13:00''),
      (''flight_date'', ''2025-08-15T17:00:00.000'')]"

definition test_saved_model :: "'m predict_fn \<Rightarrow> 'm files \<Rightarrow> real cell result result" where
  "test_saved_model predict fs =
     (case load_model model_file fs (init_predictor None) of
        (Inl e, _) \<Rightarrow> Inl e
      | (Inr _, st) \<Rightarrow> Inr (predict_single_flight predict st test_flight))"

text \<open>The script's entry point (lines 576--578): a predictor on the CSV file (given by the
  rows \<open>read_csv\<close> parses from it) runs the pipeline, then \<open>test_saved_model\<close> runs on
  the files it leaves. An exception of either ends the script; the value is the
  pipeline's result and the test's outcome, with the final file store.\<close>

definition main_script ::
  "'m fit_fn \<Rightarrow> 'm model_fn \<Rightarrow> (nat \<Rightarrow> nat list) \<Rightarrow> 'm predict_fn \<Rightarrow> raw_row list \<Rightarrow> 'm files \<Rightarrow>
   (('m option \<times> (string \<times> 'm model_result) list) \<times> real cell result) result \<times> 'm files" where
  "main_script fit mdl perm42 predict raw fs =
     (case run_complete_pipeline fit mdl perm42 (init_predictor (Some raw), fs) of
        (Inl e, w) \<Rightarrow> (Inl e, snd w)
      | (Inr r, w) \<Rightarrow>
          (case test_saved_model predict (snd w) of
             Inl e \<Rightarrow> (Inl e, snd w)
           | Inr out \<Rightarrow> (Inr (r, out), snd w)))"

subsection \<open>Runs of the object\<close>

text \<open>The calls a client can make on the object, in any order; an exception a client
  catches leaves the object as the method left it.\<close>

datatype event = LoadData | FeatureEng | Train | SaveModel string | LoadModel string

definition step_world ::
  "'m fit_fn \<Rightarrow> 'm model_fn \<Rightarrow> (nat \<Rightarrow> nat list) \<Rightarrow> event \<Rightarrow> 'm world \<Rightarrow> 'm world" where
  "step_world fit mdl perm42 e w =
     (case e of
        LoadData \<Rightarrow> (snd (load_data_m (fst w)), snd w)
      | FeatureEng \<Rightarrow> (snd (feature_engineering_m (fst w)), snd w)
      | Train \<Rightarrow> (snd (train_m fit mdl perm42 (fst w)), snd w)
      | SaveModel fn \<Rightarrow> snd (save_m fn w)
      | LoadModel fn \<Rightarrow> snd (load_m fn w))"

text \<open>The worlds reachable from a new object and an empty file store. Predictions do not
  change the world and are not steps.\<close>

inductive reachable_world ::
  "'m fit_fn \<Rightarrow> 'm model_fn \<Rightarrow> (nat \<Rightarrow> nat list) \<Rightarrow> 'm world \<Rightarrow> bool"
  for fit mdl perm42 where
  init: "reachable_world fit mdl perm42 (init_predictor c, Map.empty)"
| step: "reachable_world fit mdl perm42 w \<Longrightarrow> reachable_world fit mdl perm42 (step_world fit mdl perm42 e w)"

subsection \<open>Invariant and examples\<close>

text \<open>What every reachable world keeps: a set model has a name, X and y are set together
  with equally many rows, and every stored file is a complete bundle whose model, when
  set, has a name.\<close>

definition bundle_ok :: "'m model_bundle \<Rightarrow> bool" where
  "bundle_ok b \<longleftrightarrow>
     b_model b \<noteq> None \<and> b_model_type b \<noteq> None \<and> b_feature_columns b \<noteq> None \<and>
     b_label_encoders b \<noteq> None \<and> b_scaler b \<noteq> None \<and>
     (the (b_model b) \<noteq> None \<longrightarrow> the (b_model_type b) \<noteq> None)"

definition xy_ok :: "'m predictor \<Rightarrow> bool" where
  "xy_ok st \<longleftrightarrow>
     (case (X_data st, y_data st) of
        (None, None) \<Rightarrow> True
      | (Some X, Some y) \<Rightarrow> length X = length y
      | _ \<Rightarrow> False)"

definition world_inv :: "'m world \<Rightarrow> bool" where
  "world_inv w \<longleftrightarrow>
     (best_model (fst w) \<noteq> None \<longrightarrow> model_type (fst w) \<noteq> None) \<and> xy_ok (fst w) \<and>
     (\<forall>fn b. snd w fn = Some b \<longrightarrow> bundle_ok b)"

text \<open>Two example runs: the four-row example CSV file, two rows of which survive
  cleaning, and a week of seven fares for one flight.\<close>

definition example_world :: "unit world" where
  "example_world =
     step_world (\<lambda>_ _ _. ()) (\<lambda>_ _. 0) (\<lambda>n. [0..<n]) FeatureEng
       (step_world (\<lambda>_ _ _. ()) (\<lambda>_ _. 0) (\<lambda>n. [0..<n]) LoadData (init_predictor (Some example_csv), Map.empty))"

definition week_prices :: "real list" where
  "week_prices = [1000, 1010, 1020, 1030, 1040, 1050, 1060]"

definition week_csv :: "raw_row list" where
  "week_csv = map (example_raw ''2024-01-01 09:00:00'' ''2024-02-15T14:30:00'' (Some ''Eco'')) week_prices"

subsection \<open>Lemmas and properties\<close>

lemma fe_X_length: "length (fe_X (feature_engineering rows)) = length (fe_y (feature_engineering rows))"
  by (simp add: feature_engineering_def Let_def)

lemma world_inv_init: "world_inv (init_predictor c, Map.empty)"
  by (simp add: world_inv_def init_predictor_def xy_ok_def)

lemma load_data_m_fields:
  "X_data (snd (load_data_m st)) = X_data st" "y_data (snd (load_data_m st)) = y_data st"
  "best_model (snd (load_data_m st)) = best_model st" "model_type (snd (load_data_m st)) = model_type st"
  by (simp_all add: load_data_m_def split: sum.split prod.split)

lemma load_data_m_inv: "world_inv (st, fs) \<Longrightarrow> world_inv (snd (load_data_m st), fs)"
  unfolding world_inv_def xy_ok_def by (simp add: load_data_m_fields)

lemma feature_engineering_m_inv: "world_inv (st, fs) \<Longrightarrow> world_inv (snd (feature_engineering_m st), fs)"
  by (auto simp: feature_engineering_m_def world_inv_def xy_ok_def fe_X_length Let_def split: option.splits)

lemma train_m_inv: "world_inv (st, fs) \<Longrightarrow> world_inv (snd (train_m fit mdl perm42 st), fs)"
  by (auto simp: train_m_def world_inv_def xy_ok_def split: option.splits sum.splits)

lemma save_m_inv: "world_inv w \<Longrightarrow> world_inv (snd (save_m fn w))"
  by (auto simp: save_m_def save_model_def world_inv_def bundle_ok_def bundle_of_def)

lemma load_bundle_ok:
  "bundle_ok b \<Longrightarrow> load_bundle b st =
     (Inr (), st\<lparr>best_model := the (b_model b), model_type := the (b_model_type b),
                feature_columns := the (b_feature_columns b), label_encoders := the (b_label_encoders b),
                scaler := the (b_scaler b), price_stats := get_default (b_price_stats b) None,
                route_popularity_stats := get_default (b_route_popularity_stats b) (Some default_route_stats),
                airline_popularity_stats := get_default (b_airline_popularity_stats b) (Some default_airline_stats)\<rparr>)"
  by (auto simp: bundle_ok_def load_bundle_def)

lemma load_m_inv: "world_inv w \<Longrightarrow> world_inv (snd (load_m fn w))"
proof -
  assume inv: "world_inv w"
  show ?thesis
  proof (cases "snd w fn")
    case None
    then show ?thesis using inv by (simp add: load_m_def load_model_def)
  next
    case (Some b)
    with inv have ok: "bundle_ok b" by (simp add: world_inv_def)
    then show ?thesis using inv Some
      by (simp add: load_m_def load_model_def load_bundle_ok world_inv_def xy_ok_def bundle_ok_def)
  qed
qed

lemma step_world_inv: "world_inv w \<Longrightarrow> world_inv (step_world fit mdl perm42 e w)"
  by (cases e; cases w)
     (simp_all add: step_world_def load_data_m_inv feature_engineering_m_inv train_m_inv save_m_inv load_m_inv)

lemma reachable_world_inv: "reachable_world fit mdl perm42 w \<Longrightarrow> world_inv w"
  by (induction rule: reachable_world.induct) (simp_all add: world_inv_init step_world_inv)

lemma train_m_outcome:
  assumes perm: "\<forall>n. length (perm42 n) = n" and xy: "X_data st = Some X" "y_data st = Some y" "length X = length y"
  shows "(fst (train_m fit mdl perm42 st) = Inl ValueError \<longleftrightarrow> length X < 7) \<and>
         (7 \<le> length X \<longrightarrow> best_model (snd (train_m fit mdl perm42 st)) \<noteq> None)"
proof (cases "train_and_evaluate_models fit mdl perm42 X y")
  case (Inl e)
  then show ?thesis using train_succeeds_iff[OF perm, of fit mdl X y] xy
    by (auto simp: train_m_def)
next
  case (Inr r)
  then show ?thesis using train_succeeds_iff[OF perm, of fit mdl X y] xy
    by (auto simp: train_m_def split: prod.splits)
qed

text \<open>C9. Every world reachable by calling the predictor's methods in any order, catching
  their exceptions, keeps its attributes consistent: a set model always has a model
  type, and X and y are set together and have the same number of rows.\<close>

theorem reachable_model_consistent:
  assumes "reachable_world fit mdl perm42 w"
  shows "(best_model (fst w) \<noteq> None \<longrightarrow> model_type (fst w) \<noteq> None) \<and>
         (X_data (fst w) = None \<longleftrightarrow> y_data (fst w) = None) \<and>
         (\<forall>X y. X_data (fst w) = Some X \<longrightarrow> y_data (fst w) = Some y \<longrightarrow> length X = length y)"
  using reachable_world_inv[OF assms] by (auto simp: world_inv_def xy_ok_def split: option.splits)

text \<open>C13. Progress of training: in every reachable world whose feature matrix is set,
  the Train call raises ValueError exactly when the matrix has fewer than 7 rows (too few
  for the 80/20 split followed by 5-fold cross-validation), and otherwise leaves a trained
  model behind.\<close>

theorem reachable_train_progress:
  assumes reach: "reachable_world fit mdl perm42 w" and perm: "\<forall>n. length (perm42 n) = n"
    and X: "X_data (fst w) = Some X"
  shows "(fst (train_m fit mdl perm42 (fst w)) = Inl ValueError \<longleftrightarrow> length X < 7) \<and>
         (7 \<le> length X \<longrightarrow> best_model (snd (train_m fit mdl perm42 (fst w))) \<noteq> None)"
proof -
  have "xy_ok (fst w)" using reachable_world_inv[OF reach] by (simp add: world_inv_def)
  then obtain y where "y_data (fst w) = Some y" "length X = length y"
    using X by (auto simp: xy_ok_def split: option.splits)
  then show ?thesis using train_m_outcome[OF perm X] by blast
qed

lemma fe_X_length_mask:
  assumes "rows \<noteq> []"
  shows "length (fe_X (feature_engineering rows)) =
           length (filter (\<lambda>r. time_to_minutes (c_departure_time r) \<noteq> None \<and>
                               time_to_minutes (c_arrival_time r) \<noteq> None) rows)"
proof -
  have cols: "fe_columns (feature_engineering rows) = feature_columns_list"
    using assms by (rule feature_engineering_columns)
  show ?thesis
    by (simp add: fe_X_length fe_y_eq cols filter_map comp_def case_prod_unfold train_cells_present
             del: not_None_eq)
qed

lemma example_clocks_parse:
  "time_to_minutes (Some ''14:30'') \<noteq> None" "time_to_minutes (Some ''16:45'') \<noteq> None"
  by (simp_all add: time_to_minutes_def parse_clock_def py_int_def py_strip_def is_py_space_def
                    py_digits_def is_digit_def digit_value_def)

lemma example_rows_fe:
  "length (fe_X (feature_engineering
      [example_clean 1 9 15 14 30 (Some ''Eco'') 1000, example_clean 3 11 16 8 0 None 1100])) = 2"
  by (subst fe_X_length_mask) (simp_all add: example_clean_def example_clocks_parse)

lemma example_world_reachable:
  "reachable_world (\<lambda>_ _ _. ()) (\<lambda>_ _. 0) (\<lambda>n. [0..<n]) example_world"
  unfolding example_world_def by (intro reachable_world.step reachable_world.init)

lemma example_world_X:
  "X_data (fst example_world) = Some (fe_X (feature_engineering
      [example_clean 1 9 15 14 30 (Some ''Eco'') 1000, example_clean 3 11 16 8 0 None 1100]))"
  by (simp add: example_world_def step_world_def load_data_m_def feature_engineering_m_def
                init_predictor_def example_csv_load Let_def)

theorem reachable_model_consistent_witness:
  "reachable_world (\<lambda>_ _ _. ()) (\<lambda>_ _. 0) (\<lambda>n. [0..<n]) example_world \<and>
   (\<exists>y. y_data (fst example_world) = Some y \<and> length y = 2)"
  using reachable_model_consistent[OF example_world_reachable] example_world_reachable
    example_world_X example_rows_fe by (cases "y_data (fst example_world)") auto

theorem reachable_train_progress_witness:
  "fst (train_m (\<lambda>_ _ _. ()) (\<lambda>_ _. 0) (\<lambda>n. [0..<n]) (fst example_world)) = Inl ValueError"
  using reachable_train_progress[OF example_world_reachable _ example_world_X] example_rows_fe by simp

lemma train_m_error_state: "fst (train_m fit mdl perm42 st) = Inl e \<Longrightarrow> snd (train_m fit mdl perm42 st) = st"
  by (auto simp: train_m_def split: option.splits sum.splits prod.splits)

text \<open>Without a CSV file the pipeline stops at once: \<open>run_complete_pipeline\<close> on a
  predictor built with \<open>csv_file=None\<close> raises ValueError, changes no attribute and
  writes no file.\<close>

theorem run_pipeline_no_csv:
  "run_complete_pipeline fit mdl perm42 (init_predictor None, fs) = (Inl ValueError, (init_predictor None, fs))"
  by (simp add: run_complete_pipeline_def se_bind_def load_data_m_def load_and_preprocess_data_def
                init_predictor_def)

lemma run_pipeline_stages:
  assumes load: "load_and_preprocess_data (Some raw) = Inr (rows, ps)" and ne: "rows \<noteq> []"
  defines "st2 \<equiv> (init_predictor (Some raw) :: 'm predictor)\<lparr>df := Some rows, price_stats := Some ps,
             route_popularity_stats := Some (fe_route_stats (feature_engineering rows)),
             airline_popularity_stats := Some (fe_airline_stats (feature_engineering rows)),
             label_encoders := fe_encoders (feature_engineering rows),
             feature_columns := Some (fe_columns (feature_engineering rows)),
             X_data := Some (fe_X (feature_engineering rows)), y_data := Some (fe_y (feature_engineering rows))\<rparr>"
  shows "run_complete_pipeline (fit :: 'm fit_fn) mdl perm42 (init_predictor (Some raw), fs) =
           se_bind (case train_m fit mdl perm42 st2 of (r, st) \<Rightarrow> (r, (st, fs))) (\<lambda>_ w3.
           se_bind (save_m model_file w3) (\<lambda>_ w4. (Inr (best_model (fst w4), results (fst w4)), w4)))"
  using load ne by (simp add: run_complete_pipeline_def se_bind_def load_data_m_def feature_engineering_m_def
                              st2_def init_predictor_def Let_def)

text \<open>With too little data the pipeline fails at training: when the cleaned table is
  not empty but yields fewer than 7 feature rows, \<open>run_complete_pipeline\<close> raises ValueError with
  the table loaded, no model set and the file store untouched.\<close>

theorem run_pipeline_too_few_rows:
  assumes perm: "\<forall>n. length (perm42 n) = n"
    and load: "load_and_preprocess_data (Some raw) = Inr (rows, ps)" and ne: "rows \<noteq> []"
    and few: "length (fe_X (feature_engineering rows)) < 7"
  shows "\<exists>st'. run_complete_pipeline (fit :: 'm fit_fn) mdl perm42 (init_predictor (Some raw), fs) = (Inl ValueError, (st', fs)) \<and>
           best_model st' = None \<and> df st' = Some rows"
proof -
  let ?fe = "feature_engineering rows"
  define st2 where "st2 = (init_predictor (Some raw) :: 'm predictor)\<lparr>df := Some rows, price_stats := Some ps,
             route_popularity_stats := Some (fe_route_stats ?fe),
             airline_popularity_stats := Some (fe_airline_stats ?fe),
             label_encoders := fe_encoders ?fe, feature_columns := Some (fe_columns ?fe),
             X_data := Some (fe_X ?fe), y_data := Some (fe_y ?fe)\<rparr>"
  have "fst (train_m fit mdl perm42 st2) = Inl ValueError"
    using train_m_outcome[OF perm, of st2 "fe_X ?fe" "fe_y ?fe" fit mdl] few
    by (simp add: st2_def fe_X_length)
  moreover from this have "snd (train_m fit mdl perm42 st2) = st2" by (rule train_m_error_state)
  ultimately have "train_m fit mdl perm42 st2 = (Inl ValueError, st2)" by (metis prod.collapse)
  then have "run_complete_pipeline fit mdl perm42 (init_predictor (Some raw), fs) = (Inl ValueError, (st2, fs))"
    by (simp add: run_pipeline_stages[OF load ne] st2_def se_bind_def)
  then show ?thesis by (simp add: st2_def init_predictor_def)
qed

lemma run_pipeline_trained:
  assumes perm: "\<forall>n. length (perm42 n) = n"
    and load: "load_and_preprocess_data (Some raw) = Inr (rows, ps)"
    and enough: "7 \<le> length (fe_X (feature_engineering rows))"
  shows "\<exists>st'. run_complete_pipeline (fit :: 'm fit_fn) mdl perm42 (init_predictor (Some raw), fs) =
            (Inr (best_model st', results st'), (st', save_model model_file st' fs)) \<and>
           best_model st' \<noteq> None \<and> map fst (results st') = map fst candidate_models"
proof -
  let ?fe = "feature_engineering rows"
  define st2 where "st2 = (init_predictor (Some raw) :: 'm predictor)\<lparr>df := Some rows, price_stats := Some ps,
             route_popularity_stats := Some (fe_route_stats ?fe),
             airline_popularity_stats := Some (fe_airline_stats ?fe),
             label_encoders := fe_encoders ?fe, feature_columns := Some (fe_columns ?fe),
             X_data := Some (fe_X ?fe), y_data := Some (fe_y ?fe)\<rparr>"
  have ne: "rows \<noteq> []" using enough by (auto simp: feature_engineering_def)
  have "\<exists>r. train_and_evaluate_models fit mdl perm42 (fe_X ?fe) (fe_y ?fe) = Inr r"
    using train_succeeds_iff[OF perm, of fit mdl "fe_X ?fe" "fe_y ?fe"] enough by (simp add: fe_X_length)
  then obtain m name res where tr: "train_and_evaluate_models fit mdl perm42 (fe_X ?fe) (fe_y ?fe) = Inr (m, name, res)"
    by (metis prod_cases3)
  have names: "map fst res = map fst candidate_models"
    using tr by (auto simp: train_and_evaluate_models_def Let_def res_bind_Inr_iff split: prod.splits if_splits)
  let ?st3 = "st2\<lparr>results := res, best_model := Some m, model_type := Some name\<rparr>"
  have "train_m fit mdl perm42 st2 = (Inr (), ?st3)" using tr by (simp add: train_m_def st2_def)
  then have "run_complete_pipeline fit mdl perm42 (init_predictor (Some raw), fs) =
               (Inr (best_model ?st3, results ?st3), (?st3, save_model model_file ?st3 fs))"
    by (simp add: run_pipeline_stages[OF load ne] st2_def se_bind_def save_m_def)
  then show ?thesis using names by fastforce
qed

text \<open>C10. With enough data the pipeline runs to the end: when the cleaned table yields
  at least 7 feature rows, \<open>run_complete_pipeline\<close> returns the trained model and the
  results of the three candidates, and the model file holds exactly the final
  predictor's bundle.\<close>

theorem run_pipeline_succeeds:
  assumes perm: "\<forall>n. length (perm42 n) = n"
    and load: "load_and_preprocess_data (Some raw) = Inr (rows, ps)"
    and enough: "7 \<le> length (fe_X (feature_engineering rows))"
  shows "\<exists>st'. run_complete_pipeline (fit :: 'm fit_fn) mdl perm42 (init_predictor (Some raw), fs) =
            (Inr (best_model st', results st'), (st', save_model model_file st' fs)) \<and>
           best_model st' \<noteq> None \<and> map fst (results st') = map fst candidate_models"
  using assms by (rule run_pipeline_trained)

lemma week_csv_load:
  "load_and_preprocess_data (Some week_csv) =
     Inr (map (example_clean 1 9 15 14 30 (Some ''Eco'')) week_prices,
          price_stats_of week_prices (Some 1015) (Some 1045))"
proof -
  have pr: "\<And>ca fd cls p. r_price (example_raw ca fd cls p) = Some p" by (simp add: example_raw_def)
  have dd: "drop_duplicates week_csv = week_csv"
    unfolding drop_duplicates_def
    by (rule drop_duplicates_acc_distinct_id) (simp_all add: week_csv_def week_prices_def example_raw_def)
  have vp: "valid_prices week_csv = week_prices"
    by (simp add: week_csv_def week_prices_def valid_prices_def map_filter_simps pr)
  have q1: "quantile 1 4 week_prices = Some 1015" by (simp add: week_prices_def quantile_def lerp_at_def)
  have q3: "quantile 3 4 week_prices = Some 1045" by (simp add: week_prices_def quantile_def lerp_at_def)
  have kept: "filter (in_bounds (iqr_bounds (Some 1015) (Some 1045))) week_csv = week_csv"
    by (simp add: week_csv_def week_prices_def in_bounds_def iqr_bounds_def pr)
  have cl: "List.map_filter clean_row_of week_csv = map (example_clean 1 9 15 14 30 (Some ''Eco'')) week_prices"
    by (simp add: week_csv_def week_prices_def map_filter_simps example_raw_clean)
  show ?thesis
    by (simp only: load_and_preprocess_data_def option.case dd vp q1 q3 kept cl Let_def)
qed

lemma week_fe_rows: "7 \<le> length (fe_X (feature_engineering (map (example_clean 1 9 15 14 30 (Some ''Eco'')) week_prices)))"
  by (subst fe_X_length_mask) (simp_all add: week_prices_def example_clean_def example_clocks_parse)

theorem run_pipeline_succeeds_witness:
  "\<exists>st'. run_complete_pipeline (\<lambda>_ _ _. ()) (\<lambda>_ _. 0) (\<lambda>n. [0..<n]) (init_predictor (Some week_csv), Map.empty) =
      (Inr (best_model st', results st'), (st', save_model model_file st' Map.empty)) \<and>
     best_model st' \<noteq> None \<and> map fst (results st') = map fst candidate_models"
  by (rule run_pipeline_succeeds[OF _ week_csv_load week_fe_rows]) simp

theorem run_pipeline_too_few_rows_witness:
  "\<exists>st'. run_complete_pipeline (\<lambda>_ _ _. ()) (\<lambda>_ _. 0) (\<lambda>n. [0..<n]) (init_predictor (Some example_csv), Map.empty) =
      (Inl ValueError, (st', Map.empty)) \<and> best_model st' = None \<and>
      df st' = Some [example_clean 1 9 15 14 30 (Some ''Eco'') 1000, example_clean 3 11 16 8 0 None 1100]"
proof -
  have few: "length (fe_X (feature_engineering
      [example_clean 1 9 15 14 30 (Some ''Eco'') 1000, example_clean 3 11 16 8 0 None 1100])) < 7"
    unfolding example_rows_fe by simp
  show ?thesis by (rule run_pipeline_too_few_rows[OF _ example_csv_load _ few]) simp_all
qed

text \<open>An empty cleaned table (an empty CSV file, or one whose rows are all dropped)
  makes \<open>run_complete_pipeline\<close> raise AttributeError in \<open>feature_engineering\<close>,
  before any model is trained or file written.\<close>

theorem run_pipeline_empty_table:
  assumes "load_and_preprocess_data (Some raw) = Inr ([], ps)"
  shows "run_complete_pipeline fit mdl perm42 (init_predictor (Some raw), fs) =
           (Inl AttributeError, ((init_predictor (Some raw))\<lparr>df := Some [], price_stats := Some ps\<rparr>, fs))"
  using assms by (simp add: run_complete_pipeline_def se_bind_def load_data_m_def feature_engineering_m_def
                            init_predictor_def)

theorem run_pipeline_empty_table_witness:
  "fst (run_complete_pipeline (\<lambda>_ _ _. ()) (\<lambda>_ _. 0) (\<lambda>n. [0..<n]) (init_predictor (Some []), Map.empty)) =
     Inl AttributeError"
proof -
  have "load_and_preprocess_data (Some []) = Inr ([], price_stats_of [] None None)"
    by (simp add: load_and_preprocess_data_def drop_duplicates_def valid_prices_def map_filter_simps quantile_def)
  from run_pipeline_empty_table[OF this, of "\<lambda>_ _ _. ()" "\<lambda>_ _. 0" "\<lambda>n. [0..<n]" Map.empty]
  show ?thesis by simp
qed

text \<open>C11. End to end, the script's test prediction is the trained model's: when the
  cleaned table yields at least 7 feature rows, the script runs the pipeline, saves the
  trained predictor, and \<open>test_saved_model\<close> reports exactly the outcome that trained
  predictor gives for the test flight; the model file holds its bundle.\<close>

theorem main_script_end_to_end:
  assumes perm: "\<forall>n. length (perm42 n) = n"
    and load: "load_and_preprocess_data (Some raw) = Inr (rows, ps)"
    and enough: "7 \<le> length (fe_X (feature_engineering rows))"
  shows "\<exists>st' :: 'm predictor. main_script (fit :: 'm fit_fn) mdl perm42 predict raw fs =
            (Inr ((best_model st', results st'), predict_single_flight predict st' test_flight),
             save_model model_file st' fs) \<and> best_model st' \<noteq> None"
proof -
  obtain st' where run: "run_complete_pipeline fit mdl perm42 (init_predictor (Some raw), fs) =
            (Inr (best_model st', results st'), (st', save_model model_file st' fs))"
    and trained: "best_model st' \<noteq> None"
    using run_pipeline_trained[OF perm load enough, of fit mdl fs] by blast
  have "test_saved_model predict (save_model model_file st' fs) =
          Inr (predict_single_flight predict st' test_flight)"
    by (simp add: test_saved_model_def load_model_def save_model_def load_bundle_of
                  predict_single_flight_serving)
  then have "main_script fit mdl perm42 predict raw fs =
      (Inr ((best_model st', results st'), predict_single_flight predict st' test_flight),
       save_model model_file st' fs)"
    using run by (simp add: main_script_def)
  then show ?thesis using trained by blast
qed

theorem main_script_end_to_end_witness:
  "\<exists>st' :: unit predictor. main_script (\<lambda>_ _ _. ()) (\<lambda>_ _. 0) (\<lambda>n. [0..<n]) (\<lambda>_ xs. Inr (sum_list xs)) week_csv Map.empty =
      (Inr ((best_model st', results st'), predict_single_flight (\<lambda>_ xs. Inr (sum_list xs)) st' test_flight),
       save_model model_file st' Map.empty) \<and> best_model st' \<noteq> None"
  by (rule main_script_end_to_end[OF _ week_csv_load week_fe_rows]) simp

lemma step_load_fe:
  assumes csv: "csv_file (fst w) = Some raw" and load: "load_and_preprocess_data (Some raw) = Inr (rows, ps)"
    and ne: "rows \<noteq> []"
  shows "X_data (fst (fold (step_world fit mdl perm42) [LoadData, FeatureEng] w)) =
           Some (fe_X (feature_engineering rows))"
    and "y_data (fst (fold (step_world fit mdl perm42) [LoadData, FeatureEng] w)) =
           Some (fe_y (feature_engineering rows))"
    and "snd (fold (step_world fit mdl perm42) [LoadData, FeatureEng] w) = snd w"
  using assms by (simp_all add: step_world_def load_data_m_def feature_engineering_m_def Let_def)

text \<open>C14. Whatever the client has called before, in whatever order and with whatever
  exceptions caught (a half-done \<open>load_model\<close> included), calling
  \<open>load_and_preprocess_data\<close>, \<open>feature_engineering\<close>,
  \<open>train_and_evaluate_models\<close> and \<open>save_model\<close> again on a CSV that yields at least 7
  feature rows brings the object to a trained state and writes its bundle to the file,
  leaving the other files alone.\<close>

theorem pipeline_steps_recover:
  assumes perm: "\<forall>n. length (perm42 n) = n"
    and csv: "csv_file (fst w) = Some raw" and load: "load_and_preprocess_data (Some raw) = Inr (rows, ps)"
    and enough: "7 \<le> length (fe_X (feature_engineering rows))"
  shows "let w' = fold (step_world fit mdl perm42) [LoadData, FeatureEng, Train, SaveModel fname] w in
           best_model (fst w') \<noteq> None \<and> snd w' = (snd w)(fname \<mapsto> bundle_of (fst w'))"
proof -
  let ?fe = "feature_engineering rows"
  define w2 where "w2 = fold (step_world fit mdl perm42) [LoadData, FeatureEng] w"
  have ne: "rows \<noteq> []" using enough by (auto simp: feature_engineering_def)
  note w2 = step_load_fe[OF csv load ne, of fit mdl perm42, folded w2_def]
  have "length (fe_X ?fe) = length (fe_y ?fe)" by (rule fe_X_length)
  then obtain r where "train_and_evaluate_models fit mdl perm42 (fe_X ?fe) (fe_y ?fe) = Inr r"
    using train_succeeds_iff[OF perm, of fit mdl "fe_X ?fe" "fe_y ?fe"] enough by blast
  then have tr: "best_model (snd (train_m fit mdl perm42 (fst w2))) \<noteq> None"
    using w2(1,2) by (auto simp: train_m_def split: prod.splits)
  have "fold (step_world fit mdl perm42) [LoadData, FeatureEng, Train, SaveModel fname] w =
          snd (save_m fname (snd (train_m fit mdl perm42 (fst w2)), snd w2))"
    by (simp add: w2_def step_world_def)
  then show ?thesis using tr w2(3) by (simp add: save_m_def save_model_def Let_def)
qed


theorem pipeline_steps_recover_witness:
  "let w' = fold (step_world (\<lambda>_ _ _. ()) (\<lambda>_ _. 0) (\<lambda>n. [0..<n])) [LoadData, FeatureEng, Train, SaveModel model_file]
              (init_predictor (Some week_csv), Map.empty) in
     best_model (fst w') \<noteq> None \<and> snd w' = Map.empty(model_file \<mapsto> bundle_of (fst w'))"
proof -
  have "let w' = fold (step_world (\<lambda>_ _ _. ()) (\<lambda>_ _. 0) (\<lambda>n. [0..<n]))
                  [LoadData, FeatureEng, Train, SaveModel model_file] (init_predictor (Some week_csv), Map.empty) in
          best_model (fst w') \<noteq> None \<and>
          snd w' = (snd (init_predictor (Some week_csv) :: unit predictor, Map.empty :: unit files))
                     (model_file \<mapsto> bundle_of (fst w'))"
    by (rule pipeline_steps_recover[OF _ _ week_csv_load week_fe_rows]) (simp_all add: init_predictor_def)
  then show ?thesis by (simp only: snd_conv)
qed

lemma fe_encoders_not_kept: "filter (\<lambda>(k, _). k \<notin> set categorical_cols) (fe_encoders (feature_engineering rows)) = []"
proof -
  have "\<forall>p\<in>set (fe_encoders (feature_engineering rows)). fst p \<in> set categorical_cols"
    using fit_encoders_keys[of rows] by (metis fe_encoders_eq image_eqI list.set_map)
  then show ?thesis by (auto simp: filter_empty_conv)
qed

text \<open>C16. Feature engineering is idempotent, as the specification requires: calling
  \<open>feature_engineering\<close> again on the unchanged table returns the same outcome and leaves
  the object exactly as the first call left it: the same matrices, statistics, column
  list and encoders (the encoders of the categorical columns are replaced, not
  accumulated).\<close>

theorem feature_engineering_idempotent:
  "feature_engineering_m (snd (feature_engineering_m st)) = feature_engineering_m st"
  by (auto simp: feature_engineering_m_def Let_def fe_encoders_not_kept split: option.split)


end
