(* ===== verification/Reporting.thy ===== *)
theory Reporting
  imports Pipeline
begin

text \<open>
  The reporting methods of the predictor: \<open>analyze_data_distribution\<close>, called by
  \<open>run_complete_pipeline\<close> between loading and feature engineering, the table of the
  ten most important features that \<open>train_and_evaluate_models\<close> prints after selecting
  the model, and \<open>demo_predictions\<close>, which predicts three fixed flights. None of them
  changes an attribute; their model is the values they print (a summary record, the
  feature table, the list of printed blocks) and the exception that ends them.
  \<open>plot_learning_curves\<close> only draws figures and is not modelled.
\<close>

subsection \<open>Operations\<close>

text \<open>The figures \<open>analyze_data_distribution\<close> prints (lines 515--518): the number of
  records and the minimum, maximum, mean and median of \<open>self.df['price']\<close>; an empty
  column prints NaN for each statistic.\<close>

record data_summary =
  total_records :: nat
  price_min :: "real cell"
  price_max :: "real cell"
  price_mean :: "real cell"
  price_median :: "real cell"

text \<open>\<open>Series.median\<close>: numpy's median of the sorted values, the middle one for an
  odd count and the mean of the two middle ones for an even count.\<close>

definition median_list :: "real list \<Rightarrow> real cell" where
  "median_list vs =
     (let xs = sort vs; m = length xs in
      if m = 0 then None
      else if odd m then Some (xs ! (m div 2))
      else Some ((xs ! (m div 2 - 1) + xs ! (m div 2)) / 2))"

text \<open>\<open>analyze_data_distribution\<close> (lines 509--529): without a table it prints a notice
  and returns (\<open>None\<close>); otherwise its report. Formatting a NaN with \<open>,.0f\<close> prints
  \<open>nan\<close> and raises nothing, so the method never raises.\<close>

definition analyze_data_distribution :: "'m predictor \<Rightarrow> data_summary option" where
  "analyze_data_distribution st =
     (case df st of
        None \<Rightarrow> None
      | Some rows \<Rightarrow>
          let ps = map c_price rows in
          Some \<lparr>total_records = length rows, price_min = min_cell ps, price_max = max_cell ps,
                price_mean = mean_list ps, price_median = median_list ps\<rparr>)"

text \<open>\<open>demo_predictions\<close> (lines 451--507): the three demonstration requests, in the
  order of \<open>demo_flights\<close>. The second name is Vietnamese and is written as its UTF-8
  bytes.\<close>

definition demo_flight1 :: request where
  "demo_flight1 =
     [(''flight_number'', ''VJ1198''), (''departure_airport'', ''SGN''), (''arrival_airport'', ''HAN''),
      (''departure_time'', ''08:00''), (''arrival_time'', ''10:15''), (''classes'', ''Eco''),
      (''type_of_plane'', ''Airbus A321''), (''create_at'', ''2024-01-15 10:30:00''),
      (''flight_date'', ''2024-01-20T08:00:00'')]"

definition demo_flight2 :: request where
  "demo_flight2 =
     [(''flight_number'', ''VJ124''), (''departure_airport'', ''SGN''), (''arrival_airport'', ''HAN''),
      (''departure_time'', ''14:30''), (''arrival_time'', ''16:45''), (''classes'', ''Eco''),
      (''type_of_plane'', ''Airbus A320''), (''create_at'', ''2024-01-01 09:00:00''),
      (''flight_date'', ''2024-02-15T14:30:00'')]"

definition demo_flight3 :: request where
  "demo_flight3 =
     [(''flight_number'', ''VJ196''), (''departure_airport'', ''SGN''), (''arrival_airport'', ''HAN''),
      (''departure_time'', ''19:00''), (''arrival_time'', ''21:15''), (''classes'', ''Business''),
      (''type_of_plane'', ''Airbus A320''), (''create_at'', ''2024-01-18 15:20:00''),
      (''flight_date'', ''2024-01-25T19:00:00'')]"

definition demo_flights :: "(string \<times> request) list" where
  "demo_flights =
     [(''Economy SGN-HAN'', demo_flight1),
      (''book v'' @ [CHR 0xC3, CHR 0xA9] @ '' s'' @ [CHR 0xE1, CHR 0xBB, CHR 0x9B] @ ''m'', demo_flight2),
      (''Business class'', demo_flight3)]"

text \<open>The block printed for one flight: its name, route, times, class, aircraft, the
  days between booking and flight, and the predicted price.\<close>

record demo_line =
  d_name :: string
  d_route :: "string \<times> string"
  d_time :: "string \<times> string"
  d_class :: string
  d_aircraft :: string
  d_advance_days :: int
  d_price :: "real cell"

text \<open>One iteration of the loop (lines 497--506): \<open>predict_single_flight\<close> (which may
  raise), then \<open>pd.to_datetime(flight['flight_date']) - pd.to_datetime(flight['create_at'])\<close>,
  then the dictionary reads of the print statements. The block is emitted once all its
  values are computed; the loop has no \<open>try\<close>, so an exception ends the method.\<close>

definition demo_block ::
  "'m predict_fn \<Rightarrow> ('m, 'z) serving_scheme \<Rightarrow> string \<Rightarrow> request \<Rightarrow> demo_line result" where
  "demo_block predict st name fl =
     res_bind (predict_single_flight predict st fl) (\<lambda>price.
     res_bind (req_get fl ''flight_date'') (\<lambda>fd. res_bind (parse_ts fd) (\<lambda>tfd.
     res_bind (req_get fl ''create_at'') (\<lambda>ca. res_bind (parse_ts ca) (\<lambda>tca.
     res_bind (req_get fl ''departure_airport'') (\<lambda>da. res_bind (req_get fl ''arrival_airport'') (\<lambda>aa.
     res_bind (req_get fl ''departure_time'') (\<lambda>dpt. res_bind (req_get fl ''arrival_time'') (\<lambda>art.
     res_bind (req_get fl ''classes'') (\<lambda>cl. res_bind (req_get fl ''type_of_plane'') (\<lambda>tp.
     Inr \<lparr>d_name = name, d_route = (da, aa), d_time = (dpt, art), d_class = cl, d_aircraft = tp,
          d_advance_days = delta_days tfd tca, d_price = price\<rparr>)))))))))))"

text \<open>The \<open>for\<close> loop: the blocks printed before the first exception, and the
  exception or normal return.\<close>

fun demo_loop ::
  "'m predict_fn \<Rightarrow> ('m, 'z) serving_scheme \<Rightarrow> (string \<times> request) list \<Rightarrow> demo_line list \<times> unit result" where
  "demo_loop predict st [] = ([], Inr ())"
| "demo_loop predict st ((name, fl) # rest) =
     (case demo_block predict st name fl of
        Inl e \<Rightarrow> ([], Inl e)
      | Inr l \<Rightarrow> (case demo_loop predict st rest of (ls, r) \<Rightarrow> (l # ls, r)))"

definition demo_predictions :: "'m predict_fn \<Rightarrow> ('m, 'z) serving_scheme \<Rightarrow> demo_line list \<times> unit result" where
  "demo_predictions predict st = demo_loop predict st demo_flights"

text \<open>The feature-importance report of \<open>train_and_evaluate_models\<close> (lines 279--288):
  the stored feature names paired with the model's \<open>feature_importances_\<close>, sorted by
  importance in descending order, first ten rows. The \<open>DataFrame\<close> constructor raises
  ValueError when the two columns differ in length. Ties are kept in column order here;
  numpy's default quicksort may order them differently, and no property below depends on
  the order of ties.\<close>

definition top_features :: "string list \<Rightarrow> real list \<Rightarrow> (string \<times> real) list result" where
  "top_features cols imps =
     (if length cols \<noteq> length imps then Inl ValueError
      else Inr (take 10 (sort_key (\<lambda>p. - snd p) (zip cols imps))))"

text \<open>\<open>hasattr(self.best_model, 'feature_importances_')\<close>: the model's importances, or
  \<open>None\<close> for a model without the attribute; there is no report without a model. The
  report is printed right after training, when the feature columns are set.\<close>

definition feature_importance_report ::
  "('m \<Rightarrow> real list option) \<Rightarrow> 'm predictor \<Rightarrow> (string \<times> real) list option result" where
  "feature_importance_report importances st =
     (case (best_model st, feature_columns st) of
        (Some m, Some cols) \<Rightarrow>
          (case importances m of
             None \<Rightarrow> Inr None
           | Some imps \<Rightarrow> map_sum id Some (top_features cols imps))
      | _ \<Rightarrow> Inr None)"

subsection \<open>The price report\<close>

text \<open>numpy's median is pandas' linear quantile at one half, so the quantile lemmas of
  \<open>Cleaning\<close> apply to it.\<close>

lemma median_list_quantile: "median_list vs = quantile 1 2 vs"
proof (cases "vs = []")
  case False
  let ?xs = "sort vs" and ?m = "length vs"
  have m: "0 < ?m" using False by simp
  show ?thesis
  proof (cases "odd ?m")
    case True
    then obtain k where k: "?m = 2 * k + 1" by (metis oddE)
    then show ?thesis using False True
      by (simp add: median_list_def quantile_def lerp_at_def Let_def)
  next
    case False
    then obtain k where k: "?m = 2 * k" by (metis evenE)
    with m have "0 < k" by simp
    then have "(2 * k - 1) div 2 = k - 1" "(2 * k - 1) mod 2 = 1" "k - 1 + 1 = k" by arith+
    then show ?thesis using False k \<open>vs \<noteq> []\<close> \<open>0 < k\<close>
      by (simp add: median_list_def quantile_def lerp_at_def Let_def field_simps)
  qed
qed (simp add: median_list_def quantile_def)

lemma load_data_m_Inr:
  assumes "load_data_m st = (Inr (), st')"
  obtains raw rows ps where "csv_file st = Some raw" "load_and_preprocess_data (Some raw) = Inr (rows, ps)"
    "st' = st\<lparr>df := Some rows, price_stats := Some ps\<rparr>"
  using assms by (auto simp: load_data_m_def load_and_preprocess_data_def split: option.splits sum.splits)

lemma cleaned_prices_subset:
  assumes "load_and_preprocess_data (Some raw) = Inr (rows, ps)"
  shows "set (map c_price rows) \<subseteq>
           set (valid_prices (filter (in_bounds (iqr_bounds (ps_q1 ps) (ps_q3 ps))) (drop_duplicates raw)))"
  using load_and_preprocess_data_Inr(3)[OF assms]
  by (auto simp: set_map_filter valid_prices_set dest: clean_row_of_price)

lemma median_list_None_iff [simp]: "median_list vs = None \<longleftrightarrow> vs = []"
  by (simp add: median_list_quantile quantile_def Let_def)

lemma median_list_range:
  "median_list vs = Some md \<Longrightarrow> Min (set vs) \<le> md \<and> md \<le> Max (set vs)"
  unfolding median_list_quantile by (rule quantile_range) simp_all

text \<open>C18. The report printed after loading agrees with the stored price statistics: it
  counts the cleaned rows, its median and mean lie between its minimum and maximum, and
  its range lies inside the range recorded in \<open>price_stats\<close> (which also counts the
  rows dropped afterwards for bad timestamps or aircraft types).\<close>

theorem report_within_price_stats:
  assumes load: "load_data_m st = (Inr (), st')" and rows: "df st' = Some rows" "rows \<noteq> []"
  shows "\<exists>lo hi a b md mn.
           analyze_data_distribution st' =
             Some \<lparr>total_records = length rows, price_min = Some a, price_max = Some b,
                   price_mean = Some mn, price_median = Some md\<rparr> \<and>
           map_option ps_min (price_stats st') = Some (Some lo) \<and>
           map_option ps_max (price_stats st') = Some (Some hi) \<and>
           lo \<le> a \<and> a \<le> md \<and> md \<le> b \<and> a \<le> mn \<and> mn \<le> b \<and> b \<le> hi"
proof -
  obtain raw rows' ps where ld: "load_and_preprocess_data (Some raw) = Inr (rows', ps)"
    and st': "st' = st\<lparr>df := Some rows', price_stats := Some ps\<rparr>"
    using load by (rule load_data_m_Inr)
  have rr: "rows' = rows" using rows(1) st' by simp
  let ?P = "map c_price rows"
  let ?V = "valid_prices (filter (in_bounds (iqr_bounds (ps_q1 ps) (ps_q3 ps))) (drop_duplicates raw))"
  have sub: "set ?P \<subseteq> set ?V" using cleaned_prices_subset[OF ld] rr by simp
  have neP: "?P \<noteq> []" using rows(2) by simp
  then have neV: "?V \<noteq> []" using sub by auto
  have ps: "ps = price_stats_of ?V (ps_q1 ps) (ps_q3 ps)" by (rule load_and_preprocess_data_Inr(4)[OF ld])
  have psmm: "ps_min ps = Some (Min (set ?V))" "ps_max ps = Some (Max (set ?V))"
    using arg_cong[OF ps, of ps_min] arg_cong[OF ps, of ps_max] neV
    by (simp_all add: price_stats_of_def min_cell_def max_cell_def)
  obtain md where md: "median_list ?P = Some md"
    using neP by (cases "median_list ?P") simp_all
  obtain mn where mn: "mean_list ?P = Some mn" using neP by (simp add: mean_list_def)
  have fin: "finite (set ?P)" "set ?P \<noteq> {}" using neP by simp_all
  have "Min (set ?V) \<le> Min (set ?P)" using Min_antimono[OF sub fin(2)] by simp
  moreover have "Max (set ?P) \<le> Max (set ?V)" using Max_mono[OF sub fin(2)] by simp
  moreover have "Min (set ?P) \<le> md \<and> md \<le> Max (set ?P)" by (rule median_list_range[OF md])
  moreover have "Min (set ?P) \<le> mn \<and> mn \<le> Max (set ?P)"
    by (rule mean_list_bounds[OF mn]) (simp add: fin)
  moreover have "analyze_data_distribution st' =
             Some \<lparr>total_records = length rows, price_min = Some (Min (set ?P)), price_max = Some (Max (set ?P)),
                   price_mean = Some mn, price_median = Some md\<rparr>"
    using rows md mn neP by (simp add: analyze_data_distribution_def min_cell_def max_cell_def)
  ultimately show ?thesis using st' psmm by auto
qed

theorem report_within_price_stats_witness:
  "\<exists>lo hi a b md mn.
     analyze_data_distribution (snd (load_data_m (init_predictor (Some example_csv) :: unit predictor))) =
       Some \<lparr>total_records = 2, price_min = Some a, price_max = Some b,
             price_mean = Some mn, price_median = Some md\<rparr> \<and>
     map_option ps_min (price_stats (snd (load_data_m (init_predictor (Some example_csv) :: unit predictor)))) = Some (Some lo) \<and>
     map_option ps_max (price_stats (snd (load_data_m (init_predictor (Some example_csv) :: unit predictor)))) = Some (Some hi) \<and>
     lo \<le> a \<and> a \<le> md \<and> md \<le> b \<and> a \<le> mn \<and> mn \<le> b \<and> b \<le> hi"
proof -
  let ?st = "init_predictor (Some example_csv) :: unit predictor"
  have l: "load_data_m ?st = (Inr (), snd (load_data_m ?st))"
    by (simp add: load_data_m_def init_predictor_def example_csv_load)
  have d: "df (snd (load_data_m ?st)) =
             Some [example_clean 1 9 15 14 30 (Some ''Eco'') 1000, example_clean 3 11 16 8 0 None 1100]"
    by (simp add: load_data_m_def init_predictor_def example_csv_load)
  show ?thesis using report_within_price_stats[OF l d] by (simp add: numeral_2_eq_2)
qed

subsection \<open>The demonstration loop\<close>

lemma demo_dates:
  "to_datetime ''2024-01-20T08:00:00'' = Some \<lparr>ts_year = 2024, ts_month = 1, ts_day = 20, ts_hour = 8, ts_minute = 0, ts_second = 0, ts_nanos = 0\<rparr>"
  "to_datetime ''2024-01-15 10:30:00'' = Some \<lparr>ts_year = 2024, ts_month = 1, ts_day = 15, ts_hour = 10, ts_minute = 30, ts_second = 0, ts_nanos = 0\<rparr>"
  "to_datetime ''2024-02-15T14:30:00'' = Some \<lparr>ts_year = 2024, ts_month = 2, ts_day = 15, ts_hour = 14, ts_minute = 30, ts_second = 0, ts_nanos = 0\<rparr>"
  "to_datetime ''2024-01-01 09:00:00'' = Some \<lparr>ts_year = 2024, ts_month = 1, ts_day = 1, ts_hour = 9, ts_minute = 0, ts_second = 0, ts_nanos = 0\<rparr>"
  "to_datetime ''2024-01-25T19:00:00'' = Some \<lparr>ts_year = 2024, ts_month = 1, ts_day = 25, ts_hour = 19, ts_minute = 0, ts_second = 0, ts_nanos = 0\<rparr>"
  "to_datetime ''2024-01-18 15:20:00'' = Some \<lparr>ts_year = 2024, ts_month = 1, ts_day = 18, ts_hour = 15, ts_minute = 20, ts_second = 0, ts_nanos = 0\<rparr>"
  by (simp_all add: parse_eval_defs)

lemma demo_days:
  "delta_days \<lparr>ts_year = 2024, ts_month = 1, ts_day = 20, ts_hour = 8, ts_minute = 0, ts_second = 0, ts_nanos = 0\<rparr>
              \<lparr>ts_year = 2024, ts_month = 1, ts_day = 15, ts_hour = 10, ts_minute = 30, ts_second = 0, ts_nanos = 0\<rparr> = 4"
  "delta_days \<lparr>ts_year = 2024, ts_month = 2, ts_day = 15, ts_hour = 14, ts_minute = 30, ts_second = 0, ts_nanos = 0\<rparr> \<lparr>ts_year = 2024, ts_month = 1, ts_day = 1, ts_hour = 9, ts_minute = 0, ts_second = 0, ts_nanos = 0\<rparr> = 45"
  "delta_days \<lparr>ts_year = 2024, ts_month = 1, ts_day = 25, ts_hour = 19, ts_minute = 0, ts_second = 0, ts_nanos = 0\<rparr> \<lparr>ts_year = 2024, ts_month = 1, ts_day = 18, ts_hour = 15, ts_minute = 20, ts_second = 0, ts_nanos = 0\<rparr> = 7"
  by (simp_all add: calendar_defs)

lemmas demo_eval = demo_flight1_def demo_flight2_def demo_flight3_def req_get_def parse_ts_def demo_dates

lemma demo_requests_ok:
  assumes "fl \<in> {demo_flight1, demo_flight2, demo_flight3}"
  shows "\<forall>k\<in>set request_keys. map_of fl k \<noteq> None"
    and "to_datetime (the (map_of fl ''create_at'')) \<noteq> None"
    and "to_datetime (the (map_of fl ''flight_date'')) \<noteq> None"
  using assms by (auto simp: demo_eval request_keys_def)

text \<open>The demonstration loop prints the blocks of the flights before the first failing
  one, in order, and then raises that flight's exception; it returns normally only when
  every block succeeds.\<close>

theorem demo_loop_first_error:
  "demo_loop predict st fls =
     (map (\<lambda>(n, fl). projr (demo_block predict st n fl))
        (takeWhile (\<lambda>(n, fl). \<not> isl (demo_block predict st n fl)) fls),
      case dropWhile (\<lambda>(n, fl). \<not> isl (demo_block predict st n fl)) fls of
        [] \<Rightarrow> Inr ()
      | (n, fl) # _ \<Rightarrow> Inl (projl (demo_block predict st n fl)))"
  by (induction predict st fls rule: demo_loop.induct) (auto split: sum.split prod.split)

lemma demo_block_flight1:
  assumes "predict_single_flight predict st demo_flight1 = Inr p"
  shows "demo_block predict st n demo_flight1 =
     Inr \<lparr>d_name = n, d_route = (''SGN'', ''HAN''), d_time = (''08:00'', ''10:15''), d_class = ''Eco'',
          d_aircraft = ''Airbus A321'', d_advance_days = 4, d_price = p\<rparr>"
  unfolding demo_block_def assms res_bind_simps by (simp add: demo_eval demo_days[unfolded One_nat_def])

lemma demo_block_flight2:
  assumes "predict_single_flight predict st demo_flight2 = Inr p"
  shows "demo_block predict st n demo_flight2 =
     Inr \<lparr>d_name = n, d_route = (''SGN'', ''HAN''), d_time = (''14:30'', ''16:45''), d_class = ''Eco'',
          d_aircraft = ''Airbus A320'', d_advance_days = 45, d_price = p\<rparr>"
  unfolding demo_block_def assms res_bind_simps by (simp add: demo_eval demo_days[unfolded One_nat_def])

lemma demo_block_flight3:
  assumes "predict_single_flight predict st demo_flight3 = Inr p"
  shows "demo_block predict st n demo_flight3 =
     Inr \<lparr>d_name = n, d_route = (''SGN'', ''HAN''), d_time = (''19:00'', ''21:15''), d_class = ''Business'',
          d_aircraft = ''Airbus A320'', d_advance_days = 7, d_price = p\<rparr>"
  unfolding demo_block_def assms res_bind_simps by (simp add: demo_eval demo_days[unfolded One_nat_def])

lemma demo_predictions_flights:
  "demo_predictions predict st =
     demo_loop predict st [(''Economy SGN-HAN'', demo_flight1), (fst (demo_flights ! 1), demo_flight2),
                           (''Business class'', demo_flight3)]"
  by (simp only: demo_predictions_def demo_flights_def nth_Cons_0 nth_Cons_Suc One_nat_def fst_conv)

lemma demo_flight_predicts:
  assumes "best_model st = Some m" and "feature_columns st = Some feature_columns_list"
    and "route_popularity_stats st = Some rs" and "airline_popularity_stats st = Some als"
    and "\<forall>col\<in>set categorical_cols. map_of (label_encoders st) col \<noteq> None"
    and "\<forall>xs. \<exists>x. predict m xs = Inr x"
    and fl: "fl \<in> {demo_flight1, demo_flight2, demo_flight3}"
  shows "\<exists>v. predict_single_flight predict st fl = Inr v"
  using predict_single_flight_succeeds[where predict = predict and m = m and q = fl and st = st,
          OF assms(1-5) demo_requests_ok[OF fl] assms(6)] .

text \<open>C17. On a trained predictor (a model whose \<open>predict\<close> does not raise, the stored
  feature columns, popularity statistics and an encoder per categorical column) the
  demonstration prints all three blocks, with the advance bookings of 4, 45 and 7 days and
  the prices \<open>predict_single_flight\<close> returns, and returns normally.\<close>

theorem demo_predictions_complete:
  assumes "best_model st = Some m" and "feature_columns st = Some feature_columns_list"
    and "route_popularity_stats st = Some rs" and "airline_popularity_stats st = Some als"
    and "\<forall>col\<in>set categorical_cols. map_of (label_encoders st) col \<noteq> None"
    and "\<forall>xs. \<exists>x. predict m xs = Inr x"
  shows "\<exists>p1 p2 p3.
           predict_single_flight predict st demo_flight1 = Inr p1 \<and>
           predict_single_flight predict st demo_flight2 = Inr p2 \<and>
           predict_single_flight predict st demo_flight3 = Inr p3 \<and>
           demo_predictions predict st =
             ([\<lparr>d_name = ''Economy SGN-HAN'', d_route = (''SGN'', ''HAN''), d_time = (''08:00'', ''10:15''),
                d_class = ''Eco'', d_aircraft = ''Airbus A321'', d_advance_days = 4, d_price = p1\<rparr>,
               \<lparr>d_name = fst (demo_flights ! 1), d_route = (''SGN'', ''HAN''), d_time = (''14:30'', ''16:45''),
                d_class = ''Eco'', d_aircraft = ''Airbus A320'', d_advance_days = 45, d_price = p2\<rparr>,
               \<lparr>d_name = ''Business class'', d_route = (''SGN'', ''HAN''), d_time = (''19:00'', ''21:15''),
                d_class = ''Business'', d_aircraft = ''Airbus A320'', d_advance_days = 7, d_price = p3\<rparr>],
              Inr ())"
proof -
  obtain p1 p2 p3 where p: "predict_single_flight predict st demo_flight1 = Inr p1"
    "predict_single_flight predict st demo_flight2 = Inr p2"
    "predict_single_flight predict st demo_flight3 = Inr p3"
    using demo_flight_predicts[where predict = predict and m = m and st = st, OF assms]
    by (metis insertI1 insertI2)
  have "demo_predictions predict st =
             ([\<lparr>d_name = ''Economy SGN-HAN'', d_route = (''SGN'', ''HAN''), d_time = (''08:00'', ''10:15''),
                d_class = ''Eco'', d_aircraft = ''Airbus A321'', d_advance_days = 4, d_price = p1\<rparr>,
               \<lparr>d_name = fst (demo_flights ! 1), d_route = (''SGN'', ''HAN''), d_time = (''14:30'', ''16:45''),
                d_class = ''Eco'', d_aircraft = ''Airbus A320'', d_advance_days = 45, d_price = p2\<rparr>,
               \<lparr>d_name = ''Business class'', d_route = (''SGN'', ''HAN''), d_time = (''19:00'', ''21:15''),
                d_class = ''Business'', d_aircraft = ''Airbus A320'', d_advance_days = 7, d_price = p3\<rparr>],
              Inr ())"
    unfolding demo_predictions_flights demo_loop.simps demo_block_flight1[OF p(1)]
      demo_block_flight2[OF p(2)] demo_block_flight3[OF p(3)] sum.case prod.case ..
  then show ?thesis using p by blast
qed

theorem demo_predictions_complete_witness:
  "\<exists>p1 p2 p3.
     predict_single_flight (\<lambda>_ xs. Inr (sum_list xs)) example_serving demo_flight1 = Inr p1 \<and>
     predict_single_flight (\<lambda>_ xs. Inr (sum_list xs)) example_serving demo_flight2 = Inr p2 \<and>
     predict_single_flight (\<lambda>_ xs. Inr (sum_list xs)) example_serving demo_flight3 = Inr p3 \<and>
     demo_predictions (\<lambda>_ xs. Inr (sum_list xs)) example_serving =
       ([\<lparr>d_name = ''Economy SGN-HAN'', d_route = (''SGN'', ''HAN''), d_time = (''08:00'', ''10:15''),
          d_class = ''Eco'', d_aircraft = ''Airbus A321'', d_advance_days = 4, d_price = p1\<rparr>,
         \<lparr>d_name = fst (demo_flights ! 1), d_route = (''SGN'', ''HAN''), d_time = (''14:30'', ''16:45''),
          d_class = ''Eco'', d_aircraft = ''Airbus A320'', d_advance_days = 45, d_price = p2\<rparr>,
         \<lparr>d_name = ''Business class'', d_route = (''SGN'', ''HAN''), d_time = (''19:00'', ''21:15''),
          d_class = ''Business'', d_aircraft = ''Airbus A320'', d_advance_days = 7, d_price = p3\<rparr>],
        Inr ())"
proof -
  have enc: "\<forall>col\<in>set categorical_cols. map_of (label_encoders example_serving) col \<noteq> None"
    by (simp add: example_serving_def fit_encoders_def categorical_cols_def)
  show ?thesis
    by (rule demo_predictions_complete[OF _ _ _ _ enc]) (simp_all add: example_serving_def)
qed

subsection \<open>The feature-importance report\<close>

lemma sorted_desc_snd: "sorted (map (\<lambda>p. - snd p) (xs :: ('a \<times> real) list)) \<Longrightarrow> sorted (rev (map snd xs))"
  by (simp add: sorted_wrt_rev sorted_wrt_map neg_le_iff_le)

lemma sorted_take_drop_le:
  assumes "sorted (map f xs)" "p \<in> set (take k xs)" "q \<in> set (drop k xs)"
  shows "f p \<le> f q"
proof -
  have "sorted (map f (take k xs) @ map f (drop k xs))" using assms(1) by (simp flip: map_append)
  then show ?thesis using assms(2,3) by (auto simp: sorted_append)
qed

text \<open>C19. The report lists the ten most important features, as the specification asks:
  when every feature has an importance, it has \<open>min 10 n\<close> rows in descending order of
  importance, taken from the (feature, importance) pairs, and no feature left out is more
  important than one listed.\<close>

theorem top_features_highest:
  assumes "length cols = length imps"
  shows "\<exists>out. top_features cols imps = Inr out \<and> length out = min 10 (length cols) \<and>
           sorted (rev (map snd out)) \<and> mset out \<subseteq># mset (zip cols imps) \<and>
           (\<forall>p\<in>set out. \<forall>q\<in>#mset (zip cols imps) - mset out. snd q \<le> snd p)"
proof -
  let ?f = "\<lambda>p::string \<times> real. - snd p"
  let ?s = "sort_key ?f (zip cols imps)"
  have ms: "mset ?s = mset (zip cols imps)" by simp
  have srt: "sorted (map ?f ?s)" by (rule sorted_sort_key)
  have "sorted (rev (map snd (take 10 ?s)))"
    by (rule sorted_desc_snd) (use srt in \<open>simp add: sorted_wrt_take flip: take_map\<close>)
  moreover have "mset (take 10 ?s) \<subseteq># mset (zip cols imps)"
    by (metis append_take_drop_id mset_append mset_subset_eq_add_left ms)
  moreover have "mset (zip cols imps) - mset (take 10 ?s) = mset (drop 10 ?s)"
    by (metis append_take_drop_id mset_append add_diff_cancel_left' ms)
  moreover have "\<forall>p\<in>set (take 10 ?s). \<forall>q\<in>set (drop 10 ?s). snd q \<le> snd p"
    using sorted_take_drop_le[OF srt] by fastforce
  ultimately show ?thesis using assms by (simp add: top_features_def min_def)
qed

theorem top_features_highest_witness:
  "\<exists>out. top_features [''a'', ''b''] [0.25, 0.75] = Inr out \<and> length out = min 10 (length [''a'', ''b'']) \<and>
     sorted (rev (map snd out)) \<and> mset out \<subseteq># mset (zip [''a'', ''b''] [0.25, 0.75]) \<and>
     (\<forall>p\<in>set out. \<forall>q\<in>#mset (zip [''a'', ''b''] [0.25, 0.75]) - mset out. snd q \<le> snd p)"
  by (rule top_features_highest) simp


end
