(* ===== verification/Screenshot.thy ===== *)
theory Screenshot
  imports PyBuiltins
begin

text \<open>
  \<open>src/screenshot.py\<close>: \<open>take_screenshot_simple\<close> opens the Vietnam Airlines home
  page in Chrome through Selenium, waits ten seconds, saves a screenshot and quits the
  browser; any \<open>Exception\<close> is printed and answered with \<open>return False\<close>, after
  quitting the browser when \<open>driver\<close> was bound. The browser, the driver manager, the
  clock and the console are the environment: each external call (identified by its kind
  and, for prints and quits, by its source line) returns normally, raises an
  \<open>Exception\<close>, or raises a \<open>BaseException\<close> that is not an \<open>Exception\<close>
  (\<open>KeyboardInterrupt\<close>), which the handler does not catch. \<open>driver.save_screenshot\<close>
  is modelled as Selenium implements it: the WebDriver screenshot command, then the
  write of the PNG file, whose \<open>OSError\<close> Selenium catches and answers with
  \<open>False\<close>. The world records the calls made, whether a Chrome process is running and
  the screenshots written. Building the \<open>Options\<close> object and reading local variables
  cannot fail and are not calls here.
\<close>

subsection \<open>Operations\<close>

text \<open>The answer of the environment to one call.\<close>

datatype call_result = Ok | Fails | Interrupted

text \<open>The external calls of the script: \<open>print\<close> (by line), \<open>ChromeDriverManager().install()\<close>
  with \<open>Service(...)\<close>, \<open>webdriver.Chrome(...)\<close>, \<open>driver.get\<close>, \<open>time.sleep\<close>,
  \<open>driver.save_screenshot\<close> with, inside it, the write of the file (\<open>WriteFile\<close>:
  \<open>open(filename, 'wb')\<close> and \<open>write\<close>, whose \<open>Fails\<close> answer is an \<open>OSError\<close>),
  the \<open>title\<close> and \<open>current_url\<close> properties, and \<open>driver.quit()\<close> (by line).\<close>

datatype browser_call =
  Print nat | Install | Launch | Open string | Sleep nat | Screenshot string | WriteFile string
| Title | CurrentUrl | Quit nat

record browser =
  b_calls :: "browser_call list"
  b_running :: bool
  b_files :: "string list"

text \<open>How the function ends: it returns a boolean, or an exception escapes it.\<close>

datatype outcome = Returned bool | Raised

type_synonym browser_env = "browser_call \<Rightarrow> call_result"

text \<open>Lines 9--10.\<close>

definition vna_url :: string where
  "vna_url = ''https://www.vietnamairlines.com/vn/vi/home''"

definition screenshot_file :: "real \<Rightarrow> string" where
  "screenshot_file now = ''vietnam_airlines_screenshot_'' @ show_nat (nat \<lfloor>now\<rfloor>) @ ''.png''"

text \<open>What a call that returns normally changes: \<open>webdriver.Chrome\<close> starts a browser,
  the write inside \<open>save_screenshot\<close> creates the file, \<open>quit\<close> stops the browser.\<close>

definition call_effect :: "browser_call \<Rightarrow> browser \<Rightarrow> browser" where
  "call_effect c w =
     (case c of
        Launch \<Rightarrow> w\<lparr>b_running := True\<rparr>
      | WriteFile f \<Rightarrow> w\<lparr>b_files := b_files w @ [f]\<rparr>
      | Quit _ \<Rightarrow> w\<lparr>b_running := False\<rparr>
      | _ \<Rightarrow> w)"

text \<open>One external call: it is recorded, and it has its effect only when it returns.\<close>

definition call :: "browser_env \<Rightarrow> browser_call \<Rightarrow> browser \<Rightarrow> call_result \<times> browser" where
  "call env c w =
     (let w' = w\<lparr>b_calls := b_calls w @ [c]\<rparr> in
      (env c, if env c = Ok then call_effect c w' else w'))"

text \<open>\<open>driver.save_screenshot(filename)\<close>, Selenium's \<open>get_screenshot_as_file\<close>: the
  screenshot command, whose exception propagates, then the write of the file. An
  \<open>OSError\<close> of the write is caught and the method returns \<open>False\<close> with no file
  written; line 31 discards the boolean, so both returns continue the block.\<close>

definition save_screenshot :: "browser_env \<Rightarrow> string \<Rightarrow> browser \<Rightarrow> call_result \<times> browser" where
  "save_screenshot env f w =
     (case call env (Screenshot f) w of
        (Ok, w1) \<Rightarrow> (case call env (WriteFile f) w1 of (Fails, w2) \<Rightarrow> (Ok, w2) | r \<Rightarrow> r)
      | r \<Rightarrow> r)"

text \<open>One statement of the \<open>try\<close> block: \<open>save_screenshot\<close> as above, any other call
  directly.\<close>

definition exec :: "browser_env \<Rightarrow> browser_call \<Rightarrow> browser \<Rightarrow> call_result \<times> browser" where
  "exec env c w = (case c of Screenshot f \<Rightarrow> save_screenshot env f w | _ \<Rightarrow> call env c w)"

text \<open>Whether a statement of the block returns normally: its call returns, and for
  \<open>save_screenshot\<close> the write is not interrupted (its \<open>OSError\<close> is caught).\<close>

definition returns :: "browser_env \<Rightarrow> browser_call \<Rightarrow> bool" where
  "returns env c = (env c = Ok \<and> (case c of Screenshot f \<Rightarrow> env (WriteFile f) \<noteq> Interrupted | _ \<Rightarrow> True))"

text \<open>The calls of the \<open>try\<close> block (lines 13--42), in order.\<close>

definition try_body :: "string \<Rightarrow> browser_call list" where
  "try_body fname =
     [Print 13, Install, Launch, Print 24, Open vna_url, Print 27, Sleep 10, Print 30,
      Screenshot fname, Title, CurrentUrl, Print 37, Print 38, Print 39, Print 40, Quit 42]"

text \<open>The \<open>try\<close> block runs its calls until the first one that raises; the flag records
  whether \<open>driver = webdriver.Chrome(...)\<close> has completed, i.e. whether \<open>'driver' in
  locals()\<close> holds in the handler.\<close>

fun run_body :: "browser_env \<Rightarrow> browser_call list \<Rightarrow> bool \<Rightarrow> browser \<Rightarrow> call_result \<times> bool \<times> browser" where
  "run_body env [] drv w = (Ok, drv, w)"
| "run_body env (c # cs) drv w =
     (case exec env c w of
        (Ok, w') \<Rightarrow> run_body env cs (drv \<or> c = Launch) w'
      | (r, w') \<Rightarrow> (r, drv, w'))"

text \<open>\<open>except Exception\<close> (lines 45--49): print the error, quit the browser if
  \<open>driver\<close> is bound, return False. An exception raised inside the handler escapes.\<close>

definition except_handler :: "browser_env \<Rightarrow> bool \<Rightarrow> browser \<Rightarrow> outcome \<times> browser" where
  "except_handler env drv w =
     (case call env (Print 46) w of
        (Ok, w1) \<Rightarrow>
          if drv then (case call env (Quit 48) w1 of (Ok, w2) \<Rightarrow> (Returned False, w2) | (_, w2) \<Rightarrow> (Raised, w2))
          else (Returned False, w1)
      | (_, w1) \<Rightarrow> (Raised, w1))"

text \<open>\<open>take_screenshot_simple\<close> (lines 7--49), \<open>now\<close> the value of \<open>time.time()\<close>. A
  \<open>KeyboardInterrupt\<close> is not an \<open>Exception\<close> and leaves the function at once.\<close>

definition take_screenshot_simple :: "browser_env \<Rightarrow> real \<Rightarrow> browser \<Rightarrow> outcome \<times> browser" where
  "take_screenshot_simple env now w =
     (case run_body env (try_body (screenshot_file now)) False w of
        (Ok, _, w1) \<Rightarrow> (Returned True, w1)
      | (Fails, drv, w1) \<Rightarrow> except_handler env drv w1
      | (Interrupted, _, w1) \<Rightarrow> (Raised, w1))"

text \<open>The \<open>__main__\<close> block (lines 51--54): two prints outside any \<open>try\<close>, then the
  call, whose boolean result is discarded.\<close>

definition screenshot_main :: "browser_env \<Rightarrow> real \<Rightarrow> browser \<Rightarrow> outcome \<times> browser" where
  "screenshot_main env now w =
     (case call env (Print 52) w of
        (Ok, w1) \<Rightarrow>
          (case call env (Print 53) w1 of
             (Ok, w2) \<Rightarrow> take_screenshot_simple env now w2
           | (_, w2) \<Rightarrow> (Raised, w2))
      | (_, w1) \<Rightarrow> (Raised, w1))"

subsection \<open>Lemmas\<close>

lemma exec_result:
  "fst (exec env c w) = (if returns env c then Ok else if env c \<noteq> Ok then env c else Interrupted)"
proof (cases c)
  case (Screenshot f)
  then show ?thesis
    by (cases "env (Screenshot f)"; cases "env (WriteFile f)")
       (simp_all add: exec_def save_screenshot_def call_def returns_def Let_def)
qed (simp_all add: exec_def call_def returns_def Let_def)

lemma exec_running:
  "b_running (snd (exec env c w)) =
     (case c of Launch \<Rightarrow> env c = Ok \<or> b_running w | Quit _ \<Rightarrow> env c \<noteq> Ok \<and> b_running w | _ \<Rightarrow> b_running w)"
proof (cases c)
  case (Screenshot f)
  then show ?thesis
    by (cases "env (Screenshot f)"; cases "env (WriteFile f)")
       (simp_all add: exec_def save_screenshot_def call_def call_effect_def Let_def)
qed (simp_all add: exec_def call_def call_effect_def Let_def)

lemma exec_Ok: "returns env c \<Longrightarrow> exec env c w = (Ok, snd (exec env c w))"
  using exec_result[of env c w] by (metis prod.collapse)

lemma run_body_normal:
  "list_all (returns env) cs \<Longrightarrow>
   run_body env cs drv w = (Ok, drv \<or> Launch \<in> set cs, fold (\<lambda>c w. snd (exec env c w)) cs w)"
proof (induction cs arbitrary: drv w)
  case (Cons c cs)
  obtain w0 where ex: "exec env c w = (Ok, w0)" using exec_Ok[of env c w] Cons.prems by auto
  then show ?case using Cons by auto
qed simp

lemma run_body_Ok: "run_body env cs drv w = (Ok, d, w') \<Longrightarrow> list_all (returns env) cs"
proof (induction cs arbitrary: drv w)
  case (Cons c cs)
  obtain r w0 where ex: "exec env c w = (r, w0)" by fastforce
  show ?case
  proof (cases "r = Ok")
    case True
    then show ?thesis using Cons ex exec_result[of env c w] by (auto split: if_splits)
  next
    case False
    then show ?thesis using Cons.prems ex by (cases r) auto
  qed
qed simp

lemma run_body_not_Ok: "run_body env cs drv w = (r, d, w') \<Longrightarrow> r \<noteq> Ok \<Longrightarrow> \<exists>c. env c = r"
proof (induction cs arbitrary: drv w)
  case (Cons c cs)
  obtain r0 w0 where ex: "exec env c w = (r0, w0)" by fastforce
  show ?case
  proof (cases "r0 = Ok")
    case True
    then show ?thesis using Cons ex by simp
  next
    case False
    then have "r = r0" using Cons.prems(1) ex by (cases r0) auto
    then show ?thesis using False exec_result[of env c w] ex
      by (cases c) (auto simp: returns_def split: if_splits)
  qed
qed simp

lemma run_body_running:
  "run_body env cs drv w = (r, d, w') \<Longrightarrow> (b_running w \<longrightarrow> drv) \<Longrightarrow> (b_running w' \<longrightarrow> d)"
proof (induction cs arbitrary: drv w)
  case (Cons c cs)
  obtain r0 w0 where ex: "exec env c w = (r0, w0)" by fastforce
  have run0: "b_running w0 = b_running (snd (exec env c w))" using ex by simp
  show ?case
  proof (cases "r0 = Ok")
    case True
    then have rb: "run_body env cs (drv \<or> c = Launch) w0 = (r, d, w')" using Cons.prems(1) ex by simp
    have "b_running w0 \<longrightarrow> drv \<or> c = Launch"
      using Cons.prems(2) unfolding run0 exec_running by (cases c) auto
    then show ?thesis by (rule Cons.IH[OF rb])
  next
    case False
    then have "r = r0 \<and> d = drv \<and> w' = w0" using Cons.prems(1) ex by (cases r0) auto
    moreover have "\<not> returns env c" using False ex exec_result[of env c w] by auto
    ultimately show ?thesis using Cons.prems(2) run0 exec_running[of env c w]
      by (cases c) (auto simp: returns_def)
  qed
qed simp

lemma call_effect_calls [simp]:
  "call_effect c (w\<lparr>b_calls := cs\<rparr>) = (call_effect c w)\<lparr>b_calls := cs\<rparr>"
  "b_calls (call_effect c w) = b_calls w"
  by (cases c; simp add: call_effect_def)+

lemma fold_call_effect_calls [simp]:
  "fold call_effect cs (w\<lparr>b_calls := xs\<rparr>) = (fold call_effect cs w)\<lparr>b_calls := xs\<rparr>"
  by (induction cs arbitrary: w) simp_all

lemma fold_exec_plain:
  "list_all (\<lambda>c. env c = Ok \<and> (\<forall>f. c \<noteq> Screenshot f)) cs \<Longrightarrow>
   fold (\<lambda>c w. snd (exec env c w)) cs w = (fold call_effect cs w)\<lparr>b_calls := b_calls w @ cs\<rparr>"
proof (induction cs arbitrary: w)
  case (Cons c cs)
  have "snd (exec env c w) = (call_effect c w)\<lparr>b_calls := b_calls w @ [c]\<rparr>"
    using Cons.prems by (cases c) (simp_all add: exec_def call_def)
  then show ?case using Cons by simp
qed simp

lemma exec_Screenshot_returns:
  "returns env (Screenshot f) \<Longrightarrow>
   snd (exec env (Screenshot f) w) =
     w\<lparr>b_calls := b_calls w @ [Screenshot f, WriteFile f],
       b_files := b_files w @ (if env (WriteFile f) = Ok then [f] else [])\<rparr>"
  by (cases "env (WriteFile f)") (simp_all add: returns_def exec_def save_screenshot_def call_def call_effect_def)

lemma returns_try_body:
  "list_all (returns env) (try_body f) \<longleftrightarrow>
   list_all (\<lambda>c. env c = Ok) (try_body f) \<and> env (WriteFile f) \<noteq> Interrupted"
  by (auto simp: try_body_def returns_def)

lemma try_body_split:
  "try_body f = take 8 (try_body f) @ Screenshot f # drop 9 (try_body f)"
  by (simp add: try_body_def)

lemma try_body_fold:
  assumes "list_all (returns env) (try_body f)"
  shows "fold (\<lambda>c w. snd (exec env c w)) (try_body f) w =
           w\<lparr>b_calls := b_calls w @ take 9 (try_body f) @ WriteFile f # drop 9 (try_body f),
             b_running := False,
             b_files := b_files w @ (if env (WriteFile f) = Ok then [f] else [])\<rparr>"
proof -
  have pre: "list_all (\<lambda>c. env c = Ok \<and> (\<forall>f. c \<noteq> Screenshot f)) (take 8 (try_body f))"
    and post: "list_all (\<lambda>c. env c = Ok \<and> (\<forall>f. c \<noteq> Screenshot f)) (drop 9 (try_body f))"
    and sh: "returns env (Screenshot f)"
    using assms by (simp_all add: try_body_def returns_def)
  show ?thesis
    apply (subst try_body_split)
    apply (simp only: fold_append fold_Cons comp_def fold_exec_plain[OF pre] fold_exec_plain[OF post]
                      exec_Screenshot_returns[OF sh])
    apply (cases w)
    apply (simp add: try_body_def call_effect_def)
    done
qed

lemma except_handler_not_True: "fst (except_handler env drv w) \<noteq> Returned True"
  by (auto simp: except_handler_def split: prod.split call_result.split)

lemma take_screenshot_Returned_True:
  "take_screenshot_simple env now w = (Returned True, w') \<longleftrightarrow>
   list_all (returns env) (try_body (screenshot_file now)) \<and>
   w' = fold (\<lambda>c w. snd (exec env c w)) (try_body (screenshot_file now)) w"
proof
  assume r: "take_screenshot_simple env now w = (Returned True, w')"
  obtain res d w1 where rb: "run_body env (try_body (screenshot_file now)) False w = (res, d, w1)"
    by (metis prod_cases3)
  have "res = Ok"
    using r rb except_handler_not_True[of env d w1]
    by (cases res) (auto simp: take_screenshot_simple_def)
  then have "list_all (returns env) (try_body (screenshot_file now))"
    using rb by (blast intro: run_body_Ok)
  with r show "list_all (returns env) (try_body (screenshot_file now)) \<and>
      w' = fold (\<lambda>c w. snd (exec env c w)) (try_body (screenshot_file now)) w"
    by (simp add: take_screenshot_simple_def run_body_normal)
qed (simp add: take_screenshot_simple_def run_body_normal)

subsection \<open>Outcomes of the tool\<close>

text \<open>C21. The tool reports success exactly when every call of the \<open>try\<close> block returns
  and the write inside \<open>save_screenshot\<close> is not interrupted; it has then made those
  calls in order and stopped the browser it started, but it has written
  \<open>vietnam_airlines_screenshot_<now>.png\<close> only when the write succeeded: an
  \<open>OSError\<close> of the write makes \<open>save_screenshot\<close> return False, which line 31
  ignores, and the tool still prints its success message and returns True.\<close>

theorem screenshot_success:
  "take_screenshot_simple env now w = (Returned True, w') \<longleftrightarrow>
   list_all (\<lambda>c. env c = Ok) (try_body (screenshot_file now)) \<and>
   env (WriteFile (screenshot_file now)) \<noteq> Interrupted \<and>
   w' = w\<lparr>b_calls := b_calls w @ take 9 (try_body (screenshot_file now)) @
                      WriteFile (screenshot_file now) # drop 9 (try_body (screenshot_file now)),
          b_running := False,
          b_files := b_files w @ (if env (WriteFile (screenshot_file now)) = Ok
                                  then [screenshot_file now] else [])\<rparr>"
  unfolding take_screenshot_Returned_True returns_try_body
  using try_body_fold[of env "screenshot_file now" w, unfolded returns_try_body] by auto

text \<open>C20. No browser is left running when nothing interrupts the tool and the handler's
  print and \<open>quit\<close> succeed: whichever call of the \<open>try\<close> block raises, the
  handler quits the browser if one was started.\<close>

theorem screenshot_quits_browser:
  assumes "\<not> b_running w" and "\<forall>c. env c \<noteq> Interrupted"
    and "env (Print 46) = Ok" and "env (Quit 48) = Ok"
  shows "\<not> b_running (snd (take_screenshot_simple env now w))"
proof -
  obtain r d w1 where rb: "run_body env (try_body (screenshot_file now)) False w = (r, d, w1)"
    by (metis prod_cases3)
  have inv: "b_running w1 \<longrightarrow> d" using run_body_running[OF rb] assms(1) by simp
  show ?thesis
  proof (cases r)
    case Ok
    then have "list_all (returns env) (try_body (screenshot_file now))"
      using rb by (blast intro: run_body_Ok)
    then show ?thesis by (simp add: take_screenshot_simple_def run_body_normal try_body_fold)
  next
    case Fails
    then show ?thesis using rb inv assms(3,4)
      by (auto simp: take_screenshot_simple_def except_handler_def call_def call_effect_def)
  next
    case Interrupted
    then show ?thesis using run_body_not_Ok[OF rb] assms(2) by auto
  qed
qed

theorem screenshot_quits_browser_witness:
  "\<not> b_running (snd (take_screenshot_simple (\<lambda>c. if c = Title then Fails else Ok) 1700000000
                         \<lparr>b_calls = [], b_running = False, b_files = []\<rparr>))"
  by (rule screenshot_quits_browser) simp_all

text \<open>C22. Whenever \<open>take_screenshot_simple\<close> returns a value, True or False, no
  browser started by it is left running: the only runs that leave Chrome behind are
  those in which an exception escapes the function (a \<open>KeyboardInterrupt\<close>, or an
  exception raised inside the handler).\<close>

theorem screenshot_returns_no_browser:
  assumes "\<not> b_running w" and "take_screenshot_simple env now w = (Returned b, w')"
  shows "\<not> b_running w'"
proof -
  obtain r d w1 where rb: "run_body env (try_body (screenshot_file now)) False w = (r, d, w1)"
    by (metis prod_cases3)
  have inv: "b_running w1 \<longrightarrow> d" using run_body_running[OF rb] assms(1) by simp
  show ?thesis
  proof (cases r)
    case Ok
    then have ok: "list_all (returns env) (try_body (screenshot_file now))"
      using rb by (blast intro: run_body_Ok)
    have "w1 = fold (\<lambda>c w. snd (exec env c w)) (try_body (screenshot_file now)) w"
      using run_body_normal[OF ok, of False w] rb by simp
    moreover have "w' = w1" using assms(2) rb Ok by (simp add: take_screenshot_simple_def)
    ultimately show ?thesis by (simp add: try_body_fold[OF ok])
  next
    case Fails
    then have "except_handler env d w1 = (Returned b, w')"
      using assms(2) rb by (simp add: take_screenshot_simple_def)
    then show ?thesis using inv
      by (cases "env (Print 46)"; cases "env (Quit 48)"; cases d)
         (auto simp: except_handler_def call_def call_effect_def)
  next
    case Interrupted
    then show ?thesis using assms(2) rb by (simp add: take_screenshot_simple_def)
  qed
qed

theorem screenshot_returns_no_browser_witness:
  "take_screenshot_simple (\<lambda>c. if c = Sleep 10 then Fails else Ok) 1700000000
     \<lparr>b_calls = [], b_running = False, b_files = []\<rparr> =
     (Returned False, snd (take_screenshot_simple (\<lambda>c. if c = Sleep 10 then Fails else Ok) 1700000000
                             \<lparr>b_calls = [], b_running = False, b_files = []\<rparr>)) \<and>
   \<not> b_running (snd (take_screenshot_simple (\<lambda>c. if c = Sleep 10 then Fails else Ok) 1700000000
                        \<lparr>b_calls = [], b_running = False, b_files = []\<rparr>))"
proof -
  let ?env = "\<lambda>c. if c = Sleep 10 then Fails else Ok"
  let ?w = "\<lparr>b_calls = [], b_running = False, b_files = []\<rparr>"
  have r: "take_screenshot_simple ?env 1700000000 ?w =
             (Returned False, snd (take_screenshot_simple ?env 1700000000 ?w))"
    by (simp add: take_screenshot_simple_def try_body_def exec_def call_def call_effect_def
                  except_handler_def)
  show ?thesis using r screenshot_returns_no_browser[OF _ r] by simp
qed

end
