(* ===== verification/Spec2Isabelle.thy ===== *)
theory Spec2Isabelle
  imports Reporting Screenshot
begin

text \<open>
  Verification development for the flight-fare predictor of \<open>src/main_model.py\<close>
  (class \<open>FlightPricePredictor\<close> and the script functions \<open>test_saved_model\<close> and
  \<open>__main__\<close>), and the screenshot tool \<open>src/screenshot.py\<close>, which drives a Chrome
  browser through Selenium and passes no data to the predictor.

  \<^bold>\<open>The program.\<close> \<open>run_complete_pipeline\<close> calls, in order,
  \<open>load_and_preprocess_data\<close> (read the CSV, drop duplicates, IQR outlier filter, price
  statistics, timestamp and aircraft-type cleaning), \<open>analyze_data_distribution\<close>
  (prints a price summary), \<open>feature_engineering\<close> (derived columns, popularity counts,
  label encoders, the feature matrix), \<open>train_and_evaluate_models\<close> (80/20 split, shuffled
  5-fold cross-validation of three regressors, selection by mean CV error) and
  \<open>save_model\<close> (pickle the serving attributes). \<open>test_saved_model\<close> loads the file
  into a fresh object and calls \<open>predict_single_flight\<close>, which re-derives the features of
  one request with the stored encoders and statistics and clips the model's output.

  \<^bold>\<open>Theories.\<close> Each is a group of definitions in the order of the code, then its
  lemmas and properties.
  \<^item> \<open>Prelude\<close>: Python exceptions as the datatype \<open>py_error\<close>, a raising computation
    as \<open>py_error + 'a\<close> (\<open>result\<close>, sequenced by \<open>res_bind\<close>), NaN as \<open>None\<close> of
    \<open>'a cell\<close>, pandas' mean and std, first-minimum selection.
  \<^item> \<open>PyBuiltins\<close>, \<open>Calendar\<close>: \<open>str.strip\<close>, \<open>str.split\<close>, \<open>int()\<close> and
    \<open>pd.to_datetime\<close> on ISO-8601 strings, the \<open>.dt\<close> accessors and \<open>.days\<close>.
  \<^item> \<open>DataModel\<close>: raw and cleaned rows, the statistics dictionaries, frame rows and
    requests as association lists.
  \<^item> \<open>LabelEncoder\<close>: sklearn's fit, transform, inverse transform, and the inference
    fallback to code 0 (lines 163--169, 414--426).
  \<^item> \<open>TimeFeatures\<close>, \<open>Features\<close>: both copies of the nested helpers (training,
    lines 107--142, and inference, lines 372--409), \<open>feature_engineering\<close>
    (lines 97--194) and the request's feature row in \<open>predict_single_flight\<close>.
  \<^item> \<open>Predictor\<close>: \<open>predict_single_flight\<close> (lines 353--449) over the record
    \<open>serving\<close> of the persisted attributes; the fitted model is a parameter
    \<open>predict\<close> that may raise.
  \<^item> \<open>Artifact\<close>: \<open>save_model\<close>/\<open>load_model\<close> (lines 321--352) over an explicit
    file store, updated in one step; \<open>load_model\<close> assigns key by key and is not
    atomic.
  \<^item> \<open>Cleaning\<close>: \<open>load_and_preprocess_data\<close> (lines 34--95) with pandas' linear
    quantiles and NaN comparisons; \<open>drop_duplicates\<close> is shown equal to the
    keep-first reference \<open>rev (remdups (rev xs))\<close>.
  \<^item> \<open>Trainer\<close>: \<open>train_and_evaluate_models\<close> (lines 196--288); the regressors'
    fit/predict and the \<open>RandomState(42)\<close> permutation are parameters.
  \<^item> \<open>Pipeline\<close>: the object as the record \<open>predictor\<close>, each method a function
    returning its exception or value with the updated object (\<open>feature_engineering\<close>
    raises AttributeError on an empty table, line 101), \<open>run_complete_pipeline\<close>,
    \<open>test_saved_model\<close>, the \<open>__main__\<close> script (\<open>main_script\<close>), and the inductive set \<open>reachable_world\<close> of the worlds
    (object and file store) reached by any sequence of method calls whose exceptions a
    client catches.
  \<^item> \<open>Reporting\<close>: \<open>analyze_data_distribution\<close>, the feature-importance table
    (lines 279--288) and \<open>demo_predictions\<close>, with their printed values as results.
  \<^item> \<open>Screenshot\<close>: \<open>take_screenshot_simple\<close> and the \<open>__main__\<close> block of
    \<open>src/screenshot.py\<close> over an environment that answers each browser, sleep and print
    call by returning or raising; \<open>save_screenshot\<close> as Selenium implements it, the
    screenshot command followed by the file write, whose \<open>OSError\<close> becomes
    \<open>return False\<close>.

  \<^bold>\<open>What is shown.\<close> Training and inference derive the same features (\<open>Features\<close>);
  the encoders are bijections on their classes and round-trip (\<open>LabelEncoder\<close>); the
  selected model has the least mean CV error and its selection never reads the test rows
  (\<open>Trainer\<close>); cleaning keeps exactly the deduplicated in-bound rows with parseable
  fields, its statistics are ordered, and repeated CSV records change nothing
  (\<open>Cleaning\<close>); saving and loading
  round-trip every persisted attribute and preserve every prediction (\<open>Artifact\<close>, and
  \<open>test_saved_model_agrees\<close> below); every reachable world is consistent, training
  succeeds exactly on tables of at least 7 rows, from any state of the object the
  training calls bring it back to a trained and saved state, and the script's test
  prediction is the trained model's (\<open>Pipeline\<close>); the printed report and
  demo agree with the stored statistics and predictions, and the importance table lists
  the ten most important features (\<open>Reporting\<close>); the screenshot tool reports
  success exactly when every call of its \<open>try\<close> block returns, it quits the browser
  after a caught exception, and whenever it returns a value no browser is left running
  (\<open>Screenshot\<close>). Several
  properties record where the code departs from its specification: the price statistics
  cover rows dropped later, rows missing a class, flight number, airport or clock string
  survive, the clipping floor can exceed the ceiling, a missing categorical key raises
  KeyError, clock fields are not range-checked so that the training flight duration is
  unbounded, an unseen category collides with code 0, \<open>load_model\<close> can fail
  half-way, and the screenshot tool reports success although the file write failed.

  \<^bold>\<open>Termination and bounds.\<close> Every loop of the program iterates over a finite list
  (rows, columns, the three models, the five folds, the demo flights), so every operation
  is a total function defined by structural recursion or a list combinator; no fuel or
  partial function is needed and each operation's result is always defined. The external
  calls of the screenshot tool are assumed to return or raise; \<open>take_screenshot_simple\<close>
  then makes at most nineteen of them, in a fixed order.

  \<^bold>\<open>Not modelled.\<close> \<open>read_csv\<close>'s parsing of the file (the input is the parsed
  rows); the column-wise \<open>pd.to_datetime(self.df['create_at'], errors='coerce')\<close> is
  modelled value by value, as pandas 1.x parses it, while pandas 2.x infers one format
  from the first value and turns values in another layout into NaT (the repository pins
  no pandas version, so neither can be preferred); formats beyond the ISO forms, time
  zones, Unicode whitespace in \<open>strip\<close>, the regressors' learning algorithms, plotting and
  console output other than the values the report and demo print. \<open>read_csv\<close>'s
  dtype inference: a column with no text cell (all NaN, or all numeric) is not a string
  column, and \<open>.str\<close> at lines 90 and 154 then raises AttributeError, while the model
  reads every cell as text. A reader that loads the model file while \<open>pickle.dump\<close>
  is still writing it (the file is truncated by \<open>open(filename, 'wb')\<close> and replaced
  in place). \<open>r2_score\<close> on fewer than two rows (NaN), which the pipeline never
  reaches since the test split has at least two rows when training succeeds. The
  behaviour of Selenium, Chrome and the web page behind the calls of the screenshot
  tool, beyond the error handling of \<open>save_screenshot\<close>.
\<close>

subsection \<open>Properties across components\<close>

text \<open>C12. Training and serving agree through the model file: after the predictor saves
  its bundle to \<open>flight_price_model.pkl\<close>, \<open>test_saved_model\<close> (a fresh predictor that
  loads the file and predicts the fixed test flight) obtains exactly the outcome, price or
  exception, that the saving predictor itself gives for that flight.\<close>

theorem test_saved_model_agrees:
  "test_saved_model predict (save_model model_file st fs) = Inr (predict_single_flight predict st test_flight)"
  by (simp add: test_saved_model_def load_model_def save_model_def load_bundle_of predict_single_flight_serving)

end
